theory Spec2Isabelle
  imports Main "HOL-Library.Word" "HOL-Library.Sublist"
begin

unbundle bit_operations_syntax

section \<open>Control flow of the native code\<close>

text \<open>
  A JNI reference is an opaque handle; \<open>nullptr\<close> is the handle 0.  The classes
  \<open>jclass\<close>, \<open>jstring\<close>, \<open>jobjectArray\<close> and \<open>jthrowable\<close> are all
  \<open>jobject\<close>s in C++, and method and field identifiers are opaque as well.
\<close>

type_synonym jobject = nat
type_synonym jclass = jobject
type_synonym jstring = jobject
type_synonym jobjectArray = jobject
type_synonym jthrowable = jobject
type_synonym jmethodID = nat
type_synonym jfieldID = nat
type_synonym jint = int

abbreviation nullptr :: jobject where
  "nullptr \<equiv> 0"

text \<open>The \<open>jvalue\<close> union, tagged with the member that was written.\<close>

datatype jvalue =
    Z "8 word" | B "8 word" | C "16 word" | S "16 word" | I "32 word"
  | J "64 word" | F "32 word" | D "64 word" | L jobject

text \<open>
  \<open>jni::JNIException\<close> (JNIHelper.hpp, lines 11-20) derives from
  \<open>std::runtime_error\<close>; it is the only exception the code throws.  It carries the
  message and the captured Java throwable.
\<close>

datatype exception = JNIException string jthrowable

fun getJavaException :: "exception \<Rightarrow> jthrowable" where
  "getJavaException (JNIException message javaThrowable) = javaThrowable"

text \<open>
  A C++ computation on a state \<open>'s\<close> returns a value, leaves by a thrown exception, or
  ends the process (\<open>Abort\<close>: the JNI call was made outside its contract, which the
  Android runtime answers with a fatal abort).
\<close>

datatype 'a outcome = Return 'a | Throw exception | Abort

type_synonym ('a, 's) prog = "'s \<Rightarrow> 'a outcome \<times> 's"

definition ret :: "'a \<Rightarrow> ('a, 's) prog" where
  "ret a s = (Return a, s)"

definition abort :: "('a, 's) prog" where
  "abort s = (Abort, s)"

definition bnd :: "('a, 's) prog \<Rightarrow> ('a \<Rightarrow> ('b, 's) prog) \<Rightarrow> ('b, 's) prog" where
  "bnd m f s =
     (case m s of
        (Return a, s') \<Rightarrow> f a s'
      | (Throw e, s') \<Rightarrow> (Throw e, s')
      | (Abort, s') \<Rightarrow> (Abort, s'))"

text \<open>\<open>try { m } catch (const std::exception& e) { h e }\<close>\<close>

definition try_catch :: "('a, 's) prog \<Rightarrow> (exception \<Rightarrow> ('a, 's) prog) \<Rightarrow> ('a, 's) prog" where
  "try_catch m h s =
     (case m s of
        (Return a, s') \<Rightarrow> (Return a, s')
      | (Throw e, s') \<Rightarrow> h e s'
      | (Abort, s') \<Rightarrow> (Abort, s'))"

fun for_each :: "('a \<Rightarrow> (unit, 's) prog) \<Rightarrow> 'a list \<Rightarrow> (unit, 's) prog" where
  "for_each f [] = ret ()"
| "for_each f (x # xs) = bnd (f x) (\<lambda>_. for_each f xs)"

section \<open>The observed system\<close>

text \<open>
  What \<open>stat\<close> reports of a file: the mode word and the owner.  A file system maps a
  path to its file, and says on which paths the calling process may change the mode.
\<close>

record stat_t =
  st_mode :: "32 word"
  st_uid :: "32 word"

record filesystem =
  files :: "string \<Rightarrow> stat_t option"
  chmod_permitted :: "string \<Rightarrow> bool"

text \<open>
  The world a probe runs in: the pending Java exception of the calling thread, the rest
  of the managed runtime (\<open>vm\<close>, opaque), the file system, and the variables of the
  program that includes the two headers (\<open>statics\<close>, opaque: the headers declare
  constants only, and none of their functions names a variable that outlives its call).
  \<open>thrown\<close> is a history variable: every C++ \<open>throw\<close> appends its exception, and
  nothing reads it.
\<close>

record ('vm, 'p) world =
  pending :: "jthrowable option"
  vm :: 'vm
  fs :: filesystem
  statics :: 'p
  thrown :: "exception list"

text \<open>The C++ statement \<open>throw e\<close>.\<close>

definition throw :: "exception \<Rightarrow> ('a, ('vm, 'p) world) prog" where
  "throw e w = (Throw e, w\<lparr>thrown := thrown w @ [e]\<rparr>)"

text \<open>
  A function of the \<open>JNIEnv\<close> table runs on the managed runtime: it returns a value,
  may raise a Java exception (which then is pending) and may change the runtime.
\<close>

type_synonym ('a, 'vm) raw = "'vm \<Rightarrow> 'a \<times> jthrowable option \<times> 'vm"

record 'vm JNIEnv =
  fnFindClass :: "string \<Rightarrow> (jclass, 'vm) raw"
  fnGetObjectClass :: "jobject \<Rightarrow> (jclass, 'vm) raw"
  fnGetMethodID :: "jclass \<Rightarrow> string \<Rightarrow> string \<Rightarrow> (jmethodID, 'vm) raw"
  fnGetStaticMethodID :: "jclass \<Rightarrow> string \<Rightarrow> string \<Rightarrow> (jmethodID, 'vm) raw"
  fnGetFieldID :: "jclass \<Rightarrow> string \<Rightarrow> string \<Rightarrow> (jfieldID, 'vm) raw"
  fnGetStaticFieldID :: "jclass \<Rightarrow> string \<Rightarrow> string \<Rightarrow> (jfieldID, 'vm) raw"
  fnCallObjectMethodA :: "jobject \<Rightarrow> jmethodID \<Rightarrow> jvalue list \<Rightarrow> (jobject, 'vm) raw"
  fnCallVoidMethodA :: "jobject \<Rightarrow> jmethodID \<Rightarrow> jvalue list \<Rightarrow> (unit, 'vm) raw"
  fnCallStaticObjectMethodA :: "jclass \<Rightarrow> jmethodID \<Rightarrow> jvalue list \<Rightarrow> (jobject, 'vm) raw"
  fnGetObjectField :: "jobject \<Rightarrow> jfieldID \<Rightarrow> (jobject, 'vm) raw"
  fnGetStaticObjectField :: "jclass \<Rightarrow> jfieldID \<Rightarrow> (jobject, 'vm) raw"
  fnNewObjectA :: "jclass \<Rightarrow> jmethodID \<Rightarrow> jvalue list \<Rightarrow> (jobject, 'vm) raw"
  fnNewStringUTF :: "string \<Rightarrow> (jstring, 'vm) raw"
  fnGetStringUTFChars :: "jstring \<Rightarrow> (string option, 'vm) raw"
  fnReleaseStringUTFChars :: "jstring \<Rightarrow> string \<Rightarrow> 'vm \<Rightarrow> 'vm"
  fnGetArrayLength :: "jobjectArray \<Rightarrow> (jint, 'vm) raw"
  fnGetObjectArrayElement :: "jobjectArray \<Rightarrow> jint \<Rightarrow> (jobject, 'vm) raw"
  fnDeleteLocalRef :: "jobject \<Rightarrow> 'vm \<Rightarrow> 'vm"

text \<open>
  \<open>jni f\<close> is the call \<open>env->f(...)\<close>: the value comes back to C++ and a raised
  exception becomes the pending one.  \<open>jni_void\<close> is a call that cannot raise.
\<close>

definition jni :: "('a, 'vm) raw \<Rightarrow> ('a, ('vm, 'p) world) prog" where
  "jni f w =
     (case f (vm w) of
        (a, t, v) \<Rightarrow>
          (Return a,
           w\<lparr>pending := (case t of None \<Rightarrow> pending w | Some x \<Rightarrow> Some x), vm := v\<rparr>))"

definition jni_void :: "('vm \<Rightarrow> 'vm) \<Rightarrow> (unit, ('vm, 'p) world) prog" where
  "jni_void f w = (Return (), w\<lparr>vm := f (vm w)\<rparr>)"

text \<open>
  \<open>GetObjectClass\<close>, \<open>GetArrayLength\<close> and \<open>GetObjectArrayElement\<close> require a
  reference that is not null; the runtime aborts the process otherwise.
\<close>

definition env_GetObjectClass :: "'vm JNIEnv \<Rightarrow> jobject \<Rightarrow> (jclass, ('vm, 'p) world) prog" where
  "env_GetObjectClass env obj =
     (if obj = nullptr then abort else jni (fnGetObjectClass env obj))"

definition env_GetArrayLength :: "'vm JNIEnv \<Rightarrow> jobjectArray \<Rightarrow> (jint, ('vm, 'p) world) prog" where
  "env_GetArrayLength env array =
     (if array = nullptr then abort else jni (fnGetArrayLength env array))"

definition env_GetObjectArrayElement ::
  "'vm JNIEnv \<Rightarrow> jobjectArray \<Rightarrow> jint \<Rightarrow> (jobject, ('vm, 'p) world) prog" where
  "env_GetObjectArrayElement env array i =
     (if array = nullptr then abort else jni (fnGetObjectArrayElement env array i))"

text \<open>The exception functions of the table act on the pending exception alone.\<close>

definition ExceptionCheck :: "(bool, ('vm, 'p) world) prog" where
  "ExceptionCheck w = (Return (pending w \<noteq> None), w)"

definition ExceptionOccurred :: "(jthrowable, ('vm, 'p) world) prog" where
  "ExceptionOccurred w = (Return (case pending w of None \<Rightarrow> nullptr | Some t \<Rightarrow> t), w)"

definition ExceptionDescribe :: "(unit, ('vm, 'p) world) prog" where
  "ExceptionDescribe w = (Return (), w)"

definition ExceptionClear :: "(unit, ('vm, 'p) world) prog" where
  "ExceptionClear w = (Return (), w\<lparr>pending := None\<rparr>)"

section \<open>JNIHelper.hpp\<close>

text \<open>The macro \<open>JNI_CHECK_EXCEPTION\<close>, lines 23-31.\<close>

definition JNI_CHECK_EXCEPTION :: "(unit, ('vm, 'p) world) prog" where
  "JNI_CHECK_EXCEPTION =
     bnd ExceptionCheck (\<lambda>is_pending.
       if is_pending then
         bnd ExceptionOccurred (\<lambda>exception.
         bnd ExceptionDescribe (\<lambda>_.
         bnd ExceptionClear (\<lambda>_.
         throw (JNIException ''JNI exception occurred'' exception))))
       else ret ())"

text \<open>
  \<open>ScopedLocalRef\<close>, lines 34-58: when the scope is left, by return or by exception,
  the destructor deletes the local reference unless it is null.
\<close>

definition ScopedLocalRef :: "'vm JNIEnv \<Rightarrow> jobject \<Rightarrow> ('a, ('vm, 'p) world) prog \<Rightarrow> ('a, ('vm, 'p) world) prog" where
  "ScopedLocalRef env lref body w =
     (case body w of
        (Abort, w') \<Rightarrow> (Abort, w')
      | (r, w') \<Rightarrow>
          (r, if lref \<noteq> nullptr then w'\<lparr>vm := fnDeleteLocalRef env lref (vm w')\<rparr> else w'))"

text \<open>
  \<open>std::string(const char*)\<close> copies the bytes before the first NUL.
\<close>

definition std_string :: "string \<Rightarrow> string" where
  "std_string chars = takeWhile (\<lambda>c. c \<noteq> CHR 0x00) chars"

text \<open>\<open>JStringToString\<close>, lines 61-70.\<close>

definition JStringToString :: "'vm JNIEnv \<Rightarrow> jstring \<Rightarrow> (string, ('vm, 'p) world) prog" where
  "JStringToString env jstr =
     (if jstr = nullptr then ret []
      else
        bnd (jni (fnGetStringUTFChars env jstr)) (\<lambda>chars.
          case chars of
            None \<Rightarrow> ret []
          | Some buf \<Rightarrow>
              bnd (ret (std_string buf)) (\<lambda>result.
              bnd (jni_void (fnReleaseStringUTFChars env jstr buf)) (\<lambda>_.
              ret result))))"

text \<open>
  The helpers of lines 77-110 and every member of \<open>JNITypeTraits\<close> (lines 115-418)
  have one shape: call the table, check for an exception, return the result.
\<close>

definition checked :: "('a, 'vm) raw \<Rightarrow> ('a, ('vm, 'p) world) prog" where
  "checked f =
     bnd (jni f) (\<lambda>result.
     bnd JNI_CHECK_EXCEPTION (\<lambda>_.
     ret result))"

definition StringToJString :: "'vm JNIEnv \<Rightarrow> string \<Rightarrow> (jstring, ('vm, 'p) world) prog" where
  "StringToJString env str = jni (fnNewStringUTF env str)"

definition FindClass :: "'vm JNIEnv \<Rightarrow> string \<Rightarrow> (jclass, ('vm, 'p) world) prog" where
  "FindClass env className = checked (fnFindClass env className)"

definition GetMethodID ::
  "'vm JNIEnv \<Rightarrow> jclass \<Rightarrow> string \<Rightarrow> string \<Rightarrow> (jmethodID, ('vm, 'p) world) prog" where
  "GetMethodID env cls methodName signature =
     checked (fnGetMethodID env cls methodName signature)"

definition GetStaticMethodID ::
  "'vm JNIEnv \<Rightarrow> jclass \<Rightarrow> string \<Rightarrow> string \<Rightarrow> (jmethodID, ('vm, 'p) world) prog" where
  "GetStaticMethodID env cls methodName signature =
     checked (fnGetStaticMethodID env cls methodName signature)"

definition GetFieldID ::
  "'vm JNIEnv \<Rightarrow> jclass \<Rightarrow> string \<Rightarrow> string \<Rightarrow> (jfieldID, ('vm, 'p) world) prog" where
  "GetFieldID env cls fieldName signature =
     checked (fnGetFieldID env cls fieldName signature)"

definition GetStaticFieldID ::
  "'vm JNIEnv \<Rightarrow> jclass \<Rightarrow> string \<Rightarrow> string \<Rightarrow> (jfieldID, ('vm, 'p) world) prog" where
  "GetStaticFieldID env cls fieldName signature =
     checked (fnGetStaticFieldID env cls fieldName signature)"

text \<open>
  \<open>JNITypeTraits<T>\<close>: the template argument selects the function of the table, which
  is passed here as \<open>get\<close> or \<open>call\<close> (\<open>fnGetObjectField env\<close> for \<open>jobject\<close> and
  \<open>jstring\<close>, \<open>fnCallVoidMethodA env\<close> for \<open>void\<close>, and so on for the primitive
  types).
\<close>

definition JNITypeTraits_GetField ::
  "(jobject \<Rightarrow> jfieldID \<Rightarrow> ('r, 'vm) raw) \<Rightarrow> jobject \<Rightarrow> jfieldID \<Rightarrow> ('r, ('vm, 'p) world) prog" where
  "JNITypeTraits_GetField get obj fid = checked (get obj fid)"

definition JNITypeTraits_GetStaticField ::
  "(jclass \<Rightarrow> jfieldID \<Rightarrow> ('r, 'vm) raw) \<Rightarrow> jclass \<Rightarrow> jfieldID \<Rightarrow> ('r, ('vm, 'p) world) prog" where
  "JNITypeTraits_GetStaticField get cls fid = checked (get cls fid)"

definition JNITypeTraits_CallMethod ::
  "(jobject \<Rightarrow> jmethodID \<Rightarrow> jvalue list \<Rightarrow> ('r, 'vm) raw) \<Rightarrow>
     jobject \<Rightarrow> jmethodID \<Rightarrow> jvalue list \<Rightarrow> ('r, ('vm, 'p) world) prog" where
  "JNITypeTraits_CallMethod call obj mid args = checked (call obj mid args)"

definition JNITypeTraits_CallStaticMethod ::
  "(jclass \<Rightarrow> jmethodID \<Rightarrow> jvalue list \<Rightarrow> ('r, 'vm) raw) \<Rightarrow>
     jclass \<Rightarrow> jmethodID \<Rightarrow> jvalue list \<Rightarrow> ('r, ('vm, 'p) world) prog" where
  "JNITypeTraits_CallStaticMethod call cls mid args = checked (call cls mid args)"

text \<open>
  \<open>ArgsToJValues\<close>, lines 421-478.  A C++ argument is a value that already is a
  \<open>jvalue\<close> member (a primitive, a reference or \<open>nullptr\<close>), a \<open>std::string\<close> or a
  \<open>const char*\<close>; strings are converted with \<open>NewStringUTF\<close>, unchecked.
\<close>

datatype cpp_arg = Prim jvalue | StdString string | CString "string option"

fun setJValue :: "'vm JNIEnv \<Rightarrow> cpp_arg \<Rightarrow> (jvalue, ('vm, 'p) world) prog" where
  "setJValue env (Prim v) = ret v"
| "setJValue env (StdString v) = bnd (StringToJString env v) (\<lambda>jstr. ret (L jstr))"
| "setJValue env (CString None) = ret (L nullptr)"
| "setJValue env (CString (Some v)) = bnd (jni (fnNewStringUTF env v)) (\<lambda>jstr. ret (L jstr))"

fun convertArgs :: "'vm JNIEnv \<Rightarrow> cpp_arg list \<Rightarrow> (jvalue list, ('vm, 'p) world) prog" where
  "convertArgs env [] = ret []"
| "convertArgs env (v # rest) =
     bnd (setJValue env v) (\<lambda>jv.
     bnd (convertArgs env rest) (\<lambda>jvs.
     ret (jv # jvs)))"

definition ArgsToJValues :: "'vm JNIEnv \<Rightarrow> cpp_arg list \<Rightarrow> (jvalue list, ('vm, 'p) world) prog" where
  "ArgsToJValues env args = convertArgs env args"

text \<open>
  \<open>CallMethod<RetType>\<close>, lines 481-551.  Without arguments the direct function
  \<open>Call<Type>Method\<close> is used, which is \<open>Call<Type>MethodA\<close> on no arguments.
\<close>

definition CallMethod ::
  "'vm JNIEnv \<Rightarrow> (jobject \<Rightarrow> jmethodID \<Rightarrow> jvalue list \<Rightarrow> ('r, 'vm) raw) \<Rightarrow>
     jobject \<Rightarrow> string \<Rightarrow> string \<Rightarrow> cpp_arg list \<Rightarrow> ('r, ('vm, 'p) world) prog" where
  "CallMethod env call obj methodName signature args =
     bnd (env_GetObjectClass env obj) (\<lambda>cls.
     ScopedLocalRef env cls (
       bnd (GetMethodID env cls methodName signature) (\<lambda>mid.
         if args = [] then
           bnd (jni (call obj mid [])) (\<lambda>result.
           bnd JNI_CHECK_EXCEPTION (\<lambda>_.
           ret result))
         else
           bnd (ArgsToJValues env args) (\<lambda>jvalues.
           JNITypeTraits_CallMethod call obj mid jvalues))))"

text \<open>\<open>CallStaticMethod<RetType>\<close>, lines 554-624.\<close>

definition CallStaticMethod ::
  "'vm JNIEnv \<Rightarrow> (jclass \<Rightarrow> jmethodID \<Rightarrow> jvalue list \<Rightarrow> ('r, 'vm) raw) \<Rightarrow>
     string \<Rightarrow> string \<Rightarrow> string \<Rightarrow> cpp_arg list \<Rightarrow> ('r, ('vm, 'p) world) prog" where
  "CallStaticMethod env call className methodName signature args =
     bnd (FindClass env className) (\<lambda>cls.
     ScopedLocalRef env cls (
       bnd (GetStaticMethodID env cls methodName signature) (\<lambda>mid.
         if args = [] then
           bnd (jni (call cls mid [])) (\<lambda>result.
           bnd JNI_CHECK_EXCEPTION (\<lambda>_.
           ret result))
         else
           bnd (ArgsToJValues env args) (\<lambda>jvalues.
           JNITypeTraits_CallStaticMethod call cls mid jvalues))))"

text \<open>\<open>NewObject\<close>, lines 627-639.\<close>

definition NewObject ::
  "'vm JNIEnv \<Rightarrow> string \<Rightarrow> string \<Rightarrow> cpp_arg list \<Rightarrow> (jobject, ('vm, 'p) world) prog" where
  "NewObject env className constructorSignature args =
     bnd (FindClass env className) (\<lambda>cls.
     ScopedLocalRef env cls (
       bnd (GetMethodID env cls ''<init>'' constructorSignature) (\<lambda>constructor.
       bnd (ArgsToJValues env args) (\<lambda>jvalues.
       bnd (jni (fnNewObjectA env cls constructor jvalues)) (\<lambda>obj.
       bnd JNI_CHECK_EXCEPTION (\<lambda>_.
       ret obj))))))"

text \<open>
  \<open>GetField<T>\<close>, lines 642-656, and \<open>GetStaticField<T>\<close>, lines 659-673.  With a
  signature the \<open>jobject\<close> traits are used and the reference is cast to \<open>T\<close>; without
  one, the traits of \<open>T\<close> and their default signature.
\<close>

definition GetField ::
  "'vm JNIEnv \<Rightarrow> jobject \<Rightarrow> string \<Rightarrow> string \<Rightarrow> (jobject, ('vm, 'p) world) prog" where
  "GetField env obj fieldName signature =
     bnd (env_GetObjectClass env obj) (\<lambda>cls.
     ScopedLocalRef env cls (
       bnd (GetFieldID env cls fieldName signature) (\<lambda>fid.
       JNITypeTraits_GetField (fnGetObjectField env) obj fid)))"

definition GetField_default ::
  "'vm JNIEnv \<Rightarrow> (jobject \<Rightarrow> jfieldID \<Rightarrow> ('r, 'vm) raw) \<Rightarrow> string \<Rightarrow>
     jobject \<Rightarrow> string \<Rightarrow> ('r, ('vm, 'p) world) prog" where
  "GetField_default env get traits_signature obj fieldName =
     bnd (env_GetObjectClass env obj) (\<lambda>cls.
     ScopedLocalRef env cls (
       bnd (GetFieldID env cls fieldName traits_signature) (\<lambda>fid.
       JNITypeTraits_GetField get obj fid)))"

definition GetStaticField ::
  "'vm JNIEnv \<Rightarrow> string \<Rightarrow> string \<Rightarrow> string \<Rightarrow> (jobject, ('vm, 'p) world) prog" where
  "GetStaticField env className fieldName signature =
     bnd (FindClass env className) (\<lambda>cls.
     ScopedLocalRef env cls (
       bnd (GetStaticFieldID env cls fieldName signature) (\<lambda>fid.
       JNITypeTraits_GetStaticField (fnGetStaticObjectField env) cls fid)))"

definition GetStaticField_default ::
  "'vm JNIEnv \<Rightarrow> (jclass \<Rightarrow> jfieldID \<Rightarrow> ('r, 'vm) raw) \<Rightarrow> string \<Rightarrow>
     string \<Rightarrow> string \<Rightarrow> ('r, ('vm, 'p) world) prog" where
  "GetStaticField_default env get traits_signature className fieldName =
     bnd (FindClass env className) (\<lambda>cls.
     ScopedLocalRef env cls (
       bnd (GetStaticFieldID env cls fieldName traits_signature) (\<lambda>fid.
       JNITypeTraits_GetStaticField get cls fid)))"

section \<open>SignatureCheck.hpp\<close>

text \<open>
  \<open>std::string::find\<close> from position 0: the index of the first occurrence, \<open>None\<close>
  for \<open>npos\<close>.  The logging macros \<open>LOGI\<close> and \<open>LOGE\<close> decide nothing and are
  left out.
\<close>

fun str_find :: "string \<Rightarrow> string \<Rightarrow> nat option" where
  "str_find [] p = (if p = [] then Some 0 else None)"
| "str_find (c # cs) p =
     (if prefix p (c # cs) then Some 0 else map_option Suc (str_find cs p))"

text \<open>\<open>checkCreator\<close>, lines 26-58: the body of the \<open>try\<close> block, then the probe.\<close>

definition checkCreator_try :: "'vm JNIEnv \<Rightarrow> (bool, ('vm, 'p) world) prog" where
  "checkCreator_try env =
     (let suspicious = False;
          expectedCreatorName = ''android.content.pm.PackageInfo$1'' in
      bnd (GetStaticField env ''android/content/pm/PackageInfo'' ''CREATOR''
             ''Landroid/os/Parcelable$Creator;'') (\<lambda>creatorObject.
      bnd (CallMethod env (fnCallObjectMethodA env) creatorObject
             ''getClass'' ''()Ljava/lang/Class;'' []) (\<lambda>creatorClass.
      bnd (CallMethod env (fnCallObjectMethodA env) creatorClass
             ''getName'' ''()Ljava/lang/String;'' []) (\<lambda>jCreatorName.
      bnd (JStringToString env jCreatorName) (\<lambda>currentCreatorName.
      let suspicious =
            (if str_find currentCreatorName ''android.content.pm.PackageInfo$'' \<noteq> Some 0
             then True else suspicious);
          suspicious =
            (if expectedCreatorName \<noteq> currentCreatorName then True else suspicious)
      in ret suspicious)))))"

definition checkCreator :: "'vm JNIEnv \<Rightarrow> (bool, ('vm, 'p) world) prog" where
  "checkCreator env = try_catch (checkCreator_try env) (\<lambda>e. ret True)"

text \<open>\<open>checkField\<close>, lines 61-94.\<close>

definition checkField_log :: "'vm JNIEnv \<Rightarrow> jobjectArray \<Rightarrow> jint \<Rightarrow> (unit, ('vm, 'p) world) prog" where
  "checkField_log env fieldArray i =
     bnd (env_GetObjectArrayElement env fieldArray i) (\<lambda>field.
     ScopedLocalRef env field (
       bnd (CallMethod env (fnCallObjectMethodA env) field
              ''getName'' ''()Ljava/lang/String;'' []) (\<lambda>fieldName.
       bnd (JStringToString env fieldName) (\<lambda>fieldNameStr.
       ret ()))))"

definition checkField_try :: "'vm JNIEnv \<Rightarrow> (bool, ('vm, 'p) world) prog" where
  "checkField_try env =
     (let suspicious = False in
      bnd (GetStaticField env ''android/content/pm/PackageInfo'' ''CREATOR''
             ''Landroid/os/Parcelable$Creator;'') (\<lambda>creatorObject.
      bnd (CallMethod env (fnCallObjectMethodA env) creatorObject
             ''getClass'' ''()Ljava/lang/Class;'' []) (\<lambda>creatorClass.
      bnd (CallMethod env (fnCallObjectMethodA env) creatorClass
             ''getDeclaredFields'' ''()[Ljava/lang/reflect/Field;'' []) (\<lambda>fieldArray.
      bnd (env_GetArrayLength env fieldArray) (\<lambda>fieldCount.
      if fieldCount > 0 then
        (let suspicious = True in
         bnd (for_each (checkField_log env fieldArray) (map int [0..<nat fieldCount])) (\<lambda>_.
         ret suspicious))
      else ret suspicious)))))"

definition checkField :: "'vm JNIEnv \<Rightarrow> (bool, ('vm, 'p) world) prog" where
  "checkField env = try_catch (checkField_try env) (\<lambda>e. ret True)"

text \<open>\<open>checkCreators\<close>, lines 96-147.\<close>

definition checkCreators_try :: "'vm JNIEnv \<Rightarrow> (bool, ('vm, 'p) world) prog" where
  "checkCreators_try env =
     (let suspicious = False in
      bnd (GetStaticField env ''android/content/pm/PackageInfo'' ''CREATOR''
             ''Landroid/os/Parcelable$Creator;'') (\<lambda>creator.
      bnd (CallMethod env (fnCallObjectMethodA env) creator
             ''toString'' ''()Ljava/lang/String;'' []) (\<lambda>jCreatorString.
      bnd (JStringToString env jCreatorString) (\<lambda>creatorString.
      let suspicious =
            (if creatorString \<noteq> [] then
               (if str_find creatorString ''android.content.pm.PackageInfo$'' \<noteq> Some 0
                then True else suspicious)
             else suspicious) in
      bnd (CallMethod env (fnCallObjectMethodA env) creator
             ''getClass'' ''()Ljava/lang/Class;'' []) (\<lambda>creatorClass.
      bnd (CallMethod env (fnCallObjectMethodA env) creatorClass
             ''getClassLoader'' ''()Ljava/lang/ClassLoader;'' []) (\<lambda>creatorClassloader.
      bnd (CallStaticMethod env (fnCallStaticObjectMethodA env) ''java/lang/ClassLoader''
             ''getSystemClassLoader'' ''()Ljava/lang/ClassLoader;'' []) (\<lambda>sysClassloader.
      bnd (CallMethod env (fnCallObjectMethodA env) creatorClassloader
             ''getClass'' ''()Ljava/lang/Class;'' []) (\<lambda>creatorClassloaderClass.
      bnd (CallMethod env (fnCallObjectMethodA env) sysClassloader
             ''getClass'' ''()Ljava/lang/Class;'' []) (\<lambda>sysClassloaderClass.
      bnd (CallMethod env (fnCallObjectMethodA env) creatorClassloaderClass
             ''getName'' ''()Ljava/lang/String;'' []) (\<lambda>jCreatorClassloaderName.
      bnd (CallMethod env (fnCallObjectMethodA env) sysClassloaderClass
             ''getName'' ''()Ljava/lang/String;'' []) (\<lambda>jSysClassloaderName.
      bnd (JStringToString env jCreatorClassloaderName) (\<lambda>creatorClassloaderName.
      bnd (JStringToString env jSysClassloaderName) (\<lambda>sysClassloaderName.
      if creatorClassloader = nullptr \<or> sysClassloader = nullptr then ret True
      else if sysClassloaderName = creatorClassloaderName then ret True
      else ret suspicious)))))))))))))"

definition checkCreators :: "'vm JNIEnv \<Rightarrow> (bool, ('vm, 'p) world) prog" where
  "checkCreators env = try_catch (checkCreators_try env) (\<lambda>e. ret True)"

text \<open>
  \<open>checkPMProxy\<close>, lines 149-186.  \<open>JNI_TRUE\<close> is the \<open>int\<close> constant 1, which
  \<open>ArgsToJValues\<close> stores as a \<open>jint\<close>.
\<close>

definition checkPMProxy_try :: "'vm JNIEnv \<Rightarrow> jobject \<Rightarrow> (bool, ('vm, 'p) world) prog" where
  "checkPMProxy_try env context =
     (let suspicious = False;
          expectedPMName = ''android.content.pm.IPackageManager$Stub$Proxy'' in
      bnd (CallMethod env (fnCallObjectMethodA env) context ''getPackageManager''
             ''()Landroid/content/pm/PackageManager;'' []) (\<lambda>packageManager.
      bnd (CallMethod env (fnCallObjectMethodA env) packageManager
             ''getClass'' ''()Ljava/lang/Class;'' []) (\<lambda>packageManagerClass.
      bnd (jni (fnNewStringUTF env ''mPM'')) (\<lambda>fieldNameStr.
      bnd (CallMethod env (fnCallObjectMethodA env) packageManagerClass ''getDeclaredField''
             ''(Ljava/lang/String;)Ljava/lang/reflect/Field;'' [Prim (L fieldNameStr)]) (\<lambda>mPMField.
      bnd (CallMethod env (fnCallVoidMethodA env) mPMField
             ''setAccessible'' ''(Z)V'' [Prim (I 1)]) (\<lambda>_.
      bnd (CallMethod env (fnCallObjectMethodA env) mPMField ''get''
             ''(Ljava/lang/Object;)Ljava/lang/Object;'' [Prim (L packageManager)]) (\<lambda>mPM.
      bnd (CallMethod env (fnCallObjectMethodA env) mPM
             ''getClass'' ''()Ljava/lang/Class;'' []) (\<lambda>mPMClass.
      bnd (CallMethod env (fnCallObjectMethodA env) mPMClass
             ''getName'' ''()Ljava/lang/String;'' []) (\<lambda>jPMName.
      bnd (JStringToString env jPMName) (\<lambda>currentPMName.
      bnd (jni_void (fnDeleteLocalRef env fieldNameStr)) (\<lambda>_.
      if expectedPMName \<noteq> currentPMName then ret True
      else ret suspicious)))))))))))"

definition checkPMProxy :: "'vm JNIEnv \<Rightarrow> jobject \<Rightarrow> (bool, ('vm, 'p) world) prog" where
  "checkPMProxy env context = try_catch (checkPMProxy_try env context) (\<lambda>e. ret True)"

text \<open>\<open>getApplication\<close>, lines 188-196.\<close>

definition getApplication_try :: "'vm JNIEnv \<Rightarrow> (jobject, ('vm, 'p) world) prog" where
  "getApplication_try env =
     bnd (CallStaticMethod env (fnCallStaticObjectMethodA env) ''android/app/ActivityThread''
            ''currentActivityThread'' ''()Landroid/app/ActivityThread;'' []) (\<lambda>activityThread.
     GetField env activityThread ''mInitialApplication'' ''Landroid/app/Application;'')"

definition getApplication :: "'vm JNIEnv \<Rightarrow> (jobject, ('vm, 'p) world) prog" where
  "getApplication env = try_catch (getApplication_try env) (\<lambda>e. ret nullptr)"

text \<open>\<open>checkAppComponentFactory\<close>, lines 221-254.\<close>

definition checkAppComponentFactory_try :: "'vm JNIEnv \<Rightarrow> (bool, ('vm, 'p) world) prog" where
  "checkAppComponentFactory_try env =
     (let suspicious = False;
          originalAppComponentFactory = ''androidx.core.app.CoreComponentFactory'' in
      bnd (getApplication env) (\<lambda>application.
      if application \<noteq> nullptr then
        bnd (CallMethod env (fnCallObjectMethodA env) application ''getApplicationInfo''
               ''()Landroid/content/pm/ApplicationInfo;'' []) (\<lambda>applicationInfo.
        bnd (GetField env applicationInfo ''appComponentFactory''
               ''Ljava/lang/String;'') (\<lambda>jAppComponentFactory.
        if jAppComponentFactory \<noteq> nullptr then
          bnd (JStringToString env jAppComponentFactory) (\<lambda>appComponentFactory.
          if appComponentFactory \<noteq> originalAppComponentFactory then ret True
          else ret suspicious)
        else ret suspicious))
      else ret suspicious))"

definition checkAppComponentFactory :: "'vm JNIEnv \<Rightarrow> (bool, ('vm, 'p) world) prog" where
  "checkAppComponentFactory env =
     try_catch (checkAppComponentFactory_try env) (\<lambda>e. ret True)"

text \<open>\<open>getApkPath\<close>, lines 256-267.\<close>

definition getApkPath :: "'vm JNIEnv \<Rightarrow> jobject \<Rightarrow> (string, ('vm, 'p) world) prog" where
  "getApkPath env context =
     try_catch
       (bnd (CallMethod env (fnCallObjectMethodA env) context ''getApplicationInfo''
               ''()Landroid/content/pm/ApplicationInfo;'' []) (\<lambda>applicationInfo.
        bnd (GetField env applicationInfo ''sourceDir'' ''Ljava/lang/String;'') (\<lambda>jSourceDir.
        JStringToString env jSourceDir)))
       (\<lambda>e. ret [])"

text \<open>
  The platform calls \<open>stat\<close> and \<open>chmod\<close>.  \<open>stat\<close> succeeds on an existing file;
  \<open>chmod\<close> succeeds on an existing file whose mode the process may change, and then
  replaces the twelve permission bits.  The octal constants of the source are written in
  hexadecimal: 0777 is \<open>0x1FF\<close>, 0644 is \<open>0x1A4\<close>, 07777 is \<open>0xFFF\<close>.
\<close>

abbreviation mode_0777 :: "32 word" where
  "mode_0777 \<equiv> 0x1FF"

abbreviation mode_0644 :: "32 word" where
  "mode_0644 \<equiv> 0x1A4"

abbreviation mode_07777 :: "32 word" where
  "mode_07777 \<equiv> 0xFFF"

definition stat :: "string \<Rightarrow> filesystem \<Rightarrow> stat_t option" where
  "stat path f = files f path"

definition chmod :: "string \<Rightarrow> 32 word \<Rightarrow> filesystem \<Rightarrow> int \<times> filesystem" where
  "chmod path mode f =
     (case files f path of
        None \<Rightarrow> (- 1, f)
      | Some st \<Rightarrow>
          if chmod_permitted f path then
            (0, f\<lparr>files := (files f)(path \<mapsto>
                   st\<lparr>st_mode := (st_mode st AND NOT mode_07777) OR (mode AND mode_07777)\<rparr>)\<rparr>)
          else (- 1, f))"

definition fs_prog :: "(filesystem \<Rightarrow> 'a \<times> filesystem) \<Rightarrow> ('a, ('vm, 'p) world) prog" where
  "fs_prog g w = (case g (fs w) of (a, f) \<Rightarrow> (Return a, w\<lparr>fs := f\<rparr>))"

text \<open>
  The four loops of \<open>checkApkPaths\<close>.  The first three carry the flag of the loop and
  \<open>suspicious\<close>, and leave at the first offending path; the last one visits every path.
\<close>

function same_loop :: "string list \<Rightarrow> nat \<Rightarrow> bool \<times> bool \<Rightarrow> bool \<times> bool" where
  "same_loop paths i (allPathsSame, suspicious) =
     (if i < length paths then
        (if paths ! i \<noteq> paths ! 0 then (False, True)
         else same_loop paths (i + 1) (allPathsSame, suspicious))
      else (allPathsSame, suspicious))"
  by pat_completeness auto
termination
  by (relation "measure (\<lambda>(paths, i, st). length paths - i)") auto

declare same_loop.simps [simp del]

fun startWith_loop :: "string list \<Rightarrow> bool \<times> bool \<Rightarrow> bool \<times> bool" where
  "startWith_loop [] st = st"
| "startWith_loop (path # rest) (allStartWithDataApp, suspicious) =
     (if str_find path ''/data/app/'' \<noteq> Some 0 then (False, True)
      else startWith_loop rest (allStartWithDataApp, suspicious))"

fun endWith_loop :: "string list \<Rightarrow> bool \<times> bool \<Rightarrow> bool \<times> bool" where
  "endWith_loop [] st = st"
| "endWith_loop (path # rest) (allEndWithBaseApk, suspicious) =
     (if length path < 9 \<or> drop (length path - 9) path \<noteq> ''/base.apk'' then (False, True)
      else endWith_loop rest (allEndWithBaseApk, suspicious))"

fun perm_loop :: "string list \<Rightarrow> bool \<Rightarrow> filesystem \<Rightarrow> bool \<times> filesystem" where
  "perm_loop [] suspicious f = (suspicious, f)"
| "perm_loop (path # rest) suspicious f =
     (case stat path f of
        Some st \<Rightarrow>
          (let correctPermissions = (st_mode st AND mode_0777 = mode_0644);
               correctOwner = (st_uid st = 1000);
               suspicious = (if \<not> correctPermissions then True else suspicious);
               suspicious = (if \<not> correctOwner then True else suspicious) in
           case chmod path mode_0777 f of
             (rc, f) \<Rightarrow>
               (let canChangePermissions = (rc = 0) in
                if canChangePermissions then
                  (case chmod path mode_0644 f of (rc', f) \<Rightarrow> perm_loop rest True f)
                else perm_loop rest suspicious f))
      | None \<Rightarrow> perm_loop rest True f)"

text \<open>
  \<open>checkApkPaths\<close>, lines 270-407: the paths are collected (lines 274-319), then
  checked (lines 321-399).
\<close>

definition collectApkPaths :: "'vm JNIEnv \<Rightarrow> jobject \<Rightarrow> (string list, ('vm, 'p) world) prog" where
  "collectApkPaths env context =
     bnd (CallMethod env (fnCallObjectMethodA env) context ''getPackageResourcePath''
            ''()Ljava/lang/String;'' []) (\<lambda>jResourcePath.
     bnd (JStringToString env jResourcePath) (\<lambda>resourcePath.
     bnd (CallMethod env (fnCallObjectMethodA env) context ''getPackageCodePath''
            ''()Ljava/lang/String;'' []) (\<lambda>jCodePath.
     bnd (JStringToString env jCodePath) (\<lambda>codePath.
     bnd (CallMethod env (fnCallObjectMethodA env) context ''getApplicationInfo''
            ''()Landroid/content/pm/ApplicationInfo;'' []) (\<lambda>applicationInfo.
     bnd (GetField env applicationInfo ''sourceDir'' ''Ljava/lang/String;'') (\<lambda>jSourceDir.
     bnd (JStringToString env jSourceDir) (\<lambda>sourceDir.
     bnd (GetField env applicationInfo ''publicSourceDir''
            ''Ljava/lang/String;'') (\<lambda>jPublicSourceDir.
     bnd (JStringToString env jPublicSourceDir) (\<lambda>publicSourceDir.
     bnd (CallMethod env (fnCallObjectMethodA env) context ''getPackageManager''
            ''()Landroid/content/pm/PackageManager;'' []) (\<lambda>packageManager.
     bnd (CallMethod env (fnCallObjectMethodA env) context ''getPackageName''
            ''()Ljava/lang/String;'' []) (\<lambda>packageName.
     bnd (CallMethod env (fnCallObjectMethodA env) packageManager ''getApplicationInfo''
            ''(Ljava/lang/String;I)Landroid/content/pm/ApplicationInfo;''
            [Prim (L packageName), Prim (I 0)]) (\<lambda>applicationInfo2.
     bnd (GetField env applicationInfo2 ''sourceDir''
            ''Ljava/lang/String;'') (\<lambda>jPackageInfoSourceDir.
     bnd (JStringToString env jPackageInfoSourceDir) (\<lambda>packageInfoSourceDir.
     bnd (try_catch (getApkPath env context) (\<lambda>e. ret [])) (\<lambda>nativeApkPath.
     let paths = [resourcePath, codePath, sourceDir, publicSourceDir, packageInfoSourceDir];
         paths = (if nativeApkPath \<noteq> [] then paths @ [nativeApkPath] else paths)
     in ret paths)))))))))))))))"

definition checkPaths :: "string list \<Rightarrow> (bool, ('vm, 'p) world) prog" where
  "checkPaths paths =
     (let suspicious = False;
          (allPathsSame, suspicious) = same_loop paths 1 (True, suspicious);
          (allStartWithDataApp, suspicious) = startWith_loop paths (True, suspicious);
          (allEndWithBaseApk, suspicious) = endWith_loop paths (True, suspicious)
      in fs_prog (perm_loop paths suspicious))"

definition checkApkPaths_try :: "'vm JNIEnv \<Rightarrow> jobject \<Rightarrow> (bool, ('vm, 'p) world) prog" where
  "checkApkPaths_try env context = bnd (collectApkPaths env context) checkPaths"

definition checkApkPaths :: "'vm JNIEnv \<Rightarrow> jobject \<Rightarrow> (bool, ('vm, 'p) world) prog" where
  "checkApkPaths env context = try_catch (checkApkPaths_try env context) (\<lambda>e. ret True)"

text \<open>\<open>checkSignatureBypass\<close>, lines 409-425: \<open>suspicious |= probe\<close>, six times.\<close>

definition checkSignatureBypass :: "'vm JNIEnv \<Rightarrow> jobject \<Rightarrow> (bool, ('vm, 'p) world) prog" where
  "checkSignatureBypass env context =
     (let suspicious = False in
      bnd (checkCreator env) (\<lambda>r.
      let suspicious = (suspicious \<or> r) in
      bnd (checkField env) (\<lambda>r.
      let suspicious = (suspicious \<or> r) in
      bnd (checkCreators env) (\<lambda>r.
      let suspicious = (suspicious \<or> r) in
      bnd (checkPMProxy env context) (\<lambda>r.
      let suspicious = (suspicious \<or> r) in
      bnd (checkAppComponentFactory env) (\<lambda>r.
      let suspicious = (suspicious \<or> r) in
      bnd (checkApkPaths env context) (\<lambda>r.
      let suspicious = (suspicious \<or> r) in
      ret suspicious)))))))"

section \<open>A scripted Android runtime\<close>

text \<open>
  To run the probes on concrete inputs, a small runtime: what an application process
  observes is listed in a record, and the function table answers from it.  References
  are fixed numbers (the context is 1, the \<open>CREATOR\<close> object 4, its class 5, Java
  strings from 100 on); the opaque part of the runtime counts the UTF buffers that are
  handed out and not released.
\<close>

record android =
  creator_class :: string
  creator_string :: string
  creator_fields :: "string list"
  creator_loader :: "string option"
  system_loader :: "string option"
  pm_class :: string
  app_present :: bool
  factory :: "string option"
  resource_path :: string
  code_path :: string
  source_dir :: string
  public_source_dir :: string
  pm_source_dir :: string
  package_name :: string
  missing_classes :: "string list"
  missing_methods :: "string list"

abbreviation NoClassDefFoundError :: jthrowable where
  "NoClassDefFoundError \<equiv> 900"

abbreviation NoSuchMethodError :: jthrowable where
  "NoSuchMethodError \<equiv> 901"

abbreviation NoSuchFieldError :: jthrowable where
  "NoSuchFieldError \<equiv> 902"

definition class_of :: "jobject \<Rightarrow> jclass" where
  "class_of obj =
     (if obj = 1 then 2 else if obj = 4 then 5 else if obj = 7 then 9
      else if obj = 8 then 10 else if obj = 12 then 13 else if obj = 14 then 15
      else if obj = 16 then 17 else if obj = 19 then 18 else if obj = 21 then 22
      else if obj = 23 then 24 else if obj = 26 then 24
      else if 30 \<le> obj \<and> obj < 100 then 15
      else if 100 \<le> obj then 27
      else 6)"

definition method_ids :: "(string \<times> jmethodID) list" where
  "method_ids =
     [(''getClass'', 1), (''getName'', 2), (''toString'', 3), (''getClassLoader'', 4),
      (''getDeclaredFields'', 5), (''getPackageManager'', 6), (''getDeclaredField'', 7),
      (''setAccessible'', 8), (''get'', 9), (''getApplicationInfo'', 10),
      (''getPackageResourcePath'', 11), (''getPackageCodePath'', 12),
      (''getPackageName'', 13)]"

definition static_method_ids :: "(string \<times> jmethodID) list" where
  "static_method_ids = [(''getSystemClassLoader'', 14), (''currentActivityThread'', 15)]"

definition field_ids :: "(string \<times> jfieldID) list" where
  "field_ids =
     [(''mInitialApplication'', 1), (''appComponentFactory'', 2), (''sourceDir'', 3),
      (''publicSourceDir'', 4)]"

definition class_ids :: "(string \<times> jclass) list" where
  "class_ids =
     [(''android/content/pm/PackageInfo'', 3), (''java/lang/ClassLoader'', 11),
      (''android/app/ActivityThread'', 18)]"

definition a_FindClass :: "android \<Rightarrow> string \<Rightarrow> (jclass, nat) raw" where
  "a_FindClass a name v =
     (if name \<in> set (missing_classes a) then (nullptr, Some NoClassDefFoundError, v)
      else case map_of class_ids name of
             Some cls \<Rightarrow> (cls, None, v)
           | None \<Rightarrow> (nullptr, Some NoClassDefFoundError, v))"

definition a_GetMethodID ::
  "android \<Rightarrow> (string \<times> jmethodID) list \<Rightarrow> jclass \<Rightarrow> string \<Rightarrow> string \<Rightarrow> (jmethodID, nat) raw" where
  "a_GetMethodID a table cls name sig v =
     (if name \<in> set (missing_methods a) then (0, Some NoSuchMethodError, v)
      else case map_of table name of
             Some mid \<Rightarrow> (mid, None, v)
           | None \<Rightarrow> (0, Some NoSuchMethodError, v))"

definition a_GetFieldID :: "jclass \<Rightarrow> string \<Rightarrow> string \<Rightarrow> (jfieldID, nat) raw" where
  "a_GetFieldID cls name sig v =
     (case map_of field_ids name of
        Some fid \<Rightarrow> (fid, None, v)
      | None \<Rightarrow> (0, Some NoSuchFieldError, v))"

definition a_GetStaticFieldID :: "jclass \<Rightarrow> string \<Rightarrow> string \<Rightarrow> (jfieldID, nat) raw" where
  "a_GetStaticFieldID cls name sig v =
     (if cls = 3 \<and> name = ''CREATOR'' then (5, None, v) else (0, Some NoSuchFieldError, v))"

definition a_method :: "android \<Rightarrow> jobject \<Rightarrow> jmethodID \<Rightarrow> jobject" where
  "a_method a obj mid =
     (if mid = 1 then class_of obj
      else if mid = 2 then
        (if obj = 5 then 100 else if obj = 9 then 102 else if obj = 10 then 103
         else if obj = 17 then 104
         else if 30 \<le> obj \<and> obj < 100 then 200 + (obj - 30) else nullptr)
      else if mid = 3 then (if obj = 4 then 101 else nullptr)
      else if mid = 4 then (if obj = 5 \<and> creator_loader a \<noteq> None then 7 else nullptr)
      else if mid = 5 then (if obj = 5 then 25 else nullptr)
      else if mid = 6 then (if obj = 1 then 12 else nullptr)
      else if mid = 7 then (if obj = 13 then 14 else nullptr)
      else if mid = 9 then (if obj = 14 then 16 else nullptr)
      else if mid = 10 then
        (if obj = 1 \<or> obj = 21 then 23 else if obj = 12 then 26 else nullptr)
      else if mid = 11 then (if obj = 1 then 106 else nullptr)
      else if mid = 12 then (if obj = 1 then 107 else nullptr)
      else if mid = 13 then (if obj = 1 then 111 else nullptr)
      else nullptr)"

definition a_static_method :: "android \<Rightarrow> jclass \<Rightarrow> jmethodID \<Rightarrow> jobject" where
  "a_static_method a cls mid =
     (if mid = 14 then (if system_loader a \<noteq> None then 8 else nullptr)
      else if mid = 15 then 19
      else nullptr)"

definition a_field :: "android \<Rightarrow> jobject \<Rightarrow> jfieldID \<Rightarrow> jobject" where
  "a_field a obj fid =
     (if fid = 1 then (if obj = 19 \<and> app_present a then 21 else nullptr)
      else if fid = 2 then (if obj = 23 \<and> factory a \<noteq> None then 105 else nullptr)
      else if fid = 3 then (if obj = 23 then 108 else if obj = 26 then 110 else nullptr)
      else if fid = 4 then (if obj = 23 then 109 else nullptr)
      else nullptr)"

definition a_string :: "android \<Rightarrow> jstring \<Rightarrow> string option" where
  "a_string a jstr =
     (if jstr = 100 then Some (creator_class a)
      else if jstr = 101 then Some (creator_string a)
      else if jstr = 102 then creator_loader a
      else if jstr = 103 then system_loader a
      else if jstr = 104 then Some (pm_class a)
      else if jstr = 105 then factory a
      else if jstr = 106 then Some (resource_path a)
      else if jstr = 107 then Some (code_path a)
      else if jstr = 108 then Some (source_dir a)
      else if jstr = 109 then Some (public_source_dir a)
      else if jstr = 110 then Some (pm_source_dir a)
      else if jstr = 111 then Some (package_name a)
      else if jstr = 112 then Some ''mPM''
      else if 200 \<le> jstr \<and> jstr - 200 < length (creator_fields a)
        then Some (creator_fields a ! (jstr - 200))
      else None)"

definition a_GetStringUTFChars :: "android \<Rightarrow> jstring \<Rightarrow> (string option, nat) raw" where
  "a_GetStringUTFChars a jstr v =
     (case a_string a jstr of
        Some chars \<Rightarrow> (Some chars, None, Suc v)
      | None \<Rightarrow> (None, None, v))"

definition android_env :: "android \<Rightarrow> nat JNIEnv" where
  "android_env a =
     \<lparr>fnFindClass = a_FindClass a,
      fnGetObjectClass = (\<lambda>obj v. (class_of obj, None, v)),
      fnGetMethodID = a_GetMethodID a method_ids,
      fnGetStaticMethodID = a_GetMethodID a static_method_ids,
      fnGetFieldID = a_GetFieldID,
      fnGetStaticFieldID = a_GetStaticFieldID,
      fnCallObjectMethodA = (\<lambda>obj mid args v. (a_method a obj mid, None, v)),
      fnCallVoidMethodA = (\<lambda>obj mid args v. ((), None, v)),
      fnCallStaticObjectMethodA = (\<lambda>cls mid args v. (a_static_method a cls mid, None, v)),
      fnGetObjectField = (\<lambda>obj fid v. (a_field a obj fid, None, v)),
      fnGetStaticObjectField = (\<lambda>cls fid v. (if cls = 3 \<and> fid = 5 then 4 else nullptr, None, v)),
      fnNewObjectA = (\<lambda>cls mid args v. (nullptr, None, v)),
      fnNewStringUTF = (\<lambda>chars v. (112, None, v)),
      fnGetStringUTFChars = a_GetStringUTFChars a,
      fnReleaseStringUTFChars = (\<lambda>jstr chars v. v - 1),
      fnGetArrayLength = (\<lambda>array v. (int (length (creator_fields a)), None, v)),
      fnGetObjectArrayElement = (\<lambda>array i v. (30 + nat i, None, v)),
      fnDeleteLocalRef = (\<lambda>obj v. v)\<rparr>"

text \<open>An untampered installation, its APK, and the world made of them.\<close>

definition apk :: string where
  "apk = ''/data/app/com.example-1/base.apk''"

definition stock :: android where
  "stock =
     \<lparr>creator_class = ''android.content.pm.PackageInfo$1'',
      creator_string = ''android.content.pm.PackageInfo$1@8a3f2c1'',
      creator_fields = [],
      creator_loader = Some ''java.lang.BootClassLoader'',
      system_loader = Some ''dalvik.system.PathClassLoader'',
      pm_class = ''android.content.pm.IPackageManager$Stub$Proxy'',
      app_present = True,
      factory = Some ''androidx.core.app.CoreComponentFactory'',
      resource_path = apk,
      code_path = apk,
      source_dir = apk,
      public_source_dir = apk,
      pm_source_dir = apk,
      package_name = ''com.example'',
      missing_classes = [],
      missing_methods = []\<rparr>"

definition one_file :: "string \<Rightarrow> 32 word \<Rightarrow> 32 word \<Rightarrow> bool \<Rightarrow> filesystem" where
  "one_file path mode uid permitted =
     \<lparr>files = (\<lambda>p. if p = path then Some \<lparr>st_mode = mode, st_uid = uid\<rparr> else None),
      chmod_permitted = (\<lambda>p. permitted)\<rparr>"

definition world_of :: "filesystem \<Rightarrow> (nat, unit) world" where
  "world_of f = \<lparr>pending = None, vm = 0, fs = f, statics = (), thrown = []\<rparr>"

definition stock_world :: "(nat, unit) world" where
  "stock_world = world_of (one_file apk 0x81A4 1000 False)"

section \<open>Notions used in the statements\<close>

text \<open>
  What a helper of \<open>JNIHelper.hpp\<close> leaves behind: when it returns, no Java exception
  is pending; when it throws, the exception is a \<open>JNIException\<close> with the message of
  the macro and, again, no Java exception is pending.  \<open>throws_handled\<close> asks this of
  the throwing case only.
\<close>

definition exception_handled :: "'a outcome \<times> ('vm, 'p) world \<Rightarrow> bool" where
  "exception_handled r =
     (case r of
        (Return a, w') \<Rightarrow> pending w' = None
      | (Throw (JNIException message t), w') \<Rightarrow>
          pending w' = None \<and> message = ''JNI exception occurred''
      | (Abort, w') \<Rightarrow> True)"

definition throws_handled :: "'a outcome \<times> ('vm, 'p) world \<Rightarrow> bool" where
  "throws_handled r =
     (case r of
        (Throw (JNIException message t), w') \<Rightarrow>
          pending w' = None \<and> message = ''JNI exception occurred''
      | _ \<Rightarrow> True)"

text \<open>A runtime in which classes and methods that the probes look up are missing.\<close>

definition broken :: android where
  "broken =
     stock\<lparr>missing_classes := [''android/content/pm/PackageInfo''],
           missing_methods := [''getPackageManager'', ''getApplicationInfo'',
                               ''getPackageResourcePath'']\<rparr>"

text \<open>A runtime whose \<open>CREATOR\<close> was replaced by a class of the application.\<close>

definition hooked :: android where
  "hooked =
     stock\<lparr>creator_class := ''bin.mt.signature.KillerApplication$1'',
           creator_loader := Some ''dalvik.system.PathClassLoader''\<rparr>"

text \<open>
  What the probes read from the runtime, each the opening statements of the probe's
  \<open>try\<close> block: the class name of \<open>CREATOR\<close> (lines 33-37), the array of declared
  fields with its length (lines 65-69), the two class loaders with the value
  \<open>suspicious\<close> has when they are obtained (lines 100-117), and the
  \<open>appComponentFactory\<close> field of an application (lines 229-231).
\<close>

definition currentCreatorName :: "'vm JNIEnv \<Rightarrow> (string, ('vm, 'p) world) prog" where
  "currentCreatorName env =
     bnd (GetStaticField env ''android/content/pm/PackageInfo'' ''CREATOR''
            ''Landroid/os/Parcelable$Creator;'') (\<lambda>creatorObject.
     bnd (CallMethod env (fnCallObjectMethodA env) creatorObject
            ''getClass'' ''()Ljava/lang/Class;'' []) (\<lambda>creatorClass.
     bnd (CallMethod env (fnCallObjectMethodA env) creatorClass
            ''getName'' ''()Ljava/lang/String;'' []) (\<lambda>jCreatorName.
     JStringToString env jCreatorName)))"

definition declaredFields :: "'vm JNIEnv \<Rightarrow> (jobjectArray \<times> jint, ('vm, 'p) world) prog" where
  "declaredFields env =
     bnd (GetStaticField env ''android/content/pm/PackageInfo'' ''CREATOR''
            ''Landroid/os/Parcelable$Creator;'') (\<lambda>creatorObject.
     bnd (CallMethod env (fnCallObjectMethodA env) creatorObject
            ''getClass'' ''()Ljava/lang/Class;'' []) (\<lambda>creatorClass.
     bnd (CallMethod env (fnCallObjectMethodA env) creatorClass
            ''getDeclaredFields'' ''()[Ljava/lang/reflect/Field;'' []) (\<lambda>fieldArray.
     bnd (env_GetArrayLength env fieldArray) (\<lambda>fieldCount.
     ret (fieldArray, fieldCount)))))"

definition creatorLoaders :: "'vm JNIEnv \<Rightarrow> (bool \<times> jobject \<times> jobject, ('vm, 'p) world) prog" where
  "creatorLoaders env =
     bnd (GetStaticField env ''android/content/pm/PackageInfo'' ''CREATOR''
            ''Landroid/os/Parcelable$Creator;'') (\<lambda>creator.
     bnd (CallMethod env (fnCallObjectMethodA env) creator
            ''toString'' ''()Ljava/lang/String;'' []) (\<lambda>jCreatorString.
     bnd (JStringToString env jCreatorString) (\<lambda>creatorString.
     bnd (CallMethod env (fnCallObjectMethodA env) creator
            ''getClass'' ''()Ljava/lang/Class;'' []) (\<lambda>creatorClass.
     bnd (CallMethod env (fnCallObjectMethodA env) creatorClass
            ''getClassLoader'' ''()Ljava/lang/ClassLoader;'' []) (\<lambda>creatorClassloader.
     bnd (CallStaticMethod env (fnCallStaticObjectMethodA env) ''java/lang/ClassLoader''
            ''getSystemClassLoader'' ''()Ljava/lang/ClassLoader;'' []) (\<lambda>sysClassloader.
     ret (creatorString \<noteq> []
            \<and> str_find creatorString ''android.content.pm.PackageInfo$'' \<noteq> Some 0,
          creatorClassloader, sysClassloader)))))))"

definition factoryField :: "'vm JNIEnv \<Rightarrow> jobject \<Rightarrow> (jstring, ('vm, 'p) world) prog" where
  "factoryField env application =
     bnd (CallMethod env (fnCallObjectMethodA env) application ''getApplicationInfo''
            ''()Landroid/content/pm/ApplicationInfo;'' []) (\<lambda>applicationInfo.
     GetField env applicationInfo ''appComponentFactory'' ''Ljava/lang/String;'')"

text \<open>Runtimes that differ from the untampered one in a single observation.\<close>

definition extra_field :: android where
  "extra_field = stock\<lparr>creator_fields := [''mOriginal'']\<rparr>"

definition null_loader :: android where
  "null_loader = stock\<lparr>creator_loader := None\<rparr>"

definition no_application :: android where
  "no_application = stock\<lparr>app_present := False\<rparr>"

definition no_factory :: android where
  "no_factory = stock\<lparr>factory := None\<rparr>"

definition other_factory :: android where
  "other_factory = stock\<lparr>factory := Some ''bin.mt.signature.KillerFactory''\<rparr>"

definition no_activity_thread :: android where
  "no_activity_thread = stock\<lparr>missing_classes := [''android/app/ActivityThread'']\<rparr>"

text \<open>
  A world whose APK belongs to the application (uid 10123) with mode 0600, so that the
  process may change its mode.
\<close>

definition owned_world :: "(nat, unit) world" where
  "owned_world = world_of (one_file apk 0x8180 10123 True)"

text \<open>What two successful \<open>chmod\<close>s, to 0777 and then to 0644, leave of a file.\<close>

definition with_mode_0644 :: "stat_t \<Rightarrow> stat_t" where
  "with_mode_0644 st = st\<lparr>st_mode := (st_mode st AND NOT mode_07777) OR mode_0644\<rparr>"

text \<open>
  \<open>keeps R m\<close>: whatever relation \<open>R\<close> a world has to the world \<open>w0\<close> that a
  computation started from, the world after \<open>m\<close> has it too.  Three relations: the file
  system and the variables of the program are those of \<open>w0\<close>; the state of the runtime
  is the one of \<open>w0\<close>; no Java exception is pending if none was in \<open>w0\<close>.
\<close>

definition keeps ::
  "(('vm, 'p) world \<Rightarrow> ('vm, 'p) world \<Rightarrow> bool) \<Rightarrow> ('a, ('vm, 'p) world) prog \<Rightarrow> bool" where
  "keeps R m = (\<forall>w0 w. R w0 w \<longrightarrow> R w0 (snd (m w)))"

definition outsideR :: "('vm, 'p) world \<Rightarrow> ('vm, 'p) world \<Rightarrow> bool" where
  "outsideR w0 w = (fs w = fs w0 \<and> statics w = statics w0)"

definition vmR :: "('vm, 'p) world \<Rightarrow> ('vm, 'p) world \<Rightarrow> bool" where
  "vmR w0 w = (vm w = vm w0)"

definition pendR :: "('vm, 'p) world \<Rightarrow> ('vm, 'p) world \<Rightarrow> bool" where
  "pendR w0 w = (pending w0 = None \<longrightarrow> pending w = None)"

text \<open>
  \<open>one_setAccessible env m\<close>: the runtime after \<open>m\<close> is the runtime before it, or what
  one call \<open>CallVoidMethodA(field, mid, {1})\<close> makes of the runtime before it.
\<close>

definition one_setAccessible :: "'vm JNIEnv \<Rightarrow> ('a, ('vm, 'p) world) prog \<Rightarrow> bool" where
  "one_setAccessible env m =
     (\<forall>w. vm (snd (m w)) = vm w
          \<or> (\<exists>field mid. vm (snd (m w)) = snd (snd (fnCallVoidMethodA env field mid [I 1] (vm w)))))"

named_theorems keeps_intros

named_theorems outside_keeps

named_theorems vm_keeps

named_theorems pend_keeps

text \<open>
  \<open>plain m\<close>: \<open>m\<close> has no handler of its own.  Its history grows by the exception it
  leaves with, and not at all when it returns or aborts.
\<close>

definition plain :: "('a, ('vm, 'p) world) prog \<Rightarrow> bool" where
  "plain m =
     (\<forall>w. thrown (snd (m w)) =
            thrown w @ (case fst (m w) of Throw e \<Rightarrow> [e] | Return a \<Rightarrow> [] | Abort \<Rightarrow> []))"

named_theorems plain_intros

text \<open>
  The pending exception after a call that raised \<open>t\<close> when \<open>p\<close> was pending, and the
  outcome of \<open>JNI_CHECK_EXCEPTION\<close> followed by \<open>k\<close> when \<open>p\<close> is pending.
\<close>

definition raised :: "jthrowable option \<Rightarrow> jthrowable option \<Rightarrow> jthrowable option" where
  "raised t p = (case t of None \<Rightarrow> p | Some x \<Rightarrow> Some x)"

definition checked_outcome :: "jthrowable option \<Rightarrow> 'a outcome \<Rightarrow> 'a outcome" where
  "checked_outcome p k =
     (case p of
        None \<Rightarrow> k
      | Some x \<Rightarrow> Throw (JNIException ''JNI exception occurred'' x))"

text \<open>
  The conversions of \<open>ArgsToJValues\<close> seen as one call on the runtime: the values, the
  exception that the last failing \<open>NewStringUTF\<close> raised, and the runtime afterwards.
\<close>

fun argRaw :: "'vm JNIEnv \<Rightarrow> cpp_arg \<Rightarrow> (jvalue, 'vm) raw" where
  "argRaw env (Prim v) s = (v, None, s)"
| "argRaw env (StdString str) s =
     (case fnNewStringUTF env str s of (jstr, t, s') \<Rightarrow> (L jstr, t, s'))"
| "argRaw env (CString None) s = (L nullptr, None, s)"
| "argRaw env (CString (Some str)) s =
     (case fnNewStringUTF env str s of (jstr, t, s') \<Rightarrow> (L jstr, t, s'))"

fun argsRaw :: "'vm JNIEnv \<Rightarrow> cpp_arg list \<Rightarrow> (jvalue list, 'vm) raw" where
  "argsRaw env [] s = ([], None, s)"
| "argsRaw env (a # rest) s =
     (case argRaw env a s of
        (jv, t, s') \<Rightarrow>
          (case argsRaw env rest s' of
             (jvs, t', s'') \<Rightarrow> (jv # jvs, raised t' t, s'')))"

text \<open>
  A runtime that the probes only inspect: every function of the table except
  \<open>CallVoidMethodA\<close> leaves the state of the runtime as it is, a UTF buffer is gone
  once it is released, and the functions that the helpers call without a check raise
  nothing.
\<close>

definition inspected :: "'vm JNIEnv \<Rightarrow> bool" where
  "inspected env =
     ((\<forall>n v. snd (snd (fnFindClass env n v)) = v)
      \<and> (\<forall>obj v. snd (fnGetObjectClass env obj v) = (None, v))
      \<and> (\<forall>c n s v. snd (snd (fnGetMethodID env c n s v)) = v)
      \<and> (\<forall>c n s v. snd (snd (fnGetStaticMethodID env c n s v)) = v)
      \<and> (\<forall>c n s v. snd (snd (fnGetFieldID env c n s v)) = v)
      \<and> (\<forall>c n s v. snd (snd (fnGetStaticFieldID env c n s v)) = v)
      \<and> (\<forall>obj m a v. snd (snd (fnCallObjectMethodA env obj m a v)) = v)
      \<and> (\<forall>c m a v. snd (snd (fnCallStaticObjectMethodA env c m a v)) = v)
      \<and> (\<forall>obj f v. snd (snd (fnGetObjectField env obj f v)) = v)
      \<and> (\<forall>c f v. snd (snd (fnGetStaticObjectField env c f v)) = v)
      \<and> (\<forall>str v. snd (fnNewStringUTF env str v) = (None, v))
      \<and> (\<forall>jstr v.
            case fnGetStringUTFChars env jstr v of
              (None, t, v') \<Rightarrow> t = None \<and> v' = v
            | (Some chars, t, v') \<Rightarrow>
                t = None \<and> fnReleaseStringUTFChars env jstr chars v' = v)
      \<and> (\<forall>a v. snd (fnGetArrayLength env a v) = (None, v))
      \<and> (\<forall>a i v. snd (fnGetObjectArrayElement env a i v) = (None, v))
      \<and> (\<forall>r v. fnDeleteLocalRef env r v = v))"

section \<open>The sources of the APK paths\<close>

text \<open>
  The statements of \<open>checkApkPaths\<close> that obtain the paths, one definition for each
  source: the package resource path (lines 274-275), the package code path (lines
  277-278), \<open>sourceDir\<close> and \<open>publicSourceDir\<close> of the \<open>ApplicationInfo\<close> of the
  context (lines 280-286), \<open>sourceDir\<close> of the \<open>ApplicationInfo\<close> that the
  \<open>PackageManager\<close> returns for the package name (lines 288-300), and the native APK
  path (lines 302-308).  \<open>reportedApkPaths\<close> is the first five in the order of the
  vector of line 316.
\<close>

definition packageResourcePath :: "'vm JNIEnv \<Rightarrow> jobject \<Rightarrow> (string, ('vm, 'p) world) prog" where
  "packageResourcePath env context =
     bnd (CallMethod env (fnCallObjectMethodA env) context ''getPackageResourcePath''
            ''()Ljava/lang/String;'' []) (\<lambda>jResourcePath.
     JStringToString env jResourcePath)"

definition packageCodePath :: "'vm JNIEnv \<Rightarrow> jobject \<Rightarrow> (string, ('vm, 'p) world) prog" where
  "packageCodePath env context =
     bnd (CallMethod env (fnCallObjectMethodA env) context ''getPackageCodePath''
            ''()Ljava/lang/String;'' []) (\<lambda>jCodePath.
     JStringToString env jCodePath)"

definition applicationInfoDirs ::
  "'vm JNIEnv \<Rightarrow> jobject \<Rightarrow> (string \<times> string, ('vm, 'p) world) prog" where
  "applicationInfoDirs env context =
     bnd (CallMethod env (fnCallObjectMethodA env) context ''getApplicationInfo''
            ''()Landroid/content/pm/ApplicationInfo;'' []) (\<lambda>applicationInfo.
     bnd (GetField env applicationInfo ''sourceDir'' ''Ljava/lang/String;'') (\<lambda>jSourceDir.
     bnd (JStringToString env jSourceDir) (\<lambda>sourceDir.
     bnd (GetField env applicationInfo ''publicSourceDir''
            ''Ljava/lang/String;'') (\<lambda>jPublicSourceDir.
     bnd (JStringToString env jPublicSourceDir) (\<lambda>publicSourceDir.
     ret (sourceDir, publicSourceDir))))))"

definition packageManagerSourceDir ::
  "'vm JNIEnv \<Rightarrow> jobject \<Rightarrow> (string, ('vm, 'p) world) prog" where
  "packageManagerSourceDir env context =
     bnd (CallMethod env (fnCallObjectMethodA env) context ''getPackageManager''
            ''()Landroid/content/pm/PackageManager;'' []) (\<lambda>packageManager.
     bnd (CallMethod env (fnCallObjectMethodA env) context ''getPackageName''
            ''()Ljava/lang/String;'' []) (\<lambda>packageName.
     bnd (CallMethod env (fnCallObjectMethodA env) packageManager ''getApplicationInfo''
            ''(Ljava/lang/String;I)Landroid/content/pm/ApplicationInfo;''
            [Prim (L packageName), Prim (I 0)]) (\<lambda>applicationInfo2.
     bnd (GetField env applicationInfo2 ''sourceDir''
            ''Ljava/lang/String;'') (\<lambda>jPackageInfoSourceDir.
     JStringToString env jPackageInfoSourceDir))))"

definition nativeApkPath :: "'vm JNIEnv \<Rightarrow> jobject \<Rightarrow> (string, ('vm, 'p) world) prog" where
  "nativeApkPath env context = try_catch (getApkPath env context) (\<lambda>e. ret [])"

definition reportedApkPaths ::
  "'vm JNIEnv \<Rightarrow> jobject \<Rightarrow> (string list, ('vm, 'p) world) prog" where
  "reportedApkPaths env context =
     bnd (packageResourcePath env context) (\<lambda>resourcePath.
     bnd (packageCodePath env context) (\<lambda>codePath.
     bnd (applicationInfoDirs env context) (\<lambda>(sourceDir, publicSourceDir).
     bnd (packageManagerSourceDir env context) (\<lambda>packageInfoSourceDir.
     ret [resourcePath, codePath, sourceDir, publicSourceDir, packageInfoSourceDir]))))"

text \<open>
  The statements inside the \<open>try\<close> block of \<open>getApkPath\<close> (lines 258-261), and the
  statements of \<open>checkAppComponentFactory\<close> that follow the call of \<open>getApplication\<close>
  (lines 228-247).
\<close>

definition getApkPath_try :: "'vm JNIEnv \<Rightarrow> jobject \<Rightarrow> (string, ('vm, 'p) world) prog" where
  "getApkPath_try env context =
     bnd (CallMethod env (fnCallObjectMethodA env) context ''getApplicationInfo''
            ''()Landroid/content/pm/ApplicationInfo;'' []) (\<lambda>applicationInfo.
     bnd (GetField env applicationInfo ''sourceDir'' ''Ljava/lang/String;'') (\<lambda>jSourceDir.
     JStringToString env jSourceDir))"

definition factoryCheck :: "'vm JNIEnv \<Rightarrow> jobject \<Rightarrow> (bool, ('vm, 'p) world) prog" where
  "factoryCheck env application =
     (let suspicious = False;
          originalAppComponentFactory = ''androidx.core.app.CoreComponentFactory'' in
      if application \<noteq> nullptr then
        bnd (CallMethod env (fnCallObjectMethodA env) application ''getApplicationInfo''
               ''()Landroid/content/pm/ApplicationInfo;'' []) (\<lambda>applicationInfo.
        bnd (GetField env applicationInfo ''appComponentFactory''
               ''Ljava/lang/String;'') (\<lambda>jAppComponentFactory.
        if jAppComponentFactory \<noteq> nullptr then
          bnd (JStringToString env jAppComponentFactory) (\<lambda>appComponentFactory.
          if appComponentFactory \<noteq> originalAppComponentFactory then ret True
          else ret suspicious)
        else ret suspicious))
      else ret suspicious)"

section \<open>A runtime that remembers\<close>

text \<open>
  The scripted runtime above answers every call from its record.  The one below has a
  memory as well: it records the objects on which \<open>setAccessible(true)\<close> was called
  (method 8), and its context (object 1) may answer \<open>getApplicationInfo\<close> (method 10)
  from the record only the first time.  What it answers to a later call is a parameter:
  the same as before, a second \<open>ApplicationInfo\<close> (object 28) whose \<open>sourceDir\<close> is
  the given string, or a raised exception.
\<close>

record runtime =
  buffers :: nat
  accessible :: "jobject list"
  app_info_calls :: nat

datatype later_call = Same | Other string | Raises

abbreviation RuntimeException :: jthrowable where
  "RuntimeException \<equiv> 903"

definition on_buffers :: "('a, nat) raw \<Rightarrow> ('a, runtime) raw" where
  "on_buffers f v = (case f (buffers v) of (a, t, n) \<Rightarrow> (a, t, v\<lparr>buffers := n\<rparr>))"

definition r_CallObjectMethodA ::
  "android \<Rightarrow> later_call \<Rightarrow> jobject \<Rightarrow> jmethodID \<Rightarrow> jvalue list \<Rightarrow> (jobject, runtime) raw" where
  "r_CallObjectMethodA a later obj mid args v =
     (if obj = 1 \<and> mid = 10 \<and> later \<noteq> Same then
        (if app_info_calls v = 0 then (23, None, v\<lparr>app_info_calls := 1\<rparr>)
         else case later of
                Other path \<Rightarrow> (28, None, v\<lparr>app_info_calls := Suc (app_info_calls v)\<rparr>)
              | _ \<Rightarrow>
                  (nullptr, Some RuntimeException,
                   v\<lparr>app_info_calls := Suc (app_info_calls v)\<rparr>))
      else on_buffers (fnCallObjectMethodA (android_env a) obj mid args) v)"

definition r_CallVoidMethodA :: "jobject \<Rightarrow> jmethodID \<Rightarrow> jvalue list \<Rightarrow> (unit, runtime) raw" where
  "r_CallVoidMethodA obj mid args v =
     ((), None, if mid = 8 \<and> args = [I 1] then v\<lparr>accessible := accessible v @ [obj]\<rparr> else v)"

definition r_GetStringUTFChars ::
  "android \<Rightarrow> later_call \<Rightarrow> jstring \<Rightarrow> (string option, runtime) raw" where
  "r_GetStringUTFChars a later jstr v =
     (case later of
        Other path \<Rightarrow>
          if jstr = 113 then (Some path, None, v\<lparr>buffers := Suc (buffers v)\<rparr>)
          else on_buffers (fnGetStringUTFChars (android_env a) jstr) v
      | _ \<Rightarrow> on_buffers (fnGetStringUTFChars (android_env a) jstr) v)"

definition remembering_env :: "android \<Rightarrow> later_call \<Rightarrow> runtime JNIEnv" where
  "remembering_env a later =
     \<lparr>fnFindClass = (\<lambda>name. on_buffers (fnFindClass (android_env a) name)),
      fnGetObjectClass =
        (\<lambda>obj. if obj = 28 then (\<lambda>v. (24, None, v))
                else on_buffers (fnGetObjectClass (android_env a) obj)),
      fnGetMethodID = (\<lambda>cls name sig. on_buffers (fnGetMethodID (android_env a) cls name sig)),
      fnGetStaticMethodID =
        (\<lambda>cls name sig. on_buffers (fnGetStaticMethodID (android_env a) cls name sig)),
      fnGetFieldID = (\<lambda>cls name sig. on_buffers (fnGetFieldID (android_env a) cls name sig)),
      fnGetStaticFieldID =
        (\<lambda>cls name sig. on_buffers (fnGetStaticFieldID (android_env a) cls name sig)),
      fnCallObjectMethodA = r_CallObjectMethodA a later,
      fnCallVoidMethodA = r_CallVoidMethodA,
      fnCallStaticObjectMethodA =
        (\<lambda>cls mid args. on_buffers (fnCallStaticObjectMethodA (android_env a) cls mid args)),
      fnGetObjectField =
        (\<lambda>obj fid. if obj = 28 then (\<lambda>v. (if fid = 3 then 113 else nullptr, None, v))
                    else on_buffers (fnGetObjectField (android_env a) obj fid)),
      fnGetStaticObjectField =
        (\<lambda>cls fid. on_buffers (fnGetStaticObjectField (android_env a) cls fid)),
      fnNewObjectA = (\<lambda>cls mid args. on_buffers (fnNewObjectA (android_env a) cls mid args)),
      fnNewStringUTF = (\<lambda>chars. on_buffers (fnNewStringUTF (android_env a) chars)),
      fnGetStringUTFChars = r_GetStringUTFChars a later,
      fnReleaseStringUTFChars = (\<lambda>jstr chars v. v\<lparr>buffers := buffers v - 1\<rparr>),
      fnGetArrayLength = (\<lambda>array. on_buffers (fnGetArrayLength (android_env a) array)),
      fnGetObjectArrayElement =
        (\<lambda>array i. on_buffers (fnGetObjectArrayElement (android_env a) array i)),
      fnDeleteLocalRef = (\<lambda>obj v. v)\<rparr>"

definition fresh :: runtime where
  "fresh = \<lparr>buffers = 0, accessible = [], app_info_calls = 0\<rparr>"

definition remembering_world :: "filesystem \<Rightarrow> (runtime, unit) world" where
  "remembering_world f = \<lparr>pending = None, vm = fresh, fs = f, statics = (), thrown = []\<rparr>"

text \<open>
  An installation that reports a different path from each source, and a file system
  with two files of the same mode and owner.
\<close>

definition apk_of :: "string \<Rightarrow> string" where
  "apk_of n = ''/data/app/com.example-'' @ n @ ''/base.apk''"


definition two_files ::
  "string \<Rightarrow> string \<Rightarrow> 32 word \<Rightarrow> 32 word \<Rightarrow> bool \<Rightarrow> filesystem" where
  "two_files path path' mode uid permitted =
     \<lparr>files = (\<lambda>p. if p = path \<or> p = path' then Some \<lparr>st_mode = mode, st_uid = uid\<rparr> else None),
      chmod_permitted = (\<lambda>p. permitted)\<rparr>"

section \<open>Properties\<close>

subsection \<open>Stepping through a computation\<close>

lemma bnd_ret: "bnd (ret a) f = f a"
  by (rule ext) (simp add: bnd_def ret_def)

lemma bnd_assoc: "bnd (bnd m f) g = bnd m (\<lambda>x. bnd (f x) g)"
  by (rule ext) (simp add: bnd_def split: prod.splits outcome.splits)

lemma bnd_Return: "m s = (Return a, s') \<Longrightarrow> bnd m f s = f a s'"
  by (simp add: bnd_def)

lemma bnd_Throw: "m s = (Throw e, s') \<Longrightarrow> bnd m f s = (Throw e, s')"
  by (simp add: bnd_def)

lemma bnd_Abort: "m s = (Abort, s') \<Longrightarrow> bnd m f s = (Abort, s')"
  by (simp add: bnd_def)

subsection \<open>JStringToString\<close>

text \<open>
  C10.  \<open>JStringToString\<close> always returns a string: the empty one for a null
  \<open>jstring\<close> (nothing is called then) and when \<open>GetStringUTFChars\<close> gives no buffer;
  otherwise the string of the buffer, and the buffer is released.  It never throws and
  never leaves the contract of the interface.
\<close>

theorem JStringToString_total:
  "JStringToString env nullptr w = (Return [], w)
   \<and> (\<exists>s w'. JStringToString env jstr w = (Return s, w'))
   \<and> (jstr \<noteq> nullptr \<and> fst (fnGetStringUTFChars env jstr (vm w)) = None
        \<longrightarrow> fst (JStringToString env jstr w) = Return [])
   \<and> (jstr \<noteq> nullptr \<and> fnGetStringUTFChars env jstr (vm w) = (Some buf, t, v)
        \<longrightarrow> fst (JStringToString env jstr w) = Return (std_string buf)
            \<and> vm (snd (JStringToString env jstr w)) = fnReleaseStringUTFChars env jstr buf v)"
proof -
  obtain chars t' v' where g: "fnGetStringUTFChars env jstr (vm w) = (chars, t', v')"
    by (cases "fnGetStringUTFChars env jstr (vm w)") auto
  show ?thesis
    by (cases chars)
       (simp_all add: JStringToString_def bnd_def jni_def jni_void_def ret_def g)
qed

theorem JStringToString_total_witness:
  "fst (JStringToString (android_env stock) 99 stock_world) = Return []
   \<and> fst (JStringToString (android_env stock) 100 stock_world)
       = Return (std_string ''android.content.pm.PackageInfo$1'')
   \<and> vm (snd (JStringToString (android_env stock) 100 stock_world)) = 0"
proof -
  have a: "fnGetStringUTFChars (android_env stock) 100 (vm stock_world)
             = (Some ''android.content.pm.PackageInfo$1'', None, 1)"
    by code_simp
  have b: "fst (fnGetStringUTFChars (android_env stock) 99 (vm stock_world)) = None"
    by code_simp
  have c: "fnReleaseStringUTFChars (android_env stock) 100
             ''android.content.pm.PackageInfo$1'' 1 = 0"
    by code_simp
  from JStringToString_total [of "android_env stock" stock_world 99]
       JStringToString_total [of "android_env stock" stock_world 100
          "''android.content.pm.PackageInfo$1''" None 1] a b c
  show ?thesis by simp
qed

subsection \<open>Exceptions in the helpers\<close>

lemma JNI_CHECK_EXCEPTION_eq:
  "JNI_CHECK_EXCEPTION w =
     (case pending w of
        None \<Rightarrow> (Return (), w)
      | Some x \<Rightarrow>
          (Throw (JNIException ''JNI exception occurred'' x),
           w\<lparr>pending := None,
             thrown := thrown w @ [JNIException ''JNI exception occurred'' x]\<rparr>))"
  by (simp add: JNI_CHECK_EXCEPTION_def bnd_def ExceptionCheck_def ExceptionOccurred_def
      ExceptionDescribe_def ExceptionClear_def throw_def ret_def split: option.splits)

lemma checked_eq:
  "checked f w =
     (case f (vm w) of
        (a, t, v) \<Rightarrow>
          (case (case t of None \<Rightarrow> pending w | Some x \<Rightarrow> Some x) of
             None \<Rightarrow> (Return a, w\<lparr>vm := v\<rparr>)
           | Some x \<Rightarrow>
               (Throw (JNIException ''JNI exception occurred'' x),
                w\<lparr>pending := None, vm := v,
                  thrown := thrown w @ [JNIException ''JNI exception occurred'' x]\<rparr>)))"
  by (simp add: checked_def bnd_def jni_def JNI_CHECK_EXCEPTION_eq ret_def
      split: prod.splits option.splits)

lemma exception_handled_checked: "exception_handled (checked f w)"
  by (simp add: checked_eq exception_handled_def split: prod.splits option.splits)

lemma exception_handled_imp_throws: "exception_handled r \<Longrightarrow> throws_handled r"
  by (auto simp: exception_handled_def throws_handled_def split: prod.splits outcome.splits exception.splits)

lemma throws_handled_jni: "throws_handled (jni f w)"
  by (simp add: jni_def throws_handled_def split: prod.splits)

lemma exception_handled_bnd:
  assumes "throws_handled (m w)" and "\<And>a w'. exception_handled (f a w')"
  shows "exception_handled (bnd m f w)"
  using assms
  by (cases "m w") (auto simp: bnd_def throws_handled_def exception_handled_def
      split: outcome.splits exception.splits)

lemma throws_handled_bnd:
  assumes "throws_handled (m w)" and "\<And>a w'. throws_handled (f a w')"
  shows "throws_handled (bnd m f w)"
  using assms
  by (cases "m w") (auto simp: bnd_def throws_handled_def
      split: outcome.splits exception.splits)

lemma throws_handled_ret: "throws_handled (ret a w)"
  by (simp add: ret_def throws_handled_def)

lemma exception_handled_Scoped:
  "exception_handled (body w) \<Longrightarrow> exception_handled (ScopedLocalRef env r body w)"
  by (cases "body w") (auto simp: ScopedLocalRef_def exception_handled_def
      split: outcome.splits exception.splits)

lemma throws_handled_setJValue: "throws_handled (setJValue env a w)"
proof (cases a)
  case (CString x)
  then show ?thesis
    by (cases x) (auto intro!: throws_handled_bnd throws_handled_jni throws_handled_ret)
qed (auto simp: StringToJString_def intro!: throws_handled_bnd throws_handled_jni throws_handled_ret)

lemma throws_handled_convertArgs: "throws_handled (convertArgs env args w)"
  by (induction args arbitrary: w)
     (auto intro!: throws_handled_bnd throws_handled_ret throws_handled_setJValue)

lemma throws_handled_GetObjectClass: "throws_handled (env_GetObjectClass env obj w)"
  by (simp add: env_GetObjectClass_def throws_handled_jni) (simp add: abort_def throws_handled_def)

lemma exception_handled_CallMethod:
  "exception_handled (CallMethod env call obj methodName signature args w)"
  unfolding CallMethod_def GetMethodID_def JNITypeTraits_CallMethod_def ArgsToJValues_def
  by (intro exception_handled_bnd throws_handled_GetObjectClass exception_handled_Scoped
        exception_handled_imp_throws [OF exception_handled_checked])
     (auto simp: checked_def [symmetric] exception_handled_checked
        intro!: exception_handled_bnd throws_handled_convertArgs)


lemma exception_handled_CallStaticMethod:
  "exception_handled (CallStaticMethod env call className methodName signature args w)"
  unfolding CallStaticMethod_def FindClass_def GetStaticMethodID_def
    JNITypeTraits_CallStaticMethod_def ArgsToJValues_def
  by (intro exception_handled_bnd exception_handled_Scoped
        exception_handled_imp_throws [OF exception_handled_checked])
     (auto simp: checked_def [symmetric] exception_handled_checked
        intro!: exception_handled_bnd throws_handled_convertArgs)

lemma exception_handled_NewObject:
  "exception_handled (NewObject env className constructorSignature args w)"
  unfolding NewObject_def FindClass_def GetMethodID_def ArgsToJValues_def
    checked_def [symmetric]
  by (intro exception_handled_bnd exception_handled_Scoped throws_handled_convertArgs
        exception_handled_imp_throws [OF exception_handled_checked] exception_handled_checked)

lemma exception_handled_GetField_default:
  "exception_handled (GetField_default env get sig obj fieldName w)"
  unfolding GetField_default_def GetFieldID_def JNITypeTraits_GetField_def
  by (intro exception_handled_bnd throws_handled_GetObjectClass exception_handled_Scoped
        exception_handled_imp_throws [OF exception_handled_checked] exception_handled_checked)

lemma exception_handled_GetField:
  "exception_handled (GetField env obj fieldName signature w)"
  unfolding GetField_def GetFieldID_def JNITypeTraits_GetField_def
  by (intro exception_handled_bnd throws_handled_GetObjectClass exception_handled_Scoped
        exception_handled_imp_throws [OF exception_handled_checked] exception_handled_checked)

lemma exception_handled_GetStaticField_default:
  "exception_handled (GetStaticField_default env get sig className fieldName w)"
  unfolding GetStaticField_default_def FindClass_def GetStaticFieldID_def
    JNITypeTraits_GetStaticField_def
  by (intro exception_handled_bnd exception_handled_Scoped
        exception_handled_imp_throws [OF exception_handled_checked] exception_handled_checked)

lemma exception_handled_GetStaticField:
  "exception_handled (GetStaticField env className fieldName signature w)"
  unfolding GetStaticField_def FindClass_def GetStaticFieldID_def
    JNITypeTraits_GetStaticField_def
  by (intro exception_handled_bnd exception_handled_Scoped
        exception_handled_imp_throws [OF exception_handled_checked] exception_handled_checked)

lemma CallMethod_returns:
  assumes "obj \<noteq> nullptr" and "pending w = None"
    and "fnGetObjectClass env obj (vm w) = (cls, None, v1)"
    and "fnGetMethodID env cls methodName signature v1 = (mid, None, v2)"
    and "call obj mid [] v2 = (r, None, v3)"
  shows "fst (CallMethod env call obj methodName signature [] w) = Return r"
  using assms
  by (simp add: CallMethod_def env_GetObjectClass_def bnd_def jni_def ScopedLocalRef_def
      GetMethodID_def checked_eq JNI_CHECK_EXCEPTION_eq ret_def)

lemma checked_fst:
  "fst (checked f w) =
     (case f (vm w) of (a, t, v) \<Rightarrow> checked_outcome (raised t (pending w)) (Return a))"
  by (simp add: checked_eq raised_def checked_outcome_def split: prod.splits option.splits)

lemma raised_raised: "raised t (raised t' p) = raised (raised t t') p"
  by (simp add: raised_def split: option.splits)

lemma jni_eq: "jni f w = (case f (vm w) of (a, t, v) \<Rightarrow>
    (Return a, w\<lparr>pending := raised t (pending w), vm := v\<rparr>))"
  by (simp add: jni_def raised_def)

lemma setJValue_argRaw: "setJValue env a = jni (argRaw env a)"
proof (cases a)
  case (CString x)
  then show ?thesis
    by (cases x) (auto simp: jni_eq ret_def bnd_def raised_def split: prod.splits)
qed (auto simp: jni_eq ret_def bnd_def StringToJString_def raised_def split: prod.splits)

lemma convertArgs_argsRaw: "convertArgs env args = jni (argsRaw env args)"
proof (induction args)
  case Nil
  show ?case by (rule ext) (simp add: jni_eq ret_def raised_def)
next
  case (Cons a rest)
  show ?case
    by (rule ext)
       (simp add: Cons.IH setJValue_argRaw jni_eq bnd_def ret_def raised_raised
          split: prod.splits)
qed

lemma ArgsToJValues_argsRaw: "ArgsToJValues env args = jni (argsRaw env args)"
  by (simp add: ArgsToJValues_def convertArgs_argsRaw)

lemma argsRaw_Nil: "argsRaw env [] v = ([], None, v)"
  by simp

lemma CallMethod_fst:
  assumes "obj \<noteq> nullptr"
    and "fnGetObjectClass env obj (vm w) = (cls, t0, v0)"
    and "fnGetMethodID env cls methodName signature v0 = (mid, t1, v1)"
    and "argsRaw env args v1 = (jvalues, t2, v2)"
    and "call obj mid jvalues v2 = (r, t3, v3)"
  shows "fst (CallMethod env call obj methodName signature args w) =
     checked_outcome (raised t1 (raised t0 (pending w)))
       (checked_outcome (raised t3 t2) (Return r))"
proof (cases "args = []")
  case True
  with assms(4) have "jvalues = []" "t2 = None" "v2 = v1"
    by simp_all
  with True assms show ?thesis
    by (simp add: CallMethod_def env_GetObjectClass_def bnd_def jni_eq ScopedLocalRef_def
        GetMethodID_def checked_eq JNI_CHECK_EXCEPTION_eq ret_def raised_def
        checked_outcome_def split: option.splits)
next
  case False
  with assms show ?thesis
    by (simp add: CallMethod_def env_GetObjectClass_def bnd_def jni_eq ScopedLocalRef_def
        GetMethodID_def checked_eq JNITypeTraits_CallMethod_def ArgsToJValues_argsRaw
        raised_def checked_outcome_def split: option.splits)
qed

lemma CallStaticMethod_fst:
  assumes "fnFindClass env className (vm w) = (cls, t0, v0)"
    and "fnGetStaticMethodID env cls methodName signature v0 = (mid, t1, v1)"
    and "argsRaw env args v1 = (jvalues, t2, v2)"
    and "scall cls mid jvalues v2 = (r, t3, v3)"
  shows "fst (CallStaticMethod env scall className methodName signature args w) =
     checked_outcome (raised t0 (pending w))
       (checked_outcome t1 (checked_outcome (raised t3 t2) (Return r)))"
proof (cases "args = []")
  case True
  with assms(3) have "jvalues = []" "t2 = None" "v2 = v1"
    by simp_all
  with True assms show ?thesis
    by (simp add: CallStaticMethod_def FindClass_def bnd_def jni_eq ScopedLocalRef_def
        GetStaticMethodID_def checked_eq JNI_CHECK_EXCEPTION_eq ret_def raised_def
        checked_outcome_def split: option.splits)
next
  case False
  with assms show ?thesis
    by (simp add: CallStaticMethod_def FindClass_def bnd_def jni_eq ScopedLocalRef_def
        GetStaticMethodID_def checked_eq JNITypeTraits_CallStaticMethod_def
        ArgsToJValues_argsRaw raised_def checked_outcome_def split: option.splits)
qed

lemma NewObject_fst:
  assumes "fnFindClass env className (vm w) = (cls, t0, v0)"
    and "fnGetMethodID env cls ''<init>'' signature v0 = (constructor, t1, v1)"
    and "argsRaw env args v1 = (jvalues, t2, v2)"
    and "fnNewObjectA env cls constructor jvalues v2 = (r, t3, v3)"
  shows "fst (NewObject env className signature args w) =
     checked_outcome (raised t0 (pending w))
       (checked_outcome t1 (checked_outcome (raised t3 t2) (Return r)))"
  using assms
  by (simp add: NewObject_def FindClass_def bnd_def jni_eq ScopedLocalRef_def
      GetMethodID_def checked_eq JNI_CHECK_EXCEPTION_eq ret_def ArgsToJValues_argsRaw
      raised_def checked_outcome_def split: option.splits)

lemma GetField_default_fst:
  assumes "obj \<noteq> nullptr"
    and "fnGetObjectClass env obj (vm w) = (cls, t0, v0)"
    and "fnGetFieldID env cls fieldName signature v0 = (fid, t1, v1)"
    and "get obj fid v1 = (r, t2, v2)"
  shows "fst (GetField_default env get signature obj fieldName w) =
     checked_outcome (raised t1 (raised t0 (pending w))) (checked_outcome t2 (Return r))"
  using assms
  by (simp add: GetField_default_def env_GetObjectClass_def bnd_def jni_eq ScopedLocalRef_def
      GetFieldID_def JNITypeTraits_GetField_def checked_eq raised_def checked_outcome_def
      split: option.splits)

lemma GetField_fst:
  assumes "obj \<noteq> nullptr"
    and "fnGetObjectClass env obj (vm w) = (cls, t0, v0)"
    and "fnGetFieldID env cls fieldName signature v0 = (fid, t1, v1)"
    and "fnGetObjectField env obj fid v1 = (r, t2, v2)"
  shows "fst (GetField env obj fieldName signature w) =
     checked_outcome (raised t1 (raised t0 (pending w))) (checked_outcome t2 (Return r))"
  using assms
  by (simp add: GetField_def env_GetObjectClass_def bnd_def jni_eq ScopedLocalRef_def
      GetFieldID_def JNITypeTraits_GetField_def checked_eq raised_def checked_outcome_def
      split: option.splits)

lemma GetStaticField_default_fst:
  assumes "fnFindClass env className (vm w) = (cls, t0, v0)"
    and "fnGetStaticFieldID env cls fieldName signature v0 = (fid, t1, v1)"
    and "sget cls fid v1 = (r, t2, v2)"
  shows "fst (GetStaticField_default env sget signature className fieldName w) =
     checked_outcome (raised t0 (pending w))
       (checked_outcome t1 (checked_outcome t2 (Return r)))"
  using assms
  by (simp add: GetStaticField_default_def FindClass_def bnd_def jni_eq ScopedLocalRef_def
      GetStaticFieldID_def JNITypeTraits_GetStaticField_def checked_eq raised_def
      checked_outcome_def split: option.splits)

lemma GetStaticField_fst:
  assumes "fnFindClass env className (vm w) = (cls, t0, v0)"
    and "fnGetStaticFieldID env cls fieldName signature v0 = (fid, t1, v1)"
    and "fnGetStaticObjectField env cls fid v1 = (r, t2, v2)"
  shows "fst (GetStaticField env className fieldName signature w) =
     checked_outcome (raised t0 (pending w))
       (checked_outcome t1 (checked_outcome t2 (Return r)))"
  using assms
  by (simp add: GetStaticField_def FindClass_def bnd_def jni_eq ScopedLocalRef_def
      GetStaticFieldID_def JNITypeTraits_GetStaticField_def checked_eq raised_def
      checked_outcome_def split: option.splits)

text \<open>
  C7.  A helper that consists of one call of the interface (\<open>FindClass\<close>, the four
  identifier lookups and every member of \<open>JNITypeTraits\<close> are \<open>checked\<close> calls)
  throws a \<open>JNIException\<close> carrying the throwable and clears the pending exception
  when the call raised one, and returns the result of the call when none is pending.
  For the composite helpers \<open>CallMethod\<close>, \<open>CallStaticMethod\<close>, \<open>GetField\<close>,
  \<open>GetStaticField\<close> and \<open>NewObject\<close>, with or without arguments, the outcome is
  given call by call: the first call of the interface that leaves an exception pending
  makes the helper throw a \<open>JNIException\<close> with that throwable, and when none does the
  helper returns what its last call returned.  After any of the helpers no Java
  exception is pending, whether the helper returned or threw.
\<close>

theorem helpers_clear_pending:
  "(f (vm w) = (a, Some x, v) \<longrightarrow>
      checked f w = (Throw (JNIException ''JNI exception occurred'' x),
                     w\<lparr>pending := None, vm := v,
                       thrown := thrown w @ [JNIException ''JNI exception occurred'' x]\<rparr>))
   \<and> (f (vm w) = (a, None, v) \<and> pending w = None \<longrightarrow>
      checked f w = (Return a, w\<lparr>vm := v\<rparr>))
   \<and> (obj \<noteq> nullptr \<and> pending w = None
        \<and> fnGetObjectClass env obj (vm w) = (cls, None, v1)
        \<and> fnGetMethodID env cls methodName signature v1 = (mid, None, v2)
        \<and> call obj mid [] v2 = (r, None, v3)
      \<longrightarrow> fst (CallMethod env call obj methodName signature [] w) = Return r)
   \<and> (obj \<noteq> nullptr
        \<and> fnGetObjectClass env obj (vm w) = (cls, t0, v0)
        \<and> fnGetMethodID env cls methodName signature v0 = (mid, t1, v1)
        \<and> argsRaw env args v1 = (jvalues, t2, v2)
        \<and> call obj mid jvalues v2 = (r, t3, v3)
      \<longrightarrow> fst (CallMethod env call obj methodName signature args w) =
            checked_outcome (raised t1 (raised t0 (pending w)))
              (checked_outcome (raised t3 t2) (Return r)))
   \<and> (fnFindClass env className (vm w) = (cls, t0, v0)
        \<and> fnGetStaticMethodID env cls methodName signature v0 = (mid, t1, v1)
        \<and> argsRaw env args v1 = (jvalues, t2, v2)
        \<and> scall cls mid jvalues v2 = (rs, t3, v3)
      \<longrightarrow> fst (CallStaticMethod env scall className methodName signature args w) =
            checked_outcome (raised t0 (pending w))
              (checked_outcome t1 (checked_outcome (raised t3 t2) (Return rs))))
   \<and> (obj \<noteq> nullptr
        \<and> fnGetObjectClass env obj (vm w) = (cls, t0, v0)
        \<and> fnGetFieldID env cls fieldName signature v0 = (fid, t1, v1)
        \<and> fnGetObjectField env obj fid v1 = (rf, t2, v2)
      \<longrightarrow> fst (GetField env obj fieldName signature w) =
            checked_outcome (raised t1 (raised t0 (pending w)))
              (checked_outcome t2 (Return rf)))
   \<and> (obj \<noteq> nullptr
        \<and> fnGetObjectClass env obj (vm w) = (cls, t0, v0)
        \<and> fnGetFieldID env cls fieldName signature v0 = (fid, t1, v1)
        \<and> get obj fid v1 = (rg, t2, v2)
      \<longrightarrow> fst (GetField_default env get signature obj fieldName w) =
            checked_outcome (raised t1 (raised t0 (pending w)))
              (checked_outcome t2 (Return rg)))
   \<and> (fnFindClass env className (vm w) = (cls, t0, v0)
        \<and> fnGetStaticFieldID env cls fieldName signature v0 = (fid, t1, v1)
        \<and> fnGetStaticObjectField env cls fid v1 = (rf, t2, v2)
      \<longrightarrow> fst (GetStaticField env className fieldName signature w) =
            checked_outcome (raised t0 (pending w))
              (checked_outcome t1 (checked_outcome t2 (Return rf))))
   \<and> (fnFindClass env className (vm w) = (cls, t0, v0)
        \<and> fnGetStaticFieldID env cls fieldName signature v0 = (fid, t1, v1)
        \<and> sget cls fid v1 = (rsg, t2, v2)
      \<longrightarrow> fst (GetStaticField_default env sget signature className fieldName w) =
            checked_outcome (raised t0 (pending w))
              (checked_outcome t1 (checked_outcome t2 (Return rsg))))
   \<and> (fnFindClass env className (vm w) = (cls, t0, v0)
        \<and> fnGetMethodID env cls ''<init>'' signature v0 = (mid, t1, v1)
        \<and> argsRaw env args v1 = (jvalues, t2, v2)
        \<and> fnNewObjectA env cls mid jvalues v2 = (rf, t3, v3)
      \<longrightarrow> fst (NewObject env className signature args w) =
            checked_outcome (raised t0 (pending w))
              (checked_outcome t1 (checked_outcome (raised t3 t2) (Return rf))))
   \<and> exception_handled (CallMethod env call obj methodName signature args w)
   \<and> exception_handled (CallStaticMethod env scall className methodName signature args w)
   \<and> exception_handled (GetField env obj fieldName signature w)
   \<and> exception_handled (GetField_default env get signature obj fieldName w)
   \<and> exception_handled (GetStaticField env className fieldName signature w)
   \<and> exception_handled (GetStaticField_default env sget signature className fieldName w)
   \<and> exception_handled (NewObject env className signature args w)
   \<and> exception_handled (checked f w)
   \<and> fst (checked f w) =
       (case f (vm w) of (a, t, v) \<Rightarrow> checked_outcome (raised t (pending w)) (Return a))
   \<and> ArgsToJValues env args = jni (argsRaw env args)
   \<and> FindClass env className = checked (fnFindClass env className)
   \<and> GetMethodID env cls methodName signature
       = checked (fnGetMethodID env cls methodName signature)
   \<and> GetStaticMethodID env cls methodName signature
       = checked (fnGetStaticMethodID env cls methodName signature)
   \<and> GetFieldID env cls fieldName signature
       = checked (fnGetFieldID env cls fieldName signature)
   \<and> GetStaticFieldID env cls fieldName signature
       = checked (fnGetStaticFieldID env cls fieldName signature)
   \<and> JNITypeTraits_GetField get obj fid = checked (get obj fid)
   \<and> JNITypeTraits_GetStaticField sget cls fid = checked (sget cls fid)
   \<and> JNITypeTraits_CallMethod call obj mid jvalues = checked (call obj mid jvalues)
   \<and> JNITypeTraits_CallStaticMethod scall cls mid jvalues = checked (scall cls mid jvalues)"
proof -
  have a: "f (vm w) = (a, Some x, v) \<longrightarrow>
      checked f w = (Throw (JNIException ''JNI exception occurred'' x),
                     w\<lparr>pending := None, vm := v,
                       thrown := thrown w @ [JNIException ''JNI exception occurred'' x]\<rparr>)"
    by (simp add: checked_eq)
  have b: "f (vm w) = (a, None, v) \<and> pending w = None \<longrightarrow>
      checked f w = (Return a, w\<lparr>vm := v\<rparr>)"
    by (simp add: checked_eq)
  note c = CallMethod_returns CallMethod_fst CallStaticMethod_fst GetField_fst
    GetField_default_fst GetStaticField_fst GetStaticField_default_fst NewObject_fst
  note d = exception_handled_checked exception_handled_CallMethod
    exception_handled_CallStaticMethod exception_handled_GetField
    exception_handled_GetField_default exception_handled_GetStaticField
    exception_handled_GetStaticField_default exception_handled_NewObject
  note e = FindClass_def GetMethodID_def GetStaticMethodID_def
    GetFieldID_def GetStaticFieldID_def JNITypeTraits_GetField_def
    JNITypeTraits_GetStaticField_def JNITypeTraits_CallMethod_def
    JNITypeTraits_CallStaticMethod_def
  show ?thesis
    by (intro conjI impI a [rule_format] b [rule_format] d checked_fst ArgsToJValues_argsRaw e;
        (elim conjE)?; (rule c; assumption)?)
qed

theorem helpers_clear_pending_witness:
  "fst (checked (fnFindClass (android_env broken) ''android/content/pm/PackageInfo'') stock_world)
     = Throw (JNIException ''JNI exception occurred'' NoClassDefFoundError)
   \<and> pending (snd (checked (fnFindClass (android_env broken) ''android/content/pm/PackageInfo'')
         stock_world)) = None
   \<and> fst (checked (fnFindClass (android_env stock) ''android/content/pm/PackageInfo'') stock_world)
     = Return 3
   \<and> exception_handled (CallMethod (android_env stock) (fnCallObjectMethodA (android_env stock)) 4
         ''getClass'' ''()Ljava/lang/Class;'' [] stock_world)
   \<and> fst (CallMethod (android_env stock) (fnCallObjectMethodA (android_env stock)) 4
         ''getClass'' ''()Ljava/lang/Class;'' [] stock_world) = Return 5
   \<and> fst (CallMethod (android_env stock) (fnCallObjectMethodA (android_env stock)) 13
         ''getDeclaredField'' ''(Ljava/lang/String;)Ljava/lang/reflect/Field;''
         [Prim (L 112)] stock_world) = Return 14
   \<and> fst (CallMethod (android_env broken) (fnCallObjectMethodA (android_env broken)) 1
         ''getPackageManager'' ''()Landroid/content/pm/PackageManager;'' [] stock_world)
       = Throw (JNIException ''JNI exception occurred'' NoSuchMethodError)
   \<and> fst (CallStaticMethod (android_env stock) (fnCallStaticObjectMethodA (android_env stock))
         ''android/app/ActivityThread'' ''currentActivityThread''
         ''()Landroid/app/ActivityThread;'' [] stock_world) = Return 19
   \<and> fst (CallStaticMethod (android_env no_activity_thread)
         (fnCallStaticObjectMethodA (android_env no_activity_thread))
         ''android/app/ActivityThread'' ''currentActivityThread''
         ''()Landroid/app/ActivityThread;'' [] stock_world)
       = Throw (JNIException ''JNI exception occurred'' NoClassDefFoundError)
   \<and> fst (GetField (android_env stock) 23 ''appComponentFactory'' ''Ljava/lang/String;''
         stock_world) = Return 105
   \<and> fst (GetField (android_env stock) 23 ''noSuchField'' ''Ljava/lang/String;''
         stock_world) = Throw (JNIException ''JNI exception occurred'' NoSuchFieldError)
   \<and> fst (GetField_default (android_env stock) (fnGetObjectField (android_env stock))
         ''Ljava/lang/Object;'' 23 ''sourceDir'' stock_world) = Return 108
   \<and> fst (GetStaticField (android_env stock) ''android/content/pm/PackageInfo'' ''CREATOR''
         ''Landroid/os/Parcelable$Creator;'' stock_world) = Return 4
   \<and> fst (GetStaticField_default (android_env stock) (fnGetStaticObjectField (android_env stock))
         ''Ljava/lang/Object;'' ''android/content/pm/PackageInfo'' ''CREATOR'' stock_world)
       = Return 4
   \<and> fst (NewObject (android_env stock) ''java/lang/ClassLoader'' ''()V'' [] stock_world)
       = Throw (JNIException ''JNI exception occurred'' NoSuchMethodError)"
proof -
  let ?S = "android_env stock"
  let ?B = "android_env broken"
  let ?N = "android_env no_activity_thread"
  let ?pi = "''android/content/pm/PackageInfo''"
  let ?at = "''android/app/ActivityThread''"
  have a: "fnFindClass ?B ?pi (vm stock_world) = (nullptr, Some NoClassDefFoundError, 0)"
    by code_simp
  have b: "fnFindClass ?S ?pi (vm stock_world) = (3, None, 0)"
    by code_simp
  have c: "pending stock_world = None"
    by code_simp
  have d: "fnGetObjectClass ?S 4 (vm stock_world) = (5, None, 0)"
    by code_simp
  have e: "fnGetMethodID ?S 5 ''getClass'' ''()Ljava/lang/Class;'' 0 = (1, None, 0)"
    by code_simp
  have f: "fnCallObjectMethodA ?S 4 1 [] 0 = (5, None, 0)"
    by code_simp
  note t1 = helpers_clear_pending [where f = "fnFindClass ?B ?pi"
      and w = stock_world and a = nullptr and x = NoClassDefFoundError and v = 0]
  note t2 = helpers_clear_pending [where f = "fnFindClass ?S ?pi"
      and w = stock_world and a = 3 and v = 0 and env = ?S
      and call = "fnCallObjectMethodA ?S" and obj = 4
      and methodName = "''getClass''" and signature = "''()Ljava/lang/Class;''"
      and args = "[]" and cls = 5 and ?v1.0 = 0 and mid = 1 and ?v2.0 = 0 and r = 5 and ?v3.0 = 0]
  from t1 [THEN conjunct1] a
  have "checked (fnFindClass ?B ?pi) stock_world
     = (Throw (JNIException ''JNI exception occurred'' NoClassDefFoundError),
        stock_world\<lparr>pending := None, vm := 0,
          thrown := thrown stock_world
            @ [JNIException ''JNI exception occurred'' NoClassDefFoundError]\<rparr>)"
    by (rule mp)
  then have g: "fst (checked (fnFindClass ?B ?pi) stock_world)
       = Throw (JNIException ''JNI exception occurred'' NoClassDefFoundError)
     \<and> pending (snd (checked (fnFindClass ?B ?pi) stock_world)) = None"
    by simp
  from t2 [THEN conjunct2, THEN conjunct1] b c
  have "checked (fnFindClass ?S ?pi) stock_world = (Return 3, stock_world\<lparr>vm := 0\<rparr>)"
    by simp
  then have h: "fst (checked (fnFindClass ?S ?pi) stock_world) = Return 3"
    by simp
  from t2 [THEN conjunct2, THEN conjunct2, THEN conjunct2, THEN conjunct2, THEN conjunct2, THEN conjunct2, THEN conjunct2, THEN conjunct2, THEN conjunct2, THEN conjunct2, THEN conjunct1]
  have i: "exception_handled (CallMethod ?S (fnCallObjectMethodA ?S) 4
         ''getClass'' ''()Ljava/lang/Class;'' [] stock_world)" .
  from t2 [THEN conjunct2, THEN conjunct2, THEN conjunct1] c d e f
  have j: "fst (CallMethod ?S (fnCallObjectMethodA ?S) 4
         ''getClass'' ''()Ljava/lang/Class;'' [] stock_world) = Return 5"
    by simp
  \<comment> \<open>\<open>CallMethod\<close> with an argument, and with a method that is missing\<close>
  have k1: "fnGetObjectClass ?S 13 (vm stock_world) = (6, None, 0)"
    by code_simp
  have k2: "fnGetMethodID ?S 6 ''getDeclaredField''
      ''(Ljava/lang/String;)Ljava/lang/reflect/Field;'' 0 = (7, None, 0)"
    by code_simp
  have k3: "argsRaw ?S [Prim (L 112)] 0 = ([L 112], None, 0)"
    by code_simp
  have k4: "fnCallObjectMethodA ?S 13 7 [L 112] 0 = (14, None, 0)"
    by code_simp
  from helpers_clear_pending [where env = ?S and w = stock_world and obj = 13 and cls = 6
      and methodName = "''getDeclaredField''"
      and signature = "''(Ljava/lang/String;)Ljava/lang/reflect/Field;''"
      and args = "[Prim (L 112)]" and mid = 7 and jvalues = "[L 112]"
      and call = "fnCallObjectMethodA ?S" and r = 14
      and ?t0.0 = None and ?t1.0 = None and ?t2.0 = None and ?t3.0 = None
      and ?v0.0 = 0 and ?v1.0 = 0 and ?v2.0 = 0 and ?v3.0 = 0, THEN conjunct2, THEN conjunct2, THEN conjunct2, THEN conjunct1] c k1 k2 k3 k4
  have k: "fst (CallMethod ?S (fnCallObjectMethodA ?S) 13
         ''getDeclaredField'' ''(Ljava/lang/String;)Ljava/lang/reflect/Field;''
         [Prim (L 112)] stock_world) = Return 14"
    by (simp add: checked_outcome_def raised_def)
  have l1: "fnGetObjectClass ?B 1 (vm stock_world) = (2, None, 0)"
    by code_simp
  have l2: "fnGetMethodID ?B 2 ''getPackageManager''
      ''()Landroid/content/pm/PackageManager;'' 0 = (0, Some NoSuchMethodError, 0)"
    by code_simp
  have l3: "argsRaw ?B [] 0 = ([], None, 0)"
    by code_simp
  have l4: "fnCallObjectMethodA ?B 1 0 [] 0 = (nullptr, None, 0)"
    by code_simp
  from helpers_clear_pending [where env = ?B and w = stock_world and obj = 1 and cls = 2
      and methodName = "''getPackageManager''"
      and signature = "''()Landroid/content/pm/PackageManager;''"
      and args = "[]" and mid = 0 and jvalues = "[]"
      and call = "fnCallObjectMethodA ?B" and r = nullptr
      and ?t0.0 = None and ?t1.0 = "Some NoSuchMethodError" and ?t2.0 = None and ?t3.0 = None
      and ?v0.0 = 0 and ?v1.0 = 0 and ?v2.0 = 0 and ?v3.0 = 0, THEN conjunct2, THEN conjunct2, THEN conjunct2, THEN conjunct1] c l1 l2 l3 l4
  have l: "fst (CallMethod ?B (fnCallObjectMethodA ?B) 1
         ''getPackageManager'' ''()Landroid/content/pm/PackageManager;'' [] stock_world)
       = Throw (JNIException ''JNI exception occurred'' NoSuchMethodError)"
    by (simp add: checked_outcome_def raised_def)
  \<comment> \<open>\<open>CallStaticMethod\<close>\<close>
  have m1: "fnFindClass ?S ?at (vm stock_world) = (18, None, 0)"
    by code_simp
  have m2: "fnGetStaticMethodID ?S 18 ''currentActivityThread''
      ''()Landroid/app/ActivityThread;'' 0 = (15, None, 0)"
    by code_simp
  have m3: "argsRaw ?S [] 0 = ([], None, 0)"
    by code_simp
  have m4: "fnCallStaticObjectMethodA ?S 18 15 [] 0 = (19, None, 0)"
    by code_simp
  from helpers_clear_pending [where env = ?S and w = stock_world and className = ?at
      and cls = 18 and methodName = "''currentActivityThread''"
      and signature = "''()Landroid/app/ActivityThread;''"
      and args = "[]" and mid = 15 and jvalues = "[]"
      and scall = "fnCallStaticObjectMethodA ?S" and rs = 19
      and ?t0.0 = None and ?t1.0 = None and ?t2.0 = None and ?t3.0 = None
      and ?v0.0 = 0 and ?v1.0 = 0 and ?v2.0 = 0 and ?v3.0 = 0, THEN conjunct2, THEN conjunct2, THEN conjunct2, THEN conjunct2, THEN conjunct1] c m1 m2 m3 m4
  have m: "fst (CallStaticMethod ?S (fnCallStaticObjectMethodA ?S) ?at
         ''currentActivityThread'' ''()Landroid/app/ActivityThread;'' [] stock_world)
       = Return 19"
    by (simp add: checked_outcome_def raised_def)
  have n1: "fnFindClass ?N ?at (vm stock_world) = (nullptr, Some NoClassDefFoundError, 0)"
    by code_simp
  have n2: "fnGetStaticMethodID ?N 0 ''currentActivityThread''
      ''()Landroid/app/ActivityThread;'' 0 = (15, None, 0)"
    by code_simp
  have n3: "argsRaw ?N [] 0 = ([], None, 0)"
    by code_simp
  have n4: "fnCallStaticObjectMethodA ?N 0 15 [] 0 = (19, None, 0)"
    by code_simp
  from helpers_clear_pending [where env = ?N and w = stock_world and className = ?at
      and cls = 0 and methodName = "''currentActivityThread''"
      and signature = "''()Landroid/app/ActivityThread;''"
      and args = "[]" and mid = 15 and jvalues = "[]"
      and scall = "fnCallStaticObjectMethodA ?N" and rs = 19
      and ?t0.0 = "Some NoClassDefFoundError" and ?t1.0 = None and ?t2.0 = None
      and ?t3.0 = None
      and ?v0.0 = 0 and ?v1.0 = 0 and ?v2.0 = 0 and ?v3.0 = 0, THEN conjunct2, THEN conjunct2, THEN conjunct2, THEN conjunct2, THEN conjunct1] c n1 n2 n3 n4
  have n: "fst (CallStaticMethod ?N (fnCallStaticObjectMethodA ?N) ?at
         ''currentActivityThread'' ''()Landroid/app/ActivityThread;'' [] stock_world)
       = Throw (JNIException ''JNI exception occurred'' NoClassDefFoundError)"
    by (simp add: checked_outcome_def raised_def)
  \<comment> \<open>\<open>GetField\<close>\<close>
  have o1: "fnGetObjectClass ?S 23 (vm stock_world) = (24, None, 0)"
    by code_simp
  have o2: "fnGetFieldID ?S 24 ''appComponentFactory'' ''Ljava/lang/String;'' 0 = (2, None, 0)"
    by code_simp
  have o3: "fnGetObjectField ?S 23 2 0 = (105, None, 0)"
    by code_simp
  from helpers_clear_pending [where env = ?S and w = stock_world and obj = 23 and cls = 24
      and fieldName = "''appComponentFactory''" and signature = "''Ljava/lang/String;''"
      and fid = 2 and rf = 105
      and ?t0.0 = None and ?t1.0 = None and ?t2.0 = None
      and ?v0.0 = 0 and ?v1.0 = 0 and ?v2.0 = 0, THEN conjunct2, THEN conjunct2, THEN conjunct2, THEN conjunct2, THEN conjunct2, THEN conjunct1] c o1 o2 o3
  have o: "fst (GetField ?S 23 ''appComponentFactory'' ''Ljava/lang/String;'' stock_world)
       = Return 105"
    by (simp add: checked_outcome_def raised_def)
  have p2: "fnGetFieldID ?S 24 ''noSuchField'' ''Ljava/lang/String;'' 0
      = (0, Some NoSuchFieldError, 0)"
    by code_simp
  have p3: "fnGetObjectField ?S 23 0 0 = (nullptr, None, 0)"
    by code_simp
  from helpers_clear_pending [where env = ?S and w = stock_world and obj = 23 and cls = 24
      and fieldName = "''noSuchField''" and signature = "''Ljava/lang/String;''"
      and fid = 0 and rf = nullptr
      and ?t0.0 = None and ?t1.0 = "Some NoSuchFieldError" and ?t2.0 = None
      and ?v0.0 = 0 and ?v1.0 = 0 and ?v2.0 = 0, THEN conjunct2, THEN conjunct2, THEN conjunct2, THEN conjunct2, THEN conjunct2, THEN conjunct1] c o1 p2 p3
  have p: "fst (GetField ?S 23 ''noSuchField'' ''Ljava/lang/String;'' stock_world)
       = Throw (JNIException ''JNI exception occurred'' NoSuchFieldError)"
    by (simp add: checked_outcome_def raised_def)
  have q2: "fnGetFieldID ?S 24 ''sourceDir'' ''Ljava/lang/Object;'' 0 = (3, None, 0)"
    by code_simp
  have q3: "fnGetObjectField ?S 23 3 0 = (108, None, 0)"
    by code_simp
  from helpers_clear_pending [where env = ?S and w = stock_world and obj = 23 and cls = 24
      and fieldName = "''sourceDir''" and signature = "''Ljava/lang/Object;''"
      and fid = 3 and rg = 108 and get = "fnGetObjectField ?S"
      and ?t0.0 = None and ?t1.0 = None and ?t2.0 = None
      and ?v0.0 = 0 and ?v1.0 = 0 and ?v2.0 = 0, THEN conjunct2, THEN conjunct2, THEN conjunct2, THEN conjunct2, THEN conjunct2, THEN conjunct2, THEN conjunct1] c o1 q2 q3
  have q: "fst (GetField_default ?S (fnGetObjectField ?S) ''Ljava/lang/Object;'' 23
         ''sourceDir'' stock_world) = Return 108"
    by (simp add: checked_outcome_def raised_def)
  \<comment> \<open>\<open>GetStaticField\<close> and \<open>NewObject\<close>\<close>
  have r2: "fnGetStaticFieldID ?S 3 ''CREATOR'' ''Landroid/os/Parcelable$Creator;'' 0
      = (5, None, 0)"
    by code_simp
  have r3: "fnGetStaticObjectField ?S 3 5 0 = (4, None, 0)"
    by code_simp
  from helpers_clear_pending [where env = ?S and w = stock_world and className = ?pi
      and cls = 3 and fieldName = "''CREATOR''"
      and signature = "''Landroid/os/Parcelable$Creator;''" and fid = 5 and rf = 4
      and ?t0.0 = None and ?t1.0 = None and ?t2.0 = None
      and ?v0.0 = 0 and ?v1.0 = 0 and ?v2.0 = 0, THEN conjunct2, THEN conjunct2, THEN conjunct2, THEN conjunct2, THEN conjunct2, THEN conjunct2, THEN conjunct2, THEN conjunct1] c b r2 r3
  have r: "fst (GetStaticField ?S ?pi ''CREATOR'' ''Landroid/os/Parcelable$Creator;''
         stock_world) = Return 4"
    by (simp add: checked_outcome_def raised_def)
  have s2: "fnGetStaticFieldID ?S 3 ''CREATOR'' ''Ljava/lang/Object;'' 0 = (5, None, 0)"
    by code_simp
  from helpers_clear_pending [where env = ?S and w = stock_world and className = ?pi
      and cls = 3 and fieldName = "''CREATOR''"
      and signature = "''Ljava/lang/Object;''" and fid = 5 and rsg = 4
      and sget = "fnGetStaticObjectField ?S"
      and ?t0.0 = None and ?t1.0 = None and ?t2.0 = None
      and ?v0.0 = 0 and ?v1.0 = 0 and ?v2.0 = 0, THEN conjunct2, THEN conjunct2, THEN conjunct2, THEN conjunct2, THEN conjunct2, THEN conjunct2, THEN conjunct2, THEN conjunct2, THEN conjunct1] c b s2 r3
  have s: "fst (GetStaticField_default ?S (fnGetStaticObjectField ?S) ''Ljava/lang/Object;''
         ?pi ''CREATOR'' stock_world) = Return 4"
    by (simp add: checked_outcome_def raised_def)
  have u1: "fnFindClass ?S ''java/lang/ClassLoader'' (vm stock_world) = (11, None, 0)"
    by code_simp
  have u2: "fnGetMethodID ?S 11 ''<init>'' ''()V'' 0 = (0, Some NoSuchMethodError, 0)"
    by code_simp
  have u4: "fnNewObjectA ?S 11 0 [] 0 = (nullptr, None, 0)"
    by code_simp
  from helpers_clear_pending [where env = ?S and w = stock_world
      and className = "''java/lang/ClassLoader''" and cls = 11
      and signature = "''()V''" and args = "[]" and mid = 0 and jvalues = "[]"
      and rf = nullptr
      and ?t0.0 = None and ?t1.0 = "Some NoSuchMethodError" and ?t2.0 = None and ?t3.0 = None
      and ?v0.0 = 0 and ?v1.0 = 0 and ?v2.0 = 0 and ?v3.0 = 0, THEN conjunct2, THEN conjunct2, THEN conjunct2, THEN conjunct2, THEN conjunct2, THEN conjunct2, THEN conjunct2, THEN conjunct2, THEN conjunct2, THEN conjunct1] c u1 u2 m3 u4
  have u: "fst (NewObject ?S ''java/lang/ClassLoader'' ''()V'' [] stock_world)
       = Throw (JNIException ''JNI exception occurred'' NoSuchMethodError)"
    by (simp add: checked_outcome_def raised_def)
  from g h i j k l m n o p q r s u show ?thesis
    by (intro conjI) simp_all
qed

subsection \<open>The catch blocks of the probes\<close>

lemma try_catch_Throw:
  "fst (m w) = Throw e \<Longrightarrow> try_catch m (\<lambda>e. ret a) w = (Return a, snd (m w))"
  by (cases "m w") (simp add: try_catch_def ret_def)

lemma try_catch_no_Throw: "fst (try_catch m (\<lambda>e. ret a) w) \<noteq> Throw e'"
  by (cases "m w") (simp add: try_catch_def ret_def split: outcome.splits)

subsection \<open>checkSignatureBypass\<close>

lemma bnd_no_Throw:
  assumes "\<And>e. fst (m w) \<noteq> Throw e" and "\<And>a w' e. fst (f a w') \<noteq> Throw e"
  shows "fst (bnd m f w) \<noteq> Throw e"
  using assms by (cases "m w") (auto simp: bnd_def split: outcome.splits)

lemma checkSignatureBypass_no_Throw: "fst (checkSignatureBypass env context w) \<noteq> Throw e"
  unfolding checkSignatureBypass_def Let_def checkCreator_def checkField_def checkCreators_def
    checkPMProxy_def checkAppComponentFactory_def checkApkPaths_def
  by (intro bnd_no_Throw try_catch_no_Throw) (simp add: ret_def)

text \<open>
  C1.  \<open>checkSignatureBypass\<close> runs the six probes once each, in the order
  \<open>checkCreator\<close>, \<open>checkField\<close>, \<open>checkCreators\<close>, \<open>checkPMProxy\<close>,
  \<open>checkAppComponentFactory\<close>, \<open>checkApkPaths\<close>, each in the state the one before
  left, whatever the earlier results were; it returns the disjunction of the six
  results, so \<open>true\<close> exactly when some probe reports suspicious.  It never throws.
\<close>

theorem checkSignatureBypass_or:
  "(checkCreator env w = (Return r1, w1)
    \<and> checkField env w1 = (Return r2, w2)
    \<and> checkCreators env w2 = (Return r3, w3)
    \<and> checkPMProxy env context w3 = (Return r4, w4)
    \<and> checkAppComponentFactory env w4 = (Return r5, w5)
    \<and> checkApkPaths env context w5 = (Return r6, w6)
    \<longrightarrow> checkSignatureBypass env context w
          = (Return (r1 \<or> r2 \<or> r3 \<or> r4 \<or> r5 \<or> r6), w6))
   \<and> fst (checkSignatureBypass env context w) \<noteq> Throw e"
  by (simp add: checkSignatureBypass_no_Throw)
     (simp add: checkSignatureBypass_def bnd_def ret_def)

theorem checkSignatureBypass_or_witness:
  "fst (checkCreator (android_env hooked) stock_world) = Return True
   \<and> fst (checkApkPaths (android_env hooked) 1
        (snd (checkAppComponentFactory (android_env hooked)
        (snd (checkPMProxy (android_env hooked) 1
        (snd (checkCreators (android_env hooked)
        (snd (checkField (android_env hooked)
        (snd (checkCreator (android_env hooked) stock_world)))))))))))
      = Return False
   \<and> fst (checkSignatureBypass (android_env hooked) 1 stock_world) = Return True"
proof -
  define w1 where "w1 = snd (checkCreator (android_env hooked) stock_world)"
  define w2 where "w2 = snd (checkField (android_env hooked) w1)"
  define w3 where "w3 = snd (checkCreators (android_env hooked) w2)"
  define w4 where "w4 = snd (checkPMProxy (android_env hooked) 1 w3)"
  define w5 where "w5 = snd (checkAppComponentFactory (android_env hooked) w4)"
  define w6 where "w6 = snd (checkApkPaths (android_env hooked) 1 w5)"
  have a': "fst (checkCreator (android_env hooked) stock_world) = Return True"
    by code_simp
  then have a: "checkCreator (android_env hooked) stock_world = (Return True, w1)"
    unfolding w1_def by (simp add: prod_eq_iff)
  have "fst (checkField (android_env hooked) w1) = Return False"
    unfolding w1_def by code_simp
  then have b: "checkField (android_env hooked) w1 = (Return False, w2)"
    unfolding w2_def by (simp add: prod_eq_iff)
  have "fst (checkCreators (android_env hooked) w2) = Return True"
    unfolding w2_def w1_def by code_simp
  then have c: "checkCreators (android_env hooked) w2 = (Return True, w3)"
    unfolding w3_def by (simp add: prod_eq_iff)
  have "fst (checkPMProxy (android_env hooked) 1 w3) = Return False"
    unfolding w3_def w2_def w1_def by code_simp
  then have d: "checkPMProxy (android_env hooked) 1 w3 = (Return False, w4)"
    unfolding w4_def by (simp add: prod_eq_iff)
  have "fst (checkAppComponentFactory (android_env hooked) w4) = Return False"
    unfolding w4_def w3_def w2_def w1_def by code_simp
  then have e: "checkAppComponentFactory (android_env hooked) w4 = (Return False, w5)"
    unfolding w5_def by (simp add: prod_eq_iff)
  have f': "fst (checkApkPaths (android_env hooked) 1
        (snd (checkAppComponentFactory (android_env hooked)
        (snd (checkPMProxy (android_env hooked) 1
        (snd (checkCreators (android_env hooked)
        (snd (checkField (android_env hooked)
        (snd (checkCreator (android_env hooked) stock_world)))))))))))
      = Return False"
    by code_simp
  then have f: "checkApkPaths (android_env hooked) 1 w5 = (Return False, w6)"
    unfolding w6_def w5_def w4_def w3_def w2_def w1_def by (simp add: prod_eq_iff)
  from checkSignatureBypass_or [of "android_env hooked" stock_world True w1 False w2 True w3 1
      False w4 False w5 False w6, THEN conjunct1] a b c d e f
  have "checkSignatureBypass (android_env hooked) 1 stock_world = (Return True, w6)"
    by simp
  then have g: "fst (checkSignatureBypass (android_env hooked) 1 stock_world) = Return True"
    by simp
  from a' f' g show ?thesis by blast
qed

subsection \<open>checkCreator\<close>

lemma str_find_0: "(str_find s p = Some 0) = prefix p s"
  by (cases s) auto

lemma expected_prefix: "prefix ''android.content.pm.PackageInfo$'' ''android.content.pm.PackageInfo$1''"
  by simp

lemma creator_name_test:
  "(if ''android.content.pm.PackageInfo$1'' \<noteq> n then True
    else if str_find n ''android.content.pm.PackageInfo$'' \<noteq> Some 0 then True else False)
   = (n \<noteq> ''android.content.pm.PackageInfo$1'')"
  unfolding str_find_0 using expected_prefix by metis

lemma checkCreator_try_eq:
  "checkCreator_try env =
     bnd (currentCreatorName env) (\<lambda>n. ret (n \<noteq> ''android.content.pm.PackageInfo$1''))"
  by (simp only: checkCreator_try_def currentCreatorName_def Let_def bnd_assoc creator_name_test)

lemma try_catch_cases:
  "fst (try_catch m (\<lambda>e. ret a) w) =
     (case fst (m w) of Return x \<Rightarrow> Return x | Throw e \<Rightarrow> Return a | Abort \<Rightarrow> Abort)"
  by (cases "m w") (simp add: try_catch_def ret_def split: outcome.splits)

lemma bnd_ret_cases:
  "fst (bnd m (\<lambda>x. ret (g x)) w) =
     (case fst (m w) of Return x \<Rightarrow> Return (g x) | Throw e \<Rightarrow> Throw e | Abort \<Rightarrow> Abort)"
  by (cases "m w") (simp add: bnd_def ret_def split: outcome.splits)

lemma checkCreator_cases:
  "fst (checkCreator env w) =
     (case fst (currentCreatorName env w) of
        Return n \<Rightarrow> Return (n \<noteq> ''android.content.pm.PackageInfo$1'')
      | Throw e \<Rightarrow> Return True
      | Abort \<Rightarrow> Abort)"
  unfolding checkCreator_def checkCreator_try_eq try_catch_cases bnd_ret_cases
  by (simp split: outcome.splits)

text \<open>
  C4.  \<open>checkCreator\<close> returns \<open>suspicious = false\<close> exactly when the class name of
  \<open>PackageInfo.CREATOR\<close> is obtained without an exception and equals
  \<open>android.content.pm.PackageInfo$1\<close>; any other name that is obtained gives
  \<open>true\<close>, and so does an exception.  The expected name starts with the prefix that is
  tested first, so the prefix test decides nothing on its own.
\<close>

theorem checkCreator_name:
  "fst (checkCreator env w) =
     (case fst (currentCreatorName env w) of
        Return n \<Rightarrow> Return (n \<noteq> ''android.content.pm.PackageInfo$1'')
      | Throw e \<Rightarrow> Return True
      | Abort \<Rightarrow> Abort)
   \<and> ((fst (checkCreator env w) = Return False)
        = (fst (currentCreatorName env w) = Return ''android.content.pm.PackageInfo$1''))
   \<and> (fst (currentCreatorName env w) = Return n \<and> n \<noteq> ''android.content.pm.PackageInfo$1''
        \<longrightarrow> fst (checkCreator env w) = Return True)
   \<and> str_find ''android.content.pm.PackageInfo$1'' ''android.content.pm.PackageInfo$'' = Some 0"
proof -
  define expected where "expected = ''android.content.pm.PackageInfo$1''"
  have a: "fst (checkCreator env w) =
     (case fst (currentCreatorName env w) of
        Return n \<Rightarrow> Return (n \<noteq> expected)
      | Throw e \<Rightarrow> Return True
      | Abort \<Rightarrow> Abort)"
    unfolding expected_def by (rule checkCreator_cases)
  have b: "(fst (checkCreator env w) = Return False)
        = (fst (currentCreatorName env w) = Return expected)"
    unfolding a by (cases "fst (currentCreatorName env w)") auto
  have c: "fst (currentCreatorName env w) = Return n \<and> n \<noteq> expected
        \<longrightarrow> fst (checkCreator env w) = Return True"
    unfolding a by simp
  have d: "str_find ''android.content.pm.PackageInfo$1'' ''android.content.pm.PackageInfo$'' = Some 0"
    unfolding str_find_0 by (rule expected_prefix)
  from a b c d show ?thesis
    unfolding expected_def by blast
qed

theorem checkCreator_name_witness:
  "fst (currentCreatorName (android_env stock) stock_world)
     = Return ''android.content.pm.PackageInfo$1''
   \<and> fst (checkCreator (android_env stock) stock_world) = Return False
   \<and> fst (currentCreatorName (android_env hooked) stock_world)
     = Return ''bin.mt.signature.KillerApplication$1''
   \<and> fst (checkCreator (android_env hooked) stock_world) = Return True"
proof -
  have a: "fst (currentCreatorName (android_env stock) stock_world)
     = Return ''android.content.pm.PackageInfo$1''"
    by code_simp
  have b: "fst (currentCreatorName (android_env hooked) stock_world)
     = Return ''bin.mt.signature.KillerApplication$1''"
    by code_simp
  have c: "''bin.mt.signature.KillerApplication$1'' \<noteq> ''android.content.pm.PackageInfo$1''"
    by simp
  note t1 = checkCreator_name [of "android_env stock" stock_world]
  note t2 = checkCreator_name [of "android_env hooked" stock_world
      "''bin.mt.signature.KillerApplication$1''"]
  from t1 [THEN conjunct2, THEN conjunct1] a
  have d: "fst (checkCreator (android_env stock) stock_world) = Return False"
    by simp
  from t2 [THEN conjunct2, THEN conjunct2, THEN conjunct1] b c
  have e: "fst (checkCreator (android_env hooked) stock_world) = Return True"
    by simp
  from a b d e show ?thesis by blast
qed

subsection \<open>checkField\<close>

lemma checkField_try_eq:
  "checkField_try env =
     bnd (declaredFields env) (\<lambda>(fieldArray, fieldCount).
       if fieldCount > 0 then
         bnd (for_each (checkField_log env fieldArray) (map int [0..<nat fieldCount])) (\<lambda>_.
         ret True)
       else ret False)"
  by (simp only: checkField_try_def declaredFields_def Let_def bnd_assoc bnd_ret prod.case)

lemma try_catch_bnd_cases:
  "fst (try_catch (bnd m f) (\<lambda>e. ret a) w) =
     (case m w of
        (Return x, w') \<Rightarrow> fst (try_catch (f x) (\<lambda>e. ret a) w')
      | (Throw e, w') \<Rightarrow> Return a
      | (Abort, w') \<Rightarrow> Abort)"
  by (cases "m w") (simp add: try_catch_def bnd_def ret_def split: outcome.splits)

lemma checkField_cases:
  "fst (checkField env w) =
     (case declaredFields env w of
        (Return (fieldArray, fieldCount), w') \<Rightarrow>
          if fieldCount > 0 then
            (case fst (for_each (checkField_log env fieldArray) (map int [0..<nat fieldCount]) w') of
               Abort \<Rightarrow> Abort | _ \<Rightarrow> Return True)
          else Return False
      | (Throw e, w') \<Rightarrow> Return True
      | (Abort, w') \<Rightarrow> Abort)"
  unfolding checkField_def checkField_try_eq try_catch_bnd_cases
  by (simp add: try_catch_cases bnd_ret_cases [where g = "\<lambda>_. True"] ret_def
      split: prod.splits outcome.splits)

text \<open>
  C5.  \<open>checkField\<close> returns \<open>true\<close> when reading the declared fields of the class
  of \<open>CREATOR\<close> throws, and \<open>false\<close> when the count is read and is not positive.
  When the count is positive it returns \<open>true\<close>, provided the loop that logs the field
  names stays inside the contract of the interface (no element of the array is null); an
  exception in that loop is caught and gives \<open>true\<close> as well.  So \<open>false\<close> is returned
  exactly for a count of zero read without exception, and \<open>true\<close> only for a positive
  count or an exception.
\<close>

theorem checkField_count:
  "(fst (declaredFields env w) = Throw e \<longrightarrow> fst (checkField env w) = Return True)
   \<and> (fst (declaredFields env w) = Return (fieldArray, fieldCount) \<and> fieldCount \<le> 0
        \<longrightarrow> fst (checkField env w) = Return False)
   \<and> (fst (declaredFields env w) = Return (fieldArray, fieldCount) \<and> 0 < fieldCount
        \<and> fst (checkField env w) \<noteq> Abort
        \<longrightarrow> fst (checkField env w) = Return True)
   \<and> ((fst (checkField env w) = Return False)
        = (\<exists>a n. fst (declaredFields env w) = Return (a, n) \<and> n \<le> 0))
   \<and> (fst (checkField env w) = Return True
        \<longrightarrow> (\<exists>a n. fst (declaredFields env w) = Return (a, n) \<and> 0 < n)
            \<or> (\<exists>e. fst (declaredFields env w) = Throw e))"
  unfolding checkField_cases
  by (cases "declaredFields env w") (auto split: outcome.splits if_splits)


theorem checkField_count_witness:
  "fst (declaredFields (android_env stock) stock_world) = Return (25, 0)
   \<and> fst (checkField (android_env stock) stock_world) = Return False
   \<and> fst (declaredFields (android_env extra_field) stock_world) = Return (25, 1)
   \<and> fst (checkField (android_env extra_field) stock_world) = Return True
   \<and> fst (declaredFields (android_env broken) stock_world)
       = Throw (JNIException ''JNI exception occurred'' NoClassDefFoundError)
   \<and> fst (checkField (android_env broken) stock_world) = Return True"
proof -
  have a: "fst (declaredFields (android_env stock) stock_world) = Return (25, 0)"
    by code_simp
  have b: "fst (declaredFields (android_env extra_field) stock_world) = Return (25, 1)"
    by code_simp
  have c: "fst (checkField (android_env extra_field) stock_world) \<noteq> Abort"
    by code_simp
  have d: "fst (declaredFields (android_env broken) stock_world)
       = Throw (JNIException ''JNI exception occurred'' NoClassDefFoundError)"
    by code_simp
  note t1 = checkField_count [of "android_env stock" stock_world _ 25 0]
  note t2 = checkField_count [of "android_env extra_field" stock_world _ 25 1]
  note t3 = checkField_count [of "android_env broken" stock_world
      "JNIException ''JNI exception occurred'' NoClassDefFoundError"]
  from t1 [THEN conjunct2, THEN conjunct1] a
  have e: "fst (checkField (android_env stock) stock_world) = Return False"
    by simp
  from t2 [THEN conjunct2, THEN conjunct2, THEN conjunct1] b c
  have f: "fst (checkField (android_env extra_field) stock_world) = Return True"
    by simp
  from t3 [THEN conjunct1] d
  have g: "fst (checkField (android_env broken) stock_world) = Return True"
    by (rule mp)
  from a b d e f g show ?thesis by blast
qed

subsection \<open>checkCreators\<close>

lemma checkCreators_try_eq:
  "checkCreators_try env =
     bnd (creatorLoaders env) (\<lambda>(suspicious, creatorClassloader, sysClassloader).
      bnd (CallMethod env (fnCallObjectMethodA env) creatorClassloader
             ''getClass'' ''()Ljava/lang/Class;'' []) (\<lambda>creatorClassloaderClass.
      bnd (CallMethod env (fnCallObjectMethodA env) sysClassloader
             ''getClass'' ''()Ljava/lang/Class;'' []) (\<lambda>sysClassloaderClass.
      bnd (CallMethod env (fnCallObjectMethodA env) creatorClassloaderClass
             ''getName'' ''()Ljava/lang/String;'' []) (\<lambda>jCreatorClassloaderName.
      bnd (CallMethod env (fnCallObjectMethodA env) sysClassloaderClass
             ''getName'' ''()Ljava/lang/String;'' []) (\<lambda>jSysClassloaderName.
      bnd (JStringToString env jCreatorClassloaderName) (\<lambda>creatorClassloaderName.
      bnd (JStringToString env jSysClassloaderName) (\<lambda>sysClassloaderName.
      if creatorClassloader = nullptr \<or> sysClassloader = nullptr then ret True
      else if sysClassloaderName = creatorClassloaderName then ret True
      else ret suspicious)))))))"
proof -
  have s: "\<And>cs. (if cs \<noteq> [] then
               (if str_find cs ''android.content.pm.PackageInfo$'' \<noteq> Some 0 then True else False)
             else False)
      = (cs \<noteq> [] \<and> str_find cs ''android.content.pm.PackageInfo$'' \<noteq> Some 0)"
    by simp
  show ?thesis
    by (simp only: checkCreators_try_def creatorLoaders_def Let_def bnd_assoc bnd_ret
        prod.case s)
qed

lemma CallMethod_null: "CallMethod env call nullptr methodName signature args w = (Abort, w)"
  by (simp add: CallMethod_def env_GetObjectClass_def bnd_def abort_def)

text \<open>
  C6.  When the class loader of the class of \<open>CREATOR\<close> is null, \<open>checkCreators\<close>
  does not return \<open>true\<close>: \<open>getClass\<close> is called on the loader (line 119) before the
  test for null (line 131), and \<open>GetObjectClass\<close> on a null reference ends the process.
  The same holds for a null system class loader once the call of line 119 has returned.
\<close>

theorem checkCreators_null_loader:
  "(creatorLoaders env w = (Return (suspicious, nullptr, sysClassloader), w1)
      \<longrightarrow> fst (checkCreators env w) = Abort)
   \<and> (creatorLoaders env w = (Return (suspicious, creatorClassloader, nullptr), w1)
       \<and> fst (CallMethod env (fnCallObjectMethodA env) creatorClassloader
                ''getClass'' ''()Ljava/lang/Class;'' [] w1) = Return cls
      \<longrightarrow> fst (checkCreators env w) = Abort)"
proof (intro conjI impI)
  assume "creatorLoaders env w = (Return (suspicious, nullptr, sysClassloader), w1)"
  then show "fst (checkCreators env w) = Abort"
    by (simp add: checkCreators_def checkCreators_try_eq try_catch_def bnd_def CallMethod_null)
next
  assume a: "creatorLoaders env w = (Return (suspicious, creatorClassloader, nullptr), w1)
       \<and> fst (CallMethod env (fnCallObjectMethodA env) creatorClassloader
                ''getClass'' ''()Ljava/lang/Class;'' [] w1) = Return cls"
  then obtain w2 where "CallMethod env (fnCallObjectMethodA env) creatorClassloader
                ''getClass'' ''()Ljava/lang/Class;'' [] w1 = (Return cls, w2)"
    by (cases "CallMethod env (fnCallObjectMethodA env) creatorClassloader
                ''getClass'' ''()Ljava/lang/Class;'' [] w1") auto
  with a show "fst (checkCreators env w) = Abort"
    by (simp add: checkCreators_def checkCreators_try_eq try_catch_def bnd_def CallMethod_null)
qed

theorem checkCreators_null_loader_witness:
  "fst (creatorLoaders (android_env null_loader) stock_world) = Return (False, nullptr, 8)
   \<and> fst (checkCreators (android_env null_loader) stock_world) = Abort"
proof -
  have a: "fst (creatorLoaders (android_env null_loader) stock_world) = Return (False, nullptr, 8)"
    by code_simp
  then have "creatorLoaders (android_env null_loader) stock_world
      = (Return (False, nullptr, 8), snd (creatorLoaders (android_env null_loader) stock_world))"
    by (simp add: prod_eq_iff)
  with checkCreators_null_loader [of "android_env null_loader" stock_world False 8
      "snd (creatorLoaders (android_env null_loader) stock_world)", THEN conjunct1]
  have "fst (checkCreators (android_env null_loader) stock_world) = Abort"
    by (rule mp)
  with a show ?thesis by blast
qed

subsection \<open>checkAppComponentFactory\<close>

lemma checkAppComponentFactory_try_eq:
  "checkAppComponentFactory_try env =
     bnd (getApplication env) (\<lambda>application.
       if application \<noteq> nullptr then
         bnd (factoryField env application) (\<lambda>jAppComponentFactory.
           if jAppComponentFactory \<noteq> nullptr then
             bnd (JStringToString env jAppComponentFactory) (\<lambda>appComponentFactory.
               ret (appComponentFactory \<noteq> ''androidx.core.app.CoreComponentFactory''))
           else ret False)
       else ret False)"
proof -
  have s: "\<And>a. (if a \<noteq> ''androidx.core.app.CoreComponentFactory'' then ret True else ret False)
      = ret (a \<noteq> ''androidx.core.app.CoreComponentFactory'')"
    by simp
  show ?thesis
    by (simp only: checkAppComponentFactory_try_def factoryField_def Let_def bnd_assoc s)
qed

lemma JStringToString_Return: "\<exists>s w'. JStringToString env jstr w = (Return s, w')"
  by (cases "fnGetStringUTFChars env jstr (vm w)")
     (auto simp: JStringToString_def bnd_def jni_def jni_void_def ret_def split: option.splits)

lemma checkAppComponentFactory_cases:
  "fst (checkAppComponentFactory env w) =
     (case getApplication env w of
        (Return application, w1) \<Rightarrow>
          if application \<noteq> nullptr then
            (case factoryField env application w1 of
               (Return j, w2) \<Rightarrow>
                 if j \<noteq> nullptr then
                   Return (fst (JStringToString env j w2)
                             \<noteq> Return ''androidx.core.app.CoreComponentFactory'')
                 else Return False
             | (Throw e, w2) \<Rightarrow> Return True
             | (Abort, w2) \<Rightarrow> Abort)
          else Return False
      | (Throw e, w1) \<Rightarrow> Return True
      | (Abort, w1) \<Rightarrow> Abort)"
proof -
  have js: "\<And>j w2. fst (try_catch (bnd (JStringToString env j) (\<lambda>a. ret (a \<noteq> ''androidx.core.app.CoreComponentFactory''))) (\<lambda>e. ret True) w2)
      = Return (fst (JStringToString env j w2) \<noteq> Return ''androidx.core.app.CoreComponentFactory'')"
    subgoal for j w2
      using JStringToString_Return [of env j w2]
      by (auto simp: try_catch_def bnd_def ret_def)
    done
  have inner: "\<And>application w1. application \<noteq> nullptr \<Longrightarrow>
      fst (try_catch (bnd (factoryField env application) (\<lambda>j.
             if j \<noteq> nullptr then
               bnd (JStringToString env j) (\<lambda>a.
                 ret (a \<noteq> ''androidx.core.app.CoreComponentFactory''))
             else ret False)) (\<lambda>e. ret True) w1)
      = (case factoryField env application w1 of
               (Return j, w2) \<Rightarrow>
                 if j \<noteq> nullptr then
                   Return (fst (JStringToString env j w2)
                             \<noteq> Return ''androidx.core.app.CoreComponentFactory'')
                 else Return False
             | (Throw e, w2) \<Rightarrow> Return True
             | (Abort, w2) \<Rightarrow> Abort)"
    subgoal for application w1
      unfolding try_catch_bnd_cases
      by (cases "factoryField env application w1")
         (simp add: js split: outcome.splits, simp add: try_catch_def ret_def)
    done
  show ?thesis
  proof (cases "getApplication env w")
    case (Pair r w1)
    show ?thesis
    proof (cases r)
      case (Return application)
      show ?thesis
      proof (cases "application = nullptr")
        case True
        with Pair Return show ?thesis
          unfolding checkAppComponentFactory_def checkAppComponentFactory_try_eq
            try_catch_bnd_cases
          by (simp add: try_catch_def ret_def)
      next
        case False
        with Pair Return inner [of application w1] show ?thesis
          unfolding checkAppComponentFactory_def checkAppComponentFactory_try_eq
            try_catch_bnd_cases [of "getApplication env"]
          by simp
      qed
    next
      case (Throw e)
      with Pair show ?thesis
        unfolding checkAppComponentFactory_def checkAppComponentFactory_try_eq
          try_catch_bnd_cases [of "getApplication env"]
        by simp
    next
      case Abort
      with Pair show ?thesis
        unfolding checkAppComponentFactory_def checkAppComponentFactory_try_eq
          try_catch_bnd_cases [of "getApplication env"]
        by simp
    qed
  qed
qed

lemma getApplication_cases:
  "fst (getApplication env w) =
     (case fst (getApplication_try env w) of
        Return a \<Rightarrow> Return a | Throw e \<Rightarrow> Return nullptr | Abort \<Rightarrow> Abort)"
  unfolding getApplication_def by (rule try_catch_cases)

text \<open>
  C9.  \<open>getApplication\<close> turns an exception into a null result and never throws.
  \<open>checkAppComponentFactory\<close> returns \<open>suspicious = false\<close> when the application is
  null and when the \<open>appComponentFactory\<close> field is null.  It returns \<open>true\<close> only
  with an application that is not null, and then only when reading the field threw or
  the field is a string other than \<open>androidx.core.app.CoreComponentFactory\<close>.
\<close>

theorem checkAppComponentFactory_skips:
  "(fst (getApplication_try env w) = Throw e \<longrightarrow> fst (getApplication env w) = Return nullptr)
   \<and> (fst (getApplication env w) = Return nullptr
        \<longrightarrow> fst (checkAppComponentFactory env w) = Return False)
   \<and> (getApplication env w = (Return application, w1) \<and> application \<noteq> nullptr
        \<and> fst (factoryField env application w1) = Return nullptr
        \<longrightarrow> fst (checkAppComponentFactory env w) = Return False)
   \<and> (fst (checkAppComponentFactory env w) = Return True
        \<longrightarrow> (\<exists>a w'. getApplication env w = (Return a, w') \<and> a \<noteq> nullptr
               \<and> ((\<exists>x. fst (factoryField env a w') = Throw x)
                    \<or> (\<exists>j w''. factoryField env a w' = (Return j, w'') \<and> j \<noteq> nullptr
                          \<and> fst (JStringToString env j w'')
                               \<noteq> Return ''androidx.core.app.CoreComponentFactory''))))
   \<and> fst (getApplication env w) \<noteq> Throw e'"
proof (intro conjI impI)
  show "fst (getApplication env w) \<noteq> Throw e'"
    unfolding getApplication_def by (rule try_catch_no_Throw)
next
  assume "fst (getApplication_try env w) = Throw e"
  then show "fst (getApplication env w) = Return nullptr"
    by (simp add: getApplication_cases)
next
  assume "fst (getApplication env w) = Return nullptr"
  then show "fst (checkAppComponentFactory env w) = Return False"
    unfolding checkAppComponentFactory_cases
    by (cases "getApplication env w") (auto split: outcome.splits)
next
  assume "getApplication env w = (Return application, w1) \<and> application \<noteq> nullptr
        \<and> fst (factoryField env application w1) = Return nullptr"
  then show "fst (checkAppComponentFactory env w) = Return False"
    unfolding checkAppComponentFactory_cases
    by (cases "factoryField env application w1") (auto split: outcome.splits)
next
  assume t: "fst (checkAppComponentFactory env w) = Return True"
  have nt: "\<And>e. fst (getApplication env w) \<noteq> Throw e"
    unfolding getApplication_def by (rule try_catch_no_Throw)
  obtain r w' where g: "getApplication env w = (r, w')"
    by (cases "getApplication env w") auto
  with t nt obtain a where r: "r = Return a" and a: "a \<noteq> nullptr"
    unfolding checkAppComponentFactory_cases
    by (cases r) (auto split: if_splits)
  obtain r2 w'' where f: "factoryField env a w' = (r2, w'')"
    by (cases "factoryField env a w'") auto
  from t g r a f have "(\<exists>x. r2 = Throw x)
      \<or> (\<exists>j. r2 = Return j \<and> j \<noteq> nullptr
            \<and> fst (JStringToString env j w'') \<noteq> Return ''androidx.core.app.CoreComponentFactory'')"
    unfolding checkAppComponentFactory_cases
    by (cases r2) (auto split: if_splits)
  with g r a f
  show "\<exists>a w'. getApplication env w = (Return a, w') \<and> a \<noteq> nullptr
               \<and> ((\<exists>x. fst (factoryField env a w') = Throw x)
                    \<or> (\<exists>j w''. factoryField env a w' = (Return j, w'') \<and> j \<noteq> nullptr
                          \<and> fst (JStringToString env j w'')
                               \<noteq> Return ''androidx.core.app.CoreComponentFactory''))"
    by (intro exI [of _ a] exI [of _ w']) auto
qed


theorem checkAppComponentFactory_skips_witness:
  "fst (getApplication_try (android_env no_activity_thread) stock_world)
     = Throw (JNIException ''JNI exception occurred'' NoClassDefFoundError)
   \<and> fst (getApplication (android_env no_activity_thread) stock_world) = Return nullptr
   \<and> fst (checkAppComponentFactory (android_env no_activity_thread) stock_world) = Return False
   \<and> fst (getApplication (android_env no_application) stock_world) = Return nullptr
   \<and> fst (checkAppComponentFactory (android_env no_application) stock_world) = Return False
   \<and> fst (getApplication (android_env no_factory) stock_world) = Return 21
   \<and> fst (factoryField (android_env no_factory) 21
         (snd (getApplication (android_env no_factory) stock_world))) = Return nullptr
   \<and> fst (checkAppComponentFactory (android_env no_factory) stock_world) = Return False
   \<and> fst (checkAppComponentFactory (android_env other_factory) stock_world) = Return True
   \<and> (\<exists>a w'. getApplication (android_env other_factory) stock_world = (Return a, w')
          \<and> a \<noteq> nullptr
          \<and> ((\<exists>x. fst (factoryField (android_env other_factory) a w') = Throw x)
               \<or> (\<exists>j w''. factoryField (android_env other_factory) a w' = (Return j, w'')
                     \<and> j \<noteq> nullptr
                     \<and> fst (JStringToString (android_env other_factory) j w'')
                          \<noteq> Return ''androidx.core.app.CoreComponentFactory'')))"
proof -
  let ?e = "JNIException ''JNI exception occurred'' NoClassDefFoundError"
  have a: "fst (getApplication_try (android_env no_activity_thread) stock_world) = Throw ?e"
    by code_simp
  note t1 = checkAppComponentFactory_skips [of "android_env no_activity_thread" stock_world ?e]
  from t1 [THEN conjunct1] a
  have b: "fst (getApplication (android_env no_activity_thread) stock_world) = Return nullptr"
    by (rule mp)
  from t1 [THEN conjunct2, THEN conjunct1] b
  have c: "fst (checkAppComponentFactory (android_env no_activity_thread) stock_world)
             = Return False"
    by (rule mp)
  have d: "fst (getApplication (android_env no_application) stock_world) = Return nullptr"
    by code_simp
  from checkAppComponentFactory_skips [of "android_env no_application" stock_world,
      THEN conjunct2, THEN conjunct1] d
  have e: "fst (checkAppComponentFactory (android_env no_application) stock_world)
             = Return False"
    by (rule mp)
  define w1 where "w1 = snd (getApplication (android_env no_factory) stock_world)"
  have f: "fst (getApplication (android_env no_factory) stock_world) = Return 21"
    by code_simp
  then have f': "getApplication (android_env no_factory) stock_world = (Return 21, w1)"
    unfolding w1_def by (simp add: prod_eq_iff)
  have g: "fst (factoryField (android_env no_factory) 21
         (snd (getApplication (android_env no_factory) stock_world))) = Return nullptr"
    by code_simp
  from checkAppComponentFactory_skips [of "android_env no_factory" stock_world _ 21 w1,
      THEN conjunct2, THEN conjunct2, THEN conjunct1] f' g
  have h: "fst (checkAppComponentFactory (android_env no_factory) stock_world) = Return False"
    unfolding w1_def by simp
  have i: "fst (checkAppComponentFactory (android_env other_factory) stock_world) = Return True"
    by code_simp
  from checkAppComponentFactory_skips [of "android_env other_factory" stock_world,
      THEN conjunct2, THEN conjunct2, THEN conjunct2, THEN conjunct1] i
  have j: "\<exists>a w'. getApplication (android_env other_factory) stock_world = (Return a, w')
          \<and> a \<noteq> nullptr
          \<and> ((\<exists>x. fst (factoryField (android_env other_factory) a w') = Throw x)
               \<or> (\<exists>j w''. factoryField (android_env other_factory) a w' = (Return j, w'')
                     \<and> j \<noteq> nullptr
                     \<and> fst (JStringToString (android_env other_factory) j w'')
                          \<noteq> Return ''androidx.core.app.CoreComponentFactory''))"
    by (rule mp)
  from a b c d e f g h i j show ?thesis
    by (intro conjI)
qed

subsection \<open>What a computation leaves as it was\<close>

lemma keepsD: "keeps R m \<Longrightarrow> R w0 w \<Longrightarrow> R w0 (snd (m w))"
  by (simp add: keeps_def)

lemma keeps_ret [keeps_intros]: "keeps R (ret a)"
  by (simp add: keeps_def ret_def)

lemma keeps_abort [keeps_intros]: "keeps R abort"
  by (simp add: keeps_def abort_def)

lemma keeps_bnd [keeps_intros]:
  assumes "keeps R m" and "\<And>a. keeps R (f a)"
  shows "keeps R (bnd m f)"
  unfolding keeps_def
proof (intro allI impI)
  fix w0 w
  assume r: "R w0 w"
  obtain x w' where mw: "m w = (x, w')"
    by (cases "m w") auto
  from keepsD [OF assms(1) r] mw have k: "R w0 w'"
    by simp
  show "R w0 (snd (bnd m f w))"
  proof (cases x)
    case (Return a)
    from keepsD [OF assms(2) k] have "R w0 (snd (f a w'))" .
    with mw Return show ?thesis
      by (simp add: bnd_def)
  qed (use mw k in \<open>simp_all add: bnd_def\<close>)
qed

lemma keeps_try_catch [keeps_intros]:
  assumes "keeps R m" and "\<And>e. keeps R (h e)"
  shows "keeps R (try_catch m h)"
  unfolding keeps_def
proof (intro allI impI)
  fix w0 w
  assume r: "R w0 w"
  obtain x w' where mw: "m w = (x, w')"
    by (cases "m w") auto
  from keepsD [OF assms(1) r] mw have k: "R w0 w'"
    by simp
  show "R w0 (snd (try_catch m h w))"
  proof (cases x)
    case (Throw e)
    from keepsD [OF assms(2) k] have "R w0 (snd (h e w'))" .
    with mw Throw show ?thesis
      by (simp add: try_catch_def)
  qed (use mw k in \<open>simp_all add: try_catch_def\<close>)
qed

lemma keeps_if [keeps_intros]:
  "keeps R m \<Longrightarrow> keeps R n \<Longrightarrow> keeps R (if b then m else n)"
  by simp

lemma keeps_ScopedLocalRef [keeps_intros]:
  assumes "keeps R body" and "keeps R (jni_void (fnDeleteLocalRef env r))"
  shows "keeps R (ScopedLocalRef env r body)"
  unfolding keeps_def
proof (intro allI impI)
  fix w0 w
  assume r: "R w0 w"
  obtain x w' where mw: "body w = (x, w')"
    by (cases "body w") auto
  from keepsD [OF assms(1) r] mw have k: "R w0 w'"
    by simp
  from keepsD [OF assms(2) k]
  have d: "R w0 (w'\<lparr>vm := fnDeleteLocalRef env r (vm w')\<rparr>)"
    by (simp add: jni_void_def)
  from mw k d show "R w0 (snd (ScopedLocalRef env r body w))"
    by (cases x) (simp_all add: ScopedLocalRef_def)
qed

lemma keeps_for_each [keeps_intros]:
  "(\<And>x. keeps R (f x)) \<Longrightarrow> keeps R (for_each f xs)"
  by (induction xs) (auto intro!: keeps_intros)

text \<open>The file system and the variables of the program.\<close>

lemma outside_throw [outside_keeps]: "keeps outsideR (throw e)"
  by (simp add: keeps_def outsideR_def throw_def)

lemma outside_jni [outside_keeps]: "keeps outsideR (jni f)"
  by (simp add: keeps_def outsideR_def jni_def split: prod.splits)

lemma outside_jni_void [outside_keeps]: "keeps outsideR (jni_void f)"
  by (simp add: keeps_def outsideR_def jni_void_def)

lemma outside_JNI_CHECK_EXCEPTION [outside_keeps]: "keeps outsideR JNI_CHECK_EXCEPTION"
  by (simp add: keeps_def outsideR_def JNI_CHECK_EXCEPTION_eq split: option.splits)

lemma outside_checked [outside_keeps]: "keeps outsideR (checked f)"
  unfolding checked_def by (intro keeps_intros outside_keeps)

lemma outside_GetObjectClass [outside_keeps]: "keeps outsideR (env_GetObjectClass env obj)"
  unfolding env_GetObjectClass_def by (intro keeps_intros outside_keeps)

lemma outside_GetArrayLength [outside_keeps]: "keeps outsideR (env_GetArrayLength env a)"
  unfolding env_GetArrayLength_def by (intro keeps_intros outside_keeps)

lemma outside_GetObjectArrayElement [outside_keeps]:
  "keeps outsideR (env_GetObjectArrayElement env a i)"
  unfolding env_GetObjectArrayElement_def by (intro keeps_intros outside_keeps)

lemma outside_JStringToString [outside_keeps]: "keeps outsideR (JStringToString env jstr)"
  unfolding JStringToString_def
  by (intro keeps_intros outside_keeps)
    (auto split: option.splits intro!: keeps_intros outside_keeps)

lemma outside_setJValue [outside_keeps]: "keeps outsideR (setJValue env a)"
proof (cases a)
  case (CString x)
  then show ?thesis by (cases x) (auto intro!: keeps_intros outside_keeps)
qed (auto simp: StringToJString_def intro!: keeps_intros outside_keeps)

lemma outside_convertArgs [outside_keeps]: "keeps outsideR (convertArgs env args)"
  by (induction args) (auto intro!: keeps_intros outside_keeps)

lemma outside_CallMethod [outside_keeps]:
  "keeps outsideR (CallMethod env call obj methodName signature args)"
  unfolding CallMethod_def GetMethodID_def JNITypeTraits_CallMethod_def ArgsToJValues_def
  by (intro keeps_intros outside_keeps)

lemma outside_CallStaticMethod [outside_keeps]:
  "keeps outsideR (CallStaticMethod env call className methodName signature args)"
  unfolding CallStaticMethod_def FindClass_def GetStaticMethodID_def
    JNITypeTraits_CallStaticMethod_def ArgsToJValues_def
  by (intro keeps_intros outside_keeps)

lemma outside_GetField [outside_keeps]:
  "keeps outsideR (GetField env obj fieldName signature)"
  unfolding GetField_def GetFieldID_def JNITypeTraits_GetField_def
  by (intro keeps_intros outside_keeps)

lemma outside_GetStaticField [outside_keeps]:
  "keeps outsideR (GetStaticField env className fieldName signature)"
  unfolding GetStaticField_def FindClass_def GetStaticFieldID_def JNITypeTraits_GetStaticField_def
  by (intro keeps_intros outside_keeps)

lemma outside_checkCreator: "keeps outsideR (checkCreator env)"
  unfolding checkCreator_def checkCreator_try_def Let_def
  by (intro keeps_intros outside_keeps)

lemma outside_checkField: "keeps outsideR (checkField env)"
  unfolding checkField_def checkField_try_def checkField_log_def Let_def
  by (intro keeps_intros outside_keeps)

lemma outside_checkCreators: "keeps outsideR (checkCreators env)"
  unfolding checkCreators_def checkCreators_try_def Let_def
  by (intro keeps_intros outside_keeps)

lemma outside_checkPMProxy: "keeps outsideR (checkPMProxy env context)"
  unfolding checkPMProxy_def checkPMProxy_try_def Let_def
  by (intro keeps_intros outside_keeps)

lemma outside_checkAppComponentFactory: "keeps outsideR (checkAppComponentFactory env)"
  unfolding checkAppComponentFactory_def checkAppComponentFactory_try_def
    getApplication_def getApplication_try_def Let_def
  by (intro keeps_intros outside_keeps)

lemma outside_collectApkPaths: "keeps outsideR (collectApkPaths env context)"
  unfolding collectApkPaths_def getApkPath_def Let_def
  by (intro keeps_intros outside_keeps)

lemma outsideD:
  "keeps outsideR m \<Longrightarrow> fs (snd (m w)) = fs w \<and> statics (snd (m w)) = statics w"
  using keepsD [of outsideR m w w] by (simp add: outsideR_def)

text \<open>The state of the runtime, on a runtime that is only inspected.\<close>

lemma inspectedD:
  assumes "inspected env"
  shows "snd (snd (fnFindClass env n v)) = v"
    and "snd (snd (fnGetObjectClass env obj v)) = v"
    and "snd (snd (fnGetMethodID env c n s v)) = v"
    and "snd (snd (fnGetStaticMethodID env c n s v)) = v"
    and "snd (snd (fnGetFieldID env c n s v)) = v"
    and "snd (snd (fnGetStaticFieldID env c n s v)) = v"
    and "snd (snd (fnCallObjectMethodA env obj m a v)) = v"
    and "snd (snd (fnCallStaticObjectMethodA env c m a v)) = v"
    and "snd (snd (fnGetObjectField env obj f v)) = v"
    and "snd (snd (fnGetStaticObjectField env c f v)) = v"
    and "snd (snd (fnNewStringUTF env str v)) = v"
    and "snd (snd (fnGetArrayLength env arr v)) = v"
    and "snd (snd (fnGetObjectArrayElement env arr i v)) = v"
    and "fnDeleteLocalRef env r v = v"
    and "fst (snd (fnGetObjectClass env obj v)) = None"
    and "fst (snd (fnNewStringUTF env str v)) = None"
    and "fst (snd (fnGetArrayLength env arr v)) = None"
    and "fst (snd (fnGetObjectArrayElement env arr i v)) = None"
  using assms unfolding inspected_def by simp_all

lemma inspected_chars:
  assumes "inspected env" and "fnGetStringUTFChars env jstr v = (c, t, v')"
  shows "t = None \<and> (case c of None \<Rightarrow> v' = v
                       | Some chars \<Rightarrow> fnReleaseStringUTFChars env jstr chars v' = v)"
proof -
  from assms(1) have "case fnGetStringUTFChars env jstr v of
              (None, t, v') \<Rightarrow> t = None \<and> v' = v
            | (Some chars, t, v') \<Rightarrow>
                t = None \<and> fnReleaseStringUTFChars env jstr chars v' = v"
    unfolding inspected_def by simp
  with assms(2) show ?thesis
    by (cases c) simp_all
qed

lemma JStringToString_inspected:
  assumes "inspected env"
  shows "\<exists>s. JStringToString env jstr w = (Return s, w)"
proof (cases "jstr = nullptr")
  case True
  then show ?thesis
    by (simp add: JStringToString_def ret_def)
next
  case False
  obtain c t v' where g: "fnGetStringUTFChars env jstr (vm w) = (c, t, v')"
    by (cases "fnGetStringUTFChars env jstr (vm w)") auto
  from inspected_chars [OF assms g] have t: "t = None"
    and r: "case c of None \<Rightarrow> v' = vm w
             | Some chars \<Rightarrow> fnReleaseStringUTFChars env jstr chars v' = vm w"
    by simp_all
  show ?thesis
  proof (cases c)
    case None
    with r g t False show ?thesis
      by (simp add: JStringToString_def bnd_def jni_def ret_def)
  next
    case (Some chars)
    with r g t False show ?thesis
      by (simp add: JStringToString_def bnd_def jni_def jni_void_def ret_def)
  qed
qed

lemma vm_throw [vm_keeps]: "keeps vmR (throw e)"
  by (simp add: keeps_def vmR_def throw_def)

lemma vm_JNI_CHECK_EXCEPTION [vm_keeps]: "keeps vmR JNI_CHECK_EXCEPTION"
  by (simp add: keeps_def vmR_def JNI_CHECK_EXCEPTION_eq split: option.splits)

lemma vm_jni [vm_keeps]:
  assumes "\<And>v. snd (snd (f v)) = v"
  shows "keeps vmR (jni f)"
  unfolding keeps_def vmR_def
proof (intro allI impI)
  fix w0 w :: "('a, 'c) world"
  assume "vm w = vm w0"
  with assms [of "vm w"] show "vm (snd (jni f w)) = vm w0"
    by (cases "f (vm w)") (simp add: jni_def)
qed

lemma vm_jni_void [vm_keeps]: "(\<And>v. f v = v) \<Longrightarrow> keeps vmR (jni_void f)"
  by (simp add: keeps_def vmR_def jni_void_def)

lemma vm_checked [vm_keeps]: "(\<And>v. snd (snd (f v)) = v) \<Longrightarrow> keeps vmR (checked f)"
  unfolding checked_def by (intro keeps_intros vm_keeps)

lemma vm_GetObjectClass [vm_keeps]:
  "inspected env \<Longrightarrow> keeps vmR (env_GetObjectClass env obj)"
  unfolding env_GetObjectClass_def by (intro keeps_intros vm_keeps) (simp add: inspectedD)

lemma vm_GetArrayLength [vm_keeps]:
  "inspected env \<Longrightarrow> keeps vmR (env_GetArrayLength env a)"
  unfolding env_GetArrayLength_def by (intro keeps_intros vm_keeps) (simp add: inspectedD)

lemma vm_GetObjectArrayElement [vm_keeps]:
  "inspected env \<Longrightarrow> keeps vmR (env_GetObjectArrayElement env a i)"
  unfolding env_GetObjectArrayElement_def
  by (intro keeps_intros vm_keeps) (simp add: inspectedD)

lemma vm_JStringToString [vm_keeps]:
  assumes "inspected env"
  shows "keeps vmR (JStringToString env jstr)"
  unfolding keeps_def vmR_def
proof (intro allI impI)
  fix w0 w :: "('a, 'b) world"
  assume "vm w = vm w0"
  with JStringToString_inspected [OF assms, of jstr w]
  show "vm (snd (JStringToString env jstr w)) = vm w0"
    by auto
qed

lemma vm_setJValue [vm_keeps]:
  assumes "inspected env"
  shows "keeps vmR (setJValue env a)"
proof (cases a)
  case (CString x)
  then show ?thesis
    by (cases x) (auto intro!: keeps_intros vm_keeps simp: inspectedD [OF assms])
qed (auto simp: StringToJString_def inspectedD [OF assms] intro!: keeps_intros vm_keeps)

lemma vm_convertArgs [vm_keeps]: "inspected env \<Longrightarrow> keeps vmR (convertArgs env args)"
  by (induction args) (auto intro!: keeps_intros vm_keeps)

lemma vm_CallMethod [vm_keeps]:
  assumes "inspected env" and "\<And>obj mid args v. snd (snd (call obj mid args v)) = v"
  shows "keeps vmR (CallMethod env call obj methodName signature args)"
  unfolding CallMethod_def GetMethodID_def JNITypeTraits_CallMethod_def ArgsToJValues_def
  by (intro keeps_intros vm_keeps) (simp_all add: assms inspectedD [OF assms(1)])

lemma vm_CallStaticMethod [vm_keeps]:
  assumes "inspected env" and "\<And>cls mid args v. snd (snd (call cls mid args v)) = v"
  shows "keeps vmR (CallStaticMethod env call className methodName signature args)"
  unfolding CallStaticMethod_def FindClass_def GetStaticMethodID_def
    JNITypeTraits_CallStaticMethod_def ArgsToJValues_def
  by (intro keeps_intros vm_keeps) (simp_all add: assms inspectedD [OF assms(1)])

lemma vm_GetField [vm_keeps]:
  assumes "inspected env"
  shows "keeps vmR (GetField env obj fieldName signature)"
  unfolding GetField_def GetFieldID_def JNITypeTraits_GetField_def
  by (intro keeps_intros vm_keeps) (simp_all add: assms inspectedD [OF assms])

lemma vm_GetStaticField [vm_keeps]:
  assumes "inspected env"
  shows "keeps vmR (GetStaticField env className fieldName signature)"
  unfolding GetStaticField_def FindClass_def GetStaticFieldID_def JNITypeTraits_GetStaticField_def
  by (intro keeps_intros vm_keeps) (simp_all add: assms inspectedD [OF assms])

lemma vm_checkCreator:
  assumes "inspected env"
  shows "keeps vmR (checkCreator env)"
  unfolding checkCreator_def checkCreator_try_def Let_def
  by (intro keeps_intros vm_keeps) (simp_all add: assms inspectedD [OF assms])

lemma vm_checkField:
  assumes "inspected env"
  shows "keeps vmR (checkField env)"
  unfolding checkField_def checkField_try_def checkField_log_def Let_def
  by (intro keeps_intros vm_keeps) (simp_all add: assms inspectedD [OF assms])

lemma vm_checkCreators:
  assumes "inspected env"
  shows "keeps vmR (checkCreators env)"
  unfolding checkCreators_def checkCreators_try_def Let_def
  by (intro keeps_intros vm_keeps) (simp_all add: assms inspectedD [OF assms])

lemma vm_checkAppComponentFactory:
  assumes "inspected env"
  shows "keeps vmR (checkAppComponentFactory env)"
  unfolding checkAppComponentFactory_def checkAppComponentFactory_try_def
    getApplication_def getApplication_try_def Let_def
  by (intro keeps_intros vm_keeps) (simp_all add: assms inspectedD [OF assms])

lemma vm_collectApkPaths:
  assumes "inspected env"
  shows "keeps vmR (collectApkPaths env context)"
  unfolding collectApkPaths_def getApkPath_def Let_def
  by (intro keeps_intros vm_keeps) (simp_all add: assms inspectedD [OF assms])

lemma vmD: "keeps vmR m \<Longrightarrow> vm (snd (m w)) = vm w"
  using keepsD [of vmR m w w] by (simp add: vmR_def)
text \<open>The pending exception.\<close>

lemma pend_throw [pend_keeps]: "keeps pendR (throw e)"
  by (simp add: keeps_def pendR_def throw_def)

lemma pend_JNI_CHECK_EXCEPTION [pend_keeps]: "keeps pendR JNI_CHECK_EXCEPTION"
  by (simp add: keeps_def pendR_def JNI_CHECK_EXCEPTION_eq split: option.splits)

lemma pend_jni [pend_keeps]:
  assumes "\<And>v. fst (snd (f v)) = None"
  shows "keeps pendR (jni f)"
  unfolding keeps_def pendR_def
proof (intro allI impI)
  fix w0 w :: "('a, 'c) world"
  assume "pending w0 = None \<longrightarrow> pending w = None" and "pending w0 = None"
  with assms [of "vm w"] show "pending (snd (jni f w)) = None"
    by (cases "f (vm w)") (simp add: jni_def)
qed

lemma pend_jni_void [pend_keeps]: "keeps pendR (jni_void f)"
  by (simp add: keeps_def pendR_def jni_void_def)

lemma pend_checked [pend_keeps]: "keeps pendR (checked f)"
  by (simp add: keeps_def pendR_def checked_eq split: prod.splits option.splits)

lemma pend_GetObjectClass [pend_keeps]:
  "inspected env \<Longrightarrow> keeps pendR (env_GetObjectClass env obj)"
  unfolding env_GetObjectClass_def by (intro keeps_intros pend_keeps) (simp add: inspectedD)

lemma pend_GetArrayLength [pend_keeps]:
  "inspected env \<Longrightarrow> keeps pendR (env_GetArrayLength env a)"
  unfolding env_GetArrayLength_def by (intro keeps_intros pend_keeps) (simp add: inspectedD)

lemma pend_GetObjectArrayElement [pend_keeps]:
  "inspected env \<Longrightarrow> keeps pendR (env_GetObjectArrayElement env a i)"
  unfolding env_GetObjectArrayElement_def
  by (intro keeps_intros pend_keeps) (simp add: inspectedD)

lemma pend_JStringToString [pend_keeps]:
  assumes "inspected env"
  shows "keeps pendR (JStringToString env jstr)"
  unfolding keeps_def pendR_def
proof (intro allI impI)
  fix w0 w :: "('a, 'b) world"
  assume "pending w0 = None \<longrightarrow> pending w = None" and "pending w0 = None"
  with JStringToString_inspected [OF assms, of jstr w]
  show "pending (snd (JStringToString env jstr w)) = None"
    by auto
qed

lemma pend_setJValue [pend_keeps]:
  assumes "inspected env"
  shows "keeps pendR (setJValue env a)"
proof (cases a)
  case (CString x)
  then show ?thesis
    by (cases x) (auto intro!: keeps_intros pend_keeps simp: inspectedD [OF assms])
qed (auto simp: StringToJString_def inspectedD [OF assms] intro!: keeps_intros pend_keeps)

lemma pend_convertArgs [pend_keeps]: "inspected env \<Longrightarrow> keeps pendR (convertArgs env args)"
  by (induction args) (auto intro!: keeps_intros pend_keeps)

lemma pend_CallMethod [pend_keeps]:
  assumes "inspected env"
  shows "keeps pendR (CallMethod env call obj methodName signature args)"
  unfolding CallMethod_def GetMethodID_def JNITypeTraits_CallMethod_def ArgsToJValues_def
    checked_def [symmetric]
  by (intro keeps_intros pend_keeps) (simp_all add: assms)

lemma pend_CallStaticMethod [pend_keeps]:
  assumes "inspected env"
  shows "keeps pendR (CallStaticMethod env call className methodName signature args)"
  unfolding CallStaticMethod_def FindClass_def GetStaticMethodID_def
    JNITypeTraits_CallStaticMethod_def ArgsToJValues_def checked_def [symmetric]
  by (intro keeps_intros pend_keeps) (simp_all add: assms)

lemma pend_GetField [pend_keeps]:
  assumes "inspected env"
  shows "keeps pendR (GetField env obj fieldName signature)"
  unfolding GetField_def GetFieldID_def JNITypeTraits_GetField_def
  by (intro keeps_intros pend_keeps) (simp_all add: assms)

lemma pend_GetStaticField [pend_keeps]:
  "keeps pendR (GetStaticField env className fieldName signature)"
  unfolding GetStaticField_def FindClass_def GetStaticFieldID_def JNITypeTraits_GetStaticField_def
  by (intro keeps_intros pend_keeps)

lemma pend_checkCreator:
  assumes "inspected env"
  shows "keeps pendR (checkCreator env)"
  unfolding checkCreator_def checkCreator_try_def Let_def
  by (intro keeps_intros pend_keeps) (simp_all add: assms inspectedD [OF assms])

lemma pend_checkField:
  assumes "inspected env"
  shows "keeps pendR (checkField env)"
  unfolding checkField_def checkField_try_def checkField_log_def Let_def
  by (intro keeps_intros pend_keeps) (simp_all add: assms inspectedD [OF assms])

lemma pend_checkCreators:
  assumes "inspected env"
  shows "keeps pendR (checkCreators env)"
  unfolding checkCreators_def checkCreators_try_def Let_def
  by (intro keeps_intros pend_keeps) (simp_all add: assms inspectedD [OF assms])

lemma pend_checkPMProxy:
  assumes "inspected env"
  shows "keeps pendR (checkPMProxy env context)"
  unfolding checkPMProxy_def checkPMProxy_try_def Let_def
  by (intro keeps_intros pend_keeps) (simp_all add: assms inspectedD [OF assms])

lemma pend_checkAppComponentFactory:
  assumes "inspected env"
  shows "keeps pendR (checkAppComponentFactory env)"
  unfolding checkAppComponentFactory_def checkAppComponentFactory_try_def
    getApplication_def getApplication_try_def Let_def
  by (intro keeps_intros pend_keeps) (simp_all add: assms inspectedD [OF assms])

lemma pend_collectApkPaths:
  assumes "inspected env"
  shows "keeps pendR (collectApkPaths env context)"
  unfolding collectApkPaths_def getApkPath_def Let_def
  by (intro keeps_intros pend_keeps) (simp_all add: assms inspectedD [OF assms])

lemma pendD: "keeps pendR m \<Longrightarrow> pending w = None \<Longrightarrow> pending (snd (m w)) = None"
  using keepsD [of pendR m w w] by (simp add: pendR_def)

text \<open>The one call of \<open>setAccessible\<close> in \<open>checkPMProxy\<close>.\<close>

lemma one_after_keeps:
  assumes "keeps vmR m" and "\<And>a. one_setAccessible env (f a)"
  shows "one_setAccessible env (bnd m f)"
  unfolding one_setAccessible_def
proof
  fix w
  obtain x w' where mw: "m w = (x, w')"
    by (cases "m w") auto
  from vmD [OF assms(1), of w] mw have k: "vm w' = vm w"
    by simp
  show "vm (snd (bnd m f w)) = vm w
      \<or> (\<exists>field mid. vm (snd (bnd m f w)) = snd (snd (fnCallVoidMethodA env field mid [I 1] (vm w))))"
  proof (cases x)
    case (Return a)
    from assms(2) [of a] have "vm (snd (f a w')) = vm w'
      \<or> (\<exists>field mid. vm (snd (f a w')) = snd (snd (fnCallVoidMethodA env field mid [I 1] (vm w'))))"
      by (simp add: one_setAccessible_def)
    with mw Return k show ?thesis
      by (simp add: bnd_def)
  qed (use mw k in \<open>simp_all add: bnd_def\<close>)
qed

lemma keeps_after_one:
  assumes "one_setAccessible env m" and "\<And>a. keeps vmR (f a)"
  shows "one_setAccessible env (bnd m f)"
  unfolding one_setAccessible_def
proof
  fix w
  obtain x w' where mw: "m w = (x, w')"
    by (cases "m w") auto
  from assms(1) mw have k: "vm w' = vm w
      \<or> (\<exists>field mid. vm w' = snd (snd (fnCallVoidMethodA env field mid [I 1] (vm w))))"
    unfolding one_setAccessible_def by (metis snd_conv)
  show "vm (snd (bnd m f w)) = vm w
      \<or> (\<exists>field mid. vm (snd (bnd m f w)) = snd (snd (fnCallVoidMethodA env field mid [I 1] (vm w))))"
  proof (cases x)
    case (Return a)
    from vmD [OF assms(2), of a w'] have "vm (snd (f a w')) = vm w'" .
    with mw Return k show ?thesis
      by (simp add: bnd_def)
  qed (use mw k in \<open>simp_all add: bnd_def\<close>)
qed

lemma one_try_catch:
  assumes "one_setAccessible env m"
  shows "one_setAccessible env (try_catch m (\<lambda>e. ret a))"
  unfolding one_setAccessible_def
proof
  fix w
  have "snd (try_catch m (\<lambda>e. ret a) w) = snd (m w)"
    by (cases "m w") (simp add: try_catch_def ret_def split: outcome.splits)
  with assms show "vm (snd (try_catch m (\<lambda>e. ret a) w)) = vm w
      \<or> (\<exists>field mid. vm (snd (try_catch m (\<lambda>e. ret a) w))
            = snd (snd (fnCallVoidMethodA env field mid [I 1] (vm w))))"
    by (simp add: one_setAccessible_def)
qed

lemma one_ScopedLocalRef:
  assumes "inspected env" and "one_setAccessible env body"
  shows "one_setAccessible env (ScopedLocalRef env r body)"
  unfolding one_setAccessible_def
proof
  fix w
  have "vm (snd (ScopedLocalRef env r body w)) = vm (snd (body w))"
    by (cases "body w")
      (simp add: ScopedLocalRef_def inspectedD [OF assms(1)] split: outcome.splits)
  with assms(2) show "vm (snd (ScopedLocalRef env r body w)) = vm w
      \<or> (\<exists>field mid. vm (snd (ScopedLocalRef env r body w))
            = snd (snd (fnCallVoidMethodA env field mid [I 1] (vm w))))"
    by (simp add: one_setAccessible_def)
qed

lemma checked_vm: "vm (snd (checked f w)) = snd (snd (f (vm w)))"
  by (simp add: checked_eq split: prod.splits option.splits)

lemma one_setAccessible_call:
  assumes "inspected env"
  shows "one_setAccessible env
           (CallMethod env (fnCallVoidMethodA env) obj methodName signature [Prim (I 1)])"
proof -
  have args: "ArgsToJValues env [Prim (I 1)] = ret [I 1]"
    by (simp add: ArgsToJValues_def bnd_ret)
  have call: "one_setAccessible env (checked (fnCallVoidMethodA env obj mid [I 1]))" for mid
    unfolding one_setAccessible_def checked_vm by blast
  show ?thesis
    unfolding CallMethod_def
    apply (rule one_after_keeps)
     apply (rule vm_GetObjectClass [OF assms])
    apply (rule one_ScopedLocalRef [OF assms])
    apply (rule one_after_keeps)
     apply (simp add: GetMethodID_def vm_checked inspectedD [OF assms])
    apply (simp add: args bnd_ret JNITypeTraits_CallMethod_def call)
    done
qed

lemma one_checkPMProxy:
  assumes "inspected env"
  shows "one_setAccessible env (checkPMProxy env context)"
proof -
  note k = vm_CallMethod [OF assms, of "fnCallObjectMethodA env"] inspectedD [OF assms]
  show ?thesis
    unfolding checkPMProxy_def checkPMProxy_try_def Let_def
    apply (rule one_try_catch)
    apply (rule one_after_keeps, simp add: k)
    apply (rule one_after_keeps, simp add: k)
    apply (rule one_after_keeps, simp add: vm_jni k)
    apply (rule one_after_keeps, simp add: k)
    apply (rule keeps_after_one)
     apply (rule one_setAccessible_call [OF assms])
    apply (intro keeps_intros vm_keeps)
                    apply (simp_all add: assms k)
    done
qed

text \<open>The checks of the paths act on the file system only.\<close>

lemma checkPaths_frame:
  "vm (snd (checkPaths paths w)) = vm w
   \<and> pending (snd (checkPaths paths w)) = pending w
   \<and> statics (snd (checkPaths paths w)) = statics w
   \<and> thrown (snd (checkPaths paths w)) = thrown w"
  unfolding checkPaths_def Let_def
  by (simp add: fs_prog_def split: prod.splits)

subsection \<open>Exceptions thrown inside the try blocks\<close>

lemma try_catch_thrown: "thrown (snd (try_catch m (\<lambda>e. ret a) w)) = thrown (snd (m w))"
  by (cases "m w") (simp add: try_catch_def ret_def split: outcome.splits)

lemma try_catch_Return:
  "m w = (Return x, w') \<Longrightarrow> try_catch m h w = (Return x, w')"
  by (simp add: try_catch_def)

lemma plainD:
  "plain m \<Longrightarrow> thrown (snd (m w)) \<noteq> thrown w \<Longrightarrow> \<exists>e. fst (m w) = Throw e"
  unfolding plain_def by (cases "fst (m w)") (auto dest: spec [of _ w])

lemma plain_Return: "plain m \<Longrightarrow> m w = (Return a, w') \<Longrightarrow> thrown w' = thrown w"
  unfolding plain_def by (auto dest: spec [of _ w])

lemma plain_Abort: "plain m \<Longrightarrow> m w = (Abort, w') \<Longrightarrow> thrown w' = thrown w"
  unfolding plain_def by (auto dest: spec [of _ w])

lemma plain_ThrowD: "plain m \<Longrightarrow> m w = (Throw e, w') \<Longrightarrow> thrown w' = thrown w @ [e]"
  unfolding plain_def by (auto dest: spec [of _ w])

lemma plain_ret [plain_intros]: "plain (ret a)"
  by (simp add: plain_def ret_def)

lemma plain_throw [plain_intros]: "plain (throw e)"
  by (simp add: plain_def throw_def)

lemma plain_abort [plain_intros]: "plain abort"
  by (simp add: plain_def abort_def)

lemma plain_jni [plain_intros]: "plain (jni f)"
  by (simp add: plain_def jni_def split: prod.splits)

lemma plain_jni_void [plain_intros]: "plain (jni_void f)"
  by (simp add: plain_def jni_void_def)

lemma plain_bnd [plain_intros]:
  assumes "plain m" and "\<And>a. plain (f a)"
  shows "plain (bnd m f)"
  unfolding plain_def
proof
  fix w
  obtain r w' where mw: "m w = (r, w')"
    by (cases "m w") auto
  show "thrown (snd (bnd m f w)) =
      thrown w @ (case fst (bnd m f w) of Throw e \<Rightarrow> [e] | Return a \<Rightarrow> [] | Abort \<Rightarrow> [])"
  proof (cases r)
    case (Return a)
    with mw assms(1) have k: "thrown w' = thrown w"
      by (simp add: plain_Return)
    from assms(2) [of a] have "thrown (snd (f a w')) =
        thrown w' @ (case fst (f a w') of Throw e \<Rightarrow> [e] | Return a \<Rightarrow> [] | Abort \<Rightarrow> [])"
      by (simp add: plain_def)
    with mw Return k show ?thesis
      by (simp add: bnd_def)
  next
    case (Throw e)
    with mw assms(1) have "thrown w' = thrown w @ [e]"
      by (simp add: plain_ThrowD)
    with mw Throw show ?thesis
      by (simp add: bnd_def)
  next
    case Abort
    with mw assms(1) have "thrown w' = thrown w"
      by (simp add: plain_Abort)
    with mw Abort show ?thesis
      by (simp add: bnd_def)
  qed
qed

lemma plain_if [plain_intros]: "plain m \<Longrightarrow> plain n \<Longrightarrow> plain (if b then m else n)"
  by simp

lemma plain_ScopedLocalRef [plain_intros]:
  assumes "plain body"
  shows "plain (ScopedLocalRef env r body)"
  unfolding plain_def
proof
  fix w
  obtain x w' where mw: "body w = (x, w')"
    by (cases "body w") auto
  from assms have "thrown (snd (body w)) =
      thrown w @ (case fst (body w) of Throw e \<Rightarrow> [e] | Return a \<Rightarrow> [] | Abort \<Rightarrow> [])"
    by (simp add: plain_def)
  with mw show "thrown (snd (ScopedLocalRef env r body w)) =
      thrown w @ (case fst (ScopedLocalRef env r body w) of
                    Throw e \<Rightarrow> [e] | Return a \<Rightarrow> [] | Abort \<Rightarrow> [])"
    by (cases x) (simp_all add: ScopedLocalRef_def)
qed

lemma plain_JNI_CHECK_EXCEPTION [plain_intros]: "plain JNI_CHECK_EXCEPTION"
  by (simp add: plain_def JNI_CHECK_EXCEPTION_eq split: option.splits)

lemma plain_checked [plain_intros]: "plain (checked f)"
  unfolding checked_def by (intro plain_intros)

lemma plain_GetObjectClass [plain_intros]: "plain (env_GetObjectClass env obj)"
  unfolding env_GetObjectClass_def by (intro plain_intros)

lemma plain_GetArrayLength [plain_intros]: "plain (env_GetArrayLength env a)"
  unfolding env_GetArrayLength_def by (intro plain_intros)

lemma plain_GetObjectArrayElement [plain_intros]:
  "plain (env_GetObjectArrayElement env a i)"
  unfolding env_GetObjectArrayElement_def by (intro plain_intros)

lemma plain_JStringToString [plain_intros]: "plain (JStringToString env jstr)"
  unfolding JStringToString_def
  by (intro plain_intros) (auto split: option.splits intro!: plain_intros)

lemma plain_setJValue [plain_intros]: "plain (setJValue env a)"
proof (cases a)
  case (CString x)
  then show ?thesis by (cases x) (auto intro!: plain_intros)
qed (auto simp: StringToJString_def intro!: plain_intros)

lemma plain_convertArgs [plain_intros]: "plain (convertArgs env args)"
  by (induction args) (auto intro!: plain_intros)

lemma plain_CallMethod [plain_intros]:
  "plain (CallMethod env call obj methodName signature args)"
  unfolding CallMethod_def GetMethodID_def JNITypeTraits_CallMethod_def ArgsToJValues_def
  by (intro plain_intros)

lemma plain_CallStaticMethod [plain_intros]:
  "plain (CallStaticMethod env call className methodName signature args)"
  unfolding CallStaticMethod_def FindClass_def GetStaticMethodID_def
    JNITypeTraits_CallStaticMethod_def ArgsToJValues_def
  by (intro plain_intros)

lemma plain_GetField [plain_intros]: "plain (GetField env obj fieldName signature)"
  unfolding GetField_def GetFieldID_def JNITypeTraits_GetField_def
  by (intro plain_intros)

lemma plain_GetStaticField [plain_intros]:
  "plain (GetStaticField env className fieldName signature)"
  unfolding GetStaticField_def FindClass_def GetStaticFieldID_def JNITypeTraits_GetStaticField_def
  by (intro plain_intros)

lemma plain_for_each [plain_intros]:
  "(\<And>x. plain (f x)) \<Longrightarrow> plain (for_each f xs)"
  by (induction xs) (auto intro!: plain_intros)

lemma plain_checkCreator_try: "plain (checkCreator_try env)"
  unfolding checkCreator_try_def Let_def by (intro plain_intros)

lemma plain_checkField_try: "plain (checkField_try env)"
  unfolding checkField_try_def checkField_log_def Let_def by (intro plain_intros)

lemma plain_checkCreators_try: "plain (checkCreators_try env)"
  unfolding checkCreators_try_def Let_def by (intro plain_intros)

lemma plain_checkPMProxy_try: "plain (checkPMProxy_try env context)"
  unfolding checkPMProxy_try_def Let_def by (intro plain_intros)

lemma plain_getApplication_try: "plain (getApplication_try env)"
  unfolding getApplication_try_def by (intro plain_intros)

lemma plain_factoryCheck: "plain (factoryCheck env application)"
  unfolding factoryCheck_def Let_def by (intro plain_intros)

lemma plain_getApkPath_try: "plain (getApkPath_try env context)"
  unfolding getApkPath_try_def by (intro plain_intros)

lemma plain_packageResourcePath: "plain (packageResourcePath env context)"
  unfolding packageResourcePath_def by (intro plain_intros)

lemma plain_packageCodePath: "plain (packageCodePath env context)"
  unfolding packageCodePath_def by (intro plain_intros)

lemma plain_applicationInfoDirs: "plain (applicationInfoDirs env context)"
  unfolding applicationInfoDirs_def by (intro plain_intros)

lemma plain_packageManagerSourceDir: "plain (packageManagerSourceDir env context)"
  unfolding packageManagerSourceDir_def by (intro plain_intros)

lemma plain_reportedApkPaths: "plain (reportedApkPaths env context)"
  unfolding reportedApkPaths_def
  by (intro plain_intros plain_packageResourcePath plain_packageCodePath
      plain_applicationInfoDirs)
    (auto intro!: plain_intros plain_packageManagerSourceDir)

lemma plain_checkPaths: "plain (checkPaths paths)"
  unfolding plain_def checkPaths_def Let_def
  by (simp add: fs_prog_def split: prod.splits)

lemma plain_probe:
  assumes "plain m" and "thrown (snd (try_catch m (\<lambda>e. ret True) w)) \<noteq> thrown w"
  shows "fst (try_catch m (\<lambda>e. ret True) w) = Return True"
proof -
  from assms have "\<exists>e. fst (m w) = Throw e"
    by (simp add: try_catch_thrown plainD)
  then obtain e where "fst (m w) = Throw e" ..
  then show ?thesis
    by (simp add: try_catch_Throw)
qed

lemma getApkPath_eq:
  "getApkPath env context = try_catch (getApkPath_try env context) (\<lambda>e. ret [])"
  by (simp add: getApkPath_def getApkPath_try_def)

lemma getApkPath_swallows:
  assumes "thrown (snd (getApkPath env context w)) \<noteq> thrown w"
  shows "getApkPath env context w = (Return [], snd (getApkPath env context w))"
proof -
  from assms have "\<exists>e. fst (getApkPath_try env context w) = Throw e"
    unfolding getApkPath_eq
    by (simp add: try_catch_thrown plainD [OF plain_getApkPath_try])
  then obtain e where "fst (getApkPath_try env context w) = Throw e" ..
  then show ?thesis
    unfolding getApkPath_eq by (simp add: try_catch_Throw)
qed

lemma nativeApkPath_thrown:
  "thrown (snd (nativeApkPath env context w)) = thrown (snd (getApkPath env context w))"
  unfolding nativeApkPath_def by (rule try_catch_thrown)



subsection \<open>checkApkPaths\<close>

lemma same_loop_snd:
  "snd (same_loop paths i (a, s)) = (s \<or> (\<exists>k. i \<le> k \<and> k < length paths \<and> paths ! k \<noteq> paths ! 0))"
proof (induction paths i "(a, s)" rule: same_loop.induct)
  case (1 paths i)
  show ?case
  proof (cases "i < length paths")
    case True
    note lt = this
    show ?thesis
    proof (cases "paths ! i \<noteq> paths ! 0")
      case True
      with lt show ?thesis by (subst same_loop.simps) auto
    next
      case False
      with lt 1 have "snd (same_loop paths i (a, s))
          = (s \<or> (\<exists>k. i + 1 \<le> k \<and> k < length paths \<and> paths ! k \<noteq> paths ! 0))"
        by (subst same_loop.simps) simp
      also have "\<dots> = (s \<or> (\<exists>k. i \<le> k \<and> k < length paths \<and> paths ! k \<noteq> paths ! 0))"
        using False by (metis Suc_eq_plus1 Suc_leD Suc_leI le_neq_implies_less)
      finally show ?thesis .
    qed
  next
    case False
    then show ?thesis by (subst same_loop.simps) auto
  qed
qed

lemma startWith_loop_snd:
  "snd (startWith_loop paths (a, s)) = (s \<or> (\<exists>p\<in>set paths. \<not> prefix ''/data/app/'' p))"
  by (induction paths) (simp_all add: str_find_0 del: prefix_code)

lemma ends_with:
  "(length path < 9 \<or> drop (length path - 9) path \<noteq> ''/base.apk'') = (\<not> suffix ''/base.apk'' path)"
proof -
  have "suffix ''/base.apk'' path \<longleftrightarrow> (\<exists>zs. path = zs @ ''/base.apk'')"
    by (simp add: suffix_def)
  also have "\<dots> \<longleftrightarrow> (9 \<le> length path \<and> drop (length path - 9) path = ''/base.apk'')"
  proof
    assume "\<exists>zs. path = zs @ ''/base.apk''"
    then obtain zs where "path = zs @ ''/base.apk''" by blast
    then show "9 \<le> length path \<and> drop (length path - 9) path = ''/base.apk''" by simp
  next
    assume "9 \<le> length path \<and> drop (length path - 9) path = ''/base.apk''"
    then have "path = take (length path - 9) path @ ''/base.apk''"
      by (metis append_take_drop_id)
    then show "\<exists>zs. path = zs @ ''/base.apk''" by blast
  qed
  finally show ?thesis by auto
qed

lemma same_loop_hd:
  "snd (same_loop paths 1 (a, s)) = (s \<or> (\<exists>p\<in>set paths. p \<noteq> hd paths))"
proof (cases paths)
  case Nil
  then show ?thesis by (subst same_loop.simps) simp
next
  case (Cons p ps)
  have "(\<exists>k. 1 \<le> k \<and> k < length paths \<and> paths ! k \<noteq> paths ! 0) = (\<exists>q\<in>set paths. q \<noteq> hd paths)"
  proof
    assume "\<exists>k. 1 \<le> k \<and> k < length paths \<and> paths ! k \<noteq> paths ! 0"
    then obtain k where k: "k < length paths" "paths ! k \<noteq> paths ! 0" by blast
    from k(1) have "paths ! k \<in> set paths" by simp
    moreover from Cons have "hd paths = paths ! 0" by simp
    ultimately show "\<exists>q\<in>set paths. q \<noteq> hd paths" using k(2) by auto
  next
    assume "\<exists>q\<in>set paths. q \<noteq> hd paths"
    then obtain q where q: "q \<in> set paths" "q \<noteq> hd paths" by blast
    then obtain k where k: "k < length paths" "paths ! k = q" by (auto simp: in_set_conv_nth)
    from Cons have h: "hd paths = paths ! 0" by simp
    with k q have "k \<noteq> 0" by (cases k) auto
    then have "1 \<le> k" by simp
    with k q h show "\<exists>k. 1 \<le> k \<and> k < length paths \<and> paths ! k \<noteq> paths ! 0"
      by auto
  qed
  then show ?thesis by (simp only: same_loop_snd)
qed

lemma endWith_loop_snd:
  "snd (endWith_loop paths (a, s)) = (s \<or> (\<exists>p\<in>set paths. \<not> suffix ''/base.apk'' p))"
proof (induction paths)
  case Nil
  show ?case by simp
next
  case (Cons p ps)
  show ?case
  proof (cases "length p < 9 \<or> drop (length p - 9) p \<noteq> ''/base.apk''")
    case True
    then have n: "\<not> suffix ''/base.apk'' p" using ends_with [of p] by blast
    from True have "endWith_loop (p # ps) (a, s) = (False, True)"
      by (simp only: endWith_loop.simps if_True)
    with n show ?thesis by (simp del: ends_with)
  next
    case False
    then have y: "suffix ''/base.apk'' p" using ends_with [of p] by blast
    from False have "endWith_loop (p # ps) (a, s) = endWith_loop ps (a, s)"
      by (simp only: endWith_loop.simps if_False)
    with y Cons show ?thesis by simp
  qed
qed

lemma chmod_fail: "fst (chmod path mode f) \<noteq> 0 \<Longrightarrow> snd (chmod path mode f) = f"
  by (simp add: chmod_def split: option.splits if_splits)

lemma perm_loop_fst:
  "fst (perm_loop paths suspicious f) =
     (suspicious
      \<or> (\<exists>p\<in>set paths. stat p f = None)
      \<or> (\<exists>p\<in>set paths. \<exists>st. stat p f = Some st
             \<and> (st_mode st AND mode_0777 \<noteq> mode_0644 \<or> st_uid st \<noteq> 1000))
      \<or> (\<exists>p\<in>set paths. fst (chmod p mode_0777 f) = 0))"
proof (induction paths arbitrary: suspicious f)
  case Nil
  show ?case by simp
next
  case (Cons path rest)
  show ?case
  proof (cases "stat path f")
    case None
    then have "fst (perm_loop (path # rest) suspicious f) = fst (perm_loop rest True f)"
      by simp
    also have "\<dots> = True"
      by (simp add: Cons.IH)
    finally show ?thesis
      using None by auto
  next
    case (Some st)
    obtain rc f' where c: "chmod path mode_0777 f = (rc, f')"
      by (cases "chmod path mode_0777 f") auto
    show ?thesis
    proof (cases "rc = 0")
      case True
      obtain rc' f'' where c': "chmod path mode_0644 f' = (rc', f'')"
        by (cases "chmod path mode_0644 f'") auto
      from Some c c' True
      have "fst (perm_loop (path # rest) suspicious f) = fst (perm_loop rest True f'')"
        by (simp add: Let_def)
      also have "\<dots> = True"
        by (simp add: Cons.IH)
      finally show ?thesis
        using c True by auto
    next
      case False
      with c chmod_fail [of path mode_0777 f] have same: "f' = f"
        by simp
      let ?s = "suspicious \<or> st_mode st AND mode_0777 \<noteq> mode_0644 \<or> st_uid st \<noteq> 1000"
      from Some c False same
      have "fst (perm_loop (path # rest) suspicious f) = fst (perm_loop rest ?s f)"
        by (auto simp: Let_def)
      also have "\<dots> = (?s
          \<or> (\<exists>p\<in>set rest. stat p f = None)
          \<or> (\<exists>p\<in>set rest. \<exists>st. stat p f = Some st
                 \<and> (st_mode st AND mode_0777 \<noteq> mode_0644 \<or> st_uid st \<noteq> 1000))
          \<or> (\<exists>p\<in>set rest. fst (chmod p mode_0777 f) = 0))"
        by (rule Cons.IH)
      finally show ?thesis
        using Some c False by auto
    qed
  qed
qed

lemma checkPaths_fst:
  "fst (checkPaths paths w) =
     Return ((\<exists>p\<in>set paths. p \<noteq> hd paths)
      \<or> (\<exists>p\<in>set paths. \<not> prefix ''/data/app/'' p)
      \<or> (\<exists>p\<in>set paths. \<not> suffix ''/base.apk'' p)
      \<or> (\<exists>p\<in>set paths. stat p (fs w) = None)
      \<or> (\<exists>p\<in>set paths. \<exists>st. stat p (fs w) = Some st
             \<and> (st_mode st AND mode_0777 \<noteq> mode_0644 \<or> st_uid st \<noteq> 1000))
      \<or> (\<exists>p\<in>set paths. fst (chmod p mode_0777 (fs w)) = 0))"
proof -
  obtain a1 s1 where l1: "same_loop paths 1 (True, False) = (a1, s1)"
    by (cases "same_loop paths 1 (True, False)") auto
  obtain a2 s2 where l2: "startWith_loop paths (True, s1) = (a2, s2)"
    by (cases "startWith_loop paths (True, s1)") auto
  obtain a3 s3 where l3: "endWith_loop paths (True, s2) = (a3, s3)"
    by (cases "endWith_loop paths (True, s2)") auto
  from l1 same_loop_hd [of paths True False]
  have s1: "s1 = (\<exists>p\<in>set paths. p \<noteq> hd paths)"
    by simp
  from l2 startWith_loop_snd [of paths True s1]
  have s2: "s2 = (s1 \<or> (\<exists>p\<in>set paths. \<not> prefix ''/data/app/'' p))"
    by (simp del: prefix_code)
  from l3 endWith_loop_snd [of paths True s2]
  have s3: "s3 = (s2 \<or> (\<exists>p\<in>set paths. \<not> suffix ''/base.apk'' p))"
    by simp
  have "fst (checkPaths paths w) = Return (fst (perm_loop paths s3 (fs w)))"
    unfolding checkPaths_def Let_def l1 prod.case l2 l3
    by (simp add: fs_prog_def split: prod.splits)
  then show ?thesis
    unfolding perm_loop_fst s3 s2 s1 by (simp only: disj_assoc)
qed



lemma checkApkPaths_cases:
  "fst (checkApkPaths env context w) =
     (case collectApkPaths env context w of
        (Return paths, w1) \<Rightarrow> fst (checkPaths paths w1)
      | (Throw e, w1) \<Rightarrow> Return True
      | (Abort, w1) \<Rightarrow> Abort)"
  unfolding checkApkPaths_def checkApkPaths_try_def try_catch_bnd_cases
  by (simp add: try_catch_cases checkPaths_fst del: prefix_code split: prod.splits outcome.splits)

lemma append_if: "xs @ (if b then ys else []) = (if b then xs @ ys else xs)"
  by simp

lemma collectApkPaths_sources:
  "collectApkPaths env context =
     bnd (packageResourcePath env context) (\<lambda>resourcePath.
     bnd (packageCodePath env context) (\<lambda>codePath.
     bnd (applicationInfoDirs env context) (\<lambda>(sourceDir, publicSourceDir).
     bnd (packageManagerSourceDir env context) (\<lambda>packageInfoSourceDir.
     bnd (nativeApkPath env context) (\<lambda>nativeApkPath.
     ret ([resourcePath, codePath, sourceDir, publicSourceDir, packageInfoSourceDir]
          @ (if nativeApkPath \<noteq> [] then [nativeApkPath] else [])))))))"
  unfolding collectApkPaths_def packageResourcePath_def packageCodePath_def
    applicationInfoDirs_def packageManagerSourceDir_def nativeApkPath_def Let_def
  by (simp add: bnd_assoc bnd_ret append_if)

lemma collectApkPaths_reported:
  "collectApkPaths env context =
     bnd (reportedApkPaths env context) (\<lambda>five.
     bnd (nativeApkPath env context) (\<lambda>nativeApkPath.
     ret (five @ (if nativeApkPath \<noteq> [] then [nativeApkPath] else []))))"
  unfolding collectApkPaths_sources reportedApkPaths_def
  by (simp add: bnd_assoc bnd_ret split_def)



lemma collectApkPaths_fs: "fs (snd (collectApkPaths env context w)) = fs w"
  using outsideD [OF outside_collectApkPaths] by blast




subsection \<open>What the probes change\<close>

lemma mode_twice:
  "(((m AND NOT mode_07777) OR (mode_0777 AND mode_07777)) AND NOT mode_07777)
      OR (mode_0644 AND mode_07777)
   = (m AND NOT mode_07777) OR mode_0644"
proof -
  have a: "mode_0777 AND mode_07777 = mode_0777" by simp
  have b: "mode_0644 AND mode_07777 = mode_0644" by simp
  have c: "mode_0777 AND NOT mode_07777 = 0" by simp
  show ?thesis
    unfolding a b by (simp add: bit.conj_disj_distrib2 c)
qed

lemma mode_again:
  "(((m AND NOT mode_07777) OR mode_0644) AND NOT mode_07777) OR mode_0644
   = (m AND NOT mode_07777) OR mode_0644"
proof -
  have c: "mode_0644 AND NOT mode_07777 = 0" by simp
  show ?thesis
    by (simp add: bit.conj_disj_distrib2 c)
qed

lemma with_mode_0644_idem: "with_mode_0644 (with_mode_0644 st) = with_mode_0644 st"
  unfolding with_mode_0644_def using mode_again [of "st_mode st"] by simp

lemma chmod_permitted_kept: "chmod_permitted (snd (chmod path mode f)) = chmod_permitted f"
  by (simp add: chmod_def split: option.splits)

lemma chmod_twice:
  assumes "files f path = Some st" and "chmod_permitted f path"
  shows "snd (chmod path mode_0644 (snd (chmod path mode_0777 f)))
         = f\<lparr>files := (files f)(path \<mapsto> with_mode_0644 st)\<rparr>"
  using assms mode_twice [of "st_mode st"]
  by (simp add: chmod_def with_mode_0644_def)

lemma perm_loop_permitted:
  "chmod_permitted (snd (perm_loop paths suspicious f)) = chmod_permitted f"
proof (induction paths arbitrary: suspicious f)
  case Nil
  show ?case by simp
next
  case (Cons path rest)
  show ?case
  proof (cases "stat path f")
    case None
    then show ?thesis by (simp add: Cons.IH)
  next
    case (Some st)
    obtain rc f' where c: "chmod path mode_0777 f = (rc, f')"
      by (cases "chmod path mode_0777 f") auto
    obtain rc' f'' where c': "chmod path mode_0644 f' = (rc', f'')"
      by (cases "chmod path mode_0644 f'") auto
    from c chmod_permitted_kept [of path mode_0777 f]
    have p1: "chmod_permitted f' = chmod_permitted f" by simp
    from c' chmod_permitted_kept [of path mode_0644 f']
    have p2: "chmod_permitted f'' = chmod_permitted f'" by simp
    from Some c c' p1 p2 show ?thesis
      by (simp add: Let_def Cons.IH)
  qed
qed

lemma perm_loop_files:
  "files (snd (perm_loop paths suspicious f)) p =
     (if p \<in> set paths \<and> chmod_permitted f p
      then map_option with_mode_0644 (files f p) else files f p)"
proof (induction paths arbitrary: suspicious f)
  case Nil
  show ?case by simp
next
  case (Cons path rest)
  show ?case
  proof (cases "files f path")
    case None
    then have "perm_loop (path # rest) suspicious f = perm_loop rest True f"
      by (simp add: stat_def)
    with None show ?thesis
      by (auto simp: Cons.IH)
  next
    case (Some st)
    show ?thesis
    proof (cases "chmod_permitted f path")
      case True
      let ?f = "f\<lparr>files := (files f)(path \<mapsto> with_mode_0644 st)\<rparr>"
      obtain rc f' where c: "chmod path mode_0777 f = (rc, f')"
        by (cases "chmod path mode_0777 f") auto
      obtain rc' f'' where c': "chmod path mode_0644 f' = (rc', f'')"
        by (cases "chmod path mode_0644 f'") auto
      from Some True c have rc: "rc = 0"
        by (simp add: chmod_def)
      from c c' chmod_twice [OF Some True] have f'': "f'' = ?f"
        by simp
      from Some c c' rc f''
      have "perm_loop (path # rest) suspicious f = perm_loop rest True ?f"
        by (simp add: stat_def Let_def)
      then have "files (snd (perm_loop (path # rest) suspicious f)) p =
          (if p \<in> set rest \<and> chmod_permitted ?f p
           then map_option with_mode_0644 (files ?f p) else files ?f p)"
        by (simp only: Cons.IH)
      with Some True show ?thesis
        by (auto simp: with_mode_0644_idem)
    next
      case False
      with Some have c: "chmod path mode_0777 f = (- 1, f)"
        by (simp add: chmod_def)
      with Some obtain s' where "perm_loop (path # rest) suspicious f = perm_loop rest s' f"
        by (simp add: stat_def Let_def)
      with False show ?thesis
        by (auto simp: Cons.IH)
    qed
  qed
qed

lemma checkPaths_snd:
  "\<exists>s. snd (checkPaths paths w) = w\<lparr>fs := snd (perm_loop paths s (fs w))\<rparr>"
proof -
  obtain a1 s1 where l1: "same_loop paths 1 (True, False) = (a1, s1)"
    by (cases "same_loop paths 1 (True, False)") auto
  obtain a2 s2 where l2: "startWith_loop paths (True, s1) = (a2, s2)"
    by (cases "startWith_loop paths (True, s1)") auto
  obtain a3 s3 where l3: "endWith_loop paths (True, s2) = (a3, s3)"
    by (cases "endWith_loop paths (True, s2)") auto
  have "snd (checkPaths paths w) = w\<lparr>fs := snd (perm_loop paths s3 (fs w))\<rparr>"
    unfolding checkPaths_def Let_def l1 prod.case l2 l3
    by (simp add: fs_prog_def split: prod.splits)
  then show ?thesis ..
qed

lemma checkApkPaths_snd:
  "snd (checkApkPaths env context w) =
     (case collectApkPaths env context w of
        (Return paths, w1) \<Rightarrow> snd (checkPaths paths w1)
      | (Throw e, w1) \<Rightarrow> w1
      | (Abort, w1) \<Rightarrow> w1)"
proof (cases "collectApkPaths env context w")
  case (Pair r w1)
  show ?thesis
  proof (cases r)
    case (Return paths)
    have "\<exists>b. fst (checkPaths paths w1) = Return b"
      unfolding checkPaths_fst by blast
    then obtain b w2 where c: "checkPaths paths w1 = (Return b, w2)"
      by (cases "checkPaths paths w1") auto
    with Pair Return show ?thesis
      by (simp add: checkApkPaths_def checkApkPaths_try_def try_catch_def bnd_def)
  qed (use Pair in \<open>simp_all add: checkApkPaths_def checkApkPaths_try_def try_catch_def bnd_def ret_def\<close>)
qed

lemma checkApkPaths_frame:
  "statics (snd (checkApkPaths env context w)) = statics (snd (collectApkPaths env context w))
   \<and> vm (snd (checkApkPaths env context w)) = vm (snd (collectApkPaths env context w))
   \<and> pending (snd (checkApkPaths env context w))
       = pending (snd (collectApkPaths env context w))
   \<and> thrown (snd (checkApkPaths env context w))
       = thrown (snd (collectApkPaths env context w))"
proof (cases "collectApkPaths env context w")
  case (Pair r w1)
  then show ?thesis
    by (cases r) (simp_all add: checkApkPaths_snd checkPaths_frame)
qed

text \<open>
  C2, as amended.  No probe changes a variable of the program.  The probes
  \<open>checkCreator\<close>, \<open>checkField\<close>, \<open>checkCreators\<close>, \<open>checkPMProxy\<close> and
  \<open>checkAppComponentFactory\<close> leave the file system as it is.  \<open>checkApkPaths\<close> does
  not: on every collected path (the five reported paths and the native path when it is
  not empty) that exists and whose mode the process may change, its \<open>chmod\<close> test
  leaves the permission bits 0644, whatever they were.  It changes nothing else: not the
  owner, not a file that is not among the collected paths or whose \<open>chmod\<close> fails, not
  the set of files; and nothing at all when the paths cannot be collected.  On a runtime
  that is only inspected (every function of the table other than \<open>CallVoidMethodA\<close>
  leaves its state as it is, a released UTF buffer is gone, the functions called without
  a check raise nothing), every probe but \<open>checkPMProxy\<close> leaves the state of the
  runtime as it was, \<open>checkPMProxy\<close> leaves it as it was or as one call
  \<open>CallVoidMethodA(field, mid, 1)\<close>, its \<open>setAccessible(true)\<close>, made it, and no
  probe leaves a Java exception pending when none was pending before.
\<close>

theorem probes_file_system:
  "fs (snd (checkCreator env w)) = fs w
   \<and> fs (snd (checkField env w)) = fs w
   \<and> fs (snd (checkCreators env w)) = fs w
   \<and> fs (snd (checkPMProxy env context w)) = fs w
   \<and> fs (snd (checkAppComponentFactory env w)) = fs w
   \<and> chmod_permitted (fs (snd (checkApkPaths env context w))) = chmod_permitted (fs w)
   \<and> (collectApkPaths env context w = (Return paths, w1) \<longrightarrow>
        files (fs (snd (checkApkPaths env context w))) p =
          (if p \<in> set paths \<and> chmod_permitted (fs w) p
           then map_option with_mode_0644 (files (fs w) p) else files (fs w) p))
   \<and> ((\<forall>paths. fst (collectApkPaths env context w) \<noteq> Return paths) \<longrightarrow>
        fs (snd (checkApkPaths env context w)) = fs w)
   \<and> statics (snd (checkCreator env w)) = statics w
   \<and> statics (snd (checkField env w)) = statics w
   \<and> statics (snd (checkCreators env w)) = statics w
   \<and> statics (snd (checkPMProxy env context w)) = statics w
   \<and> statics (snd (checkAppComponentFactory env w)) = statics w
   \<and> statics (snd (checkApkPaths env context w)) = statics w
   \<and> (inspected env \<longrightarrow> vm (snd (checkCreator env w)) = vm w)
   \<and> (inspected env \<longrightarrow> vm (snd (checkField env w)) = vm w)
   \<and> (inspected env \<longrightarrow> vm (snd (checkCreators env w)) = vm w)
   \<and> (inspected env \<longrightarrow> vm (snd (checkAppComponentFactory env w)) = vm w)
   \<and> (inspected env \<longrightarrow> vm (snd (checkApkPaths env context w)) = vm w)
   \<and> (inspected env \<longrightarrow>
        vm (snd (checkPMProxy env context w)) = vm w
        \<or> (\<exists>field mid. vm (snd (checkPMProxy env context w))
               = snd (snd (fnCallVoidMethodA env field mid [I 1] (vm w)))))
   \<and> (inspected env \<and> pending w = None \<longrightarrow> pending (snd (checkCreator env w)) = None)
   \<and> (inspected env \<and> pending w = None \<longrightarrow> pending (snd (checkField env w)) = None)
   \<and> (inspected env \<and> pending w = None \<longrightarrow> pending (snd (checkCreators env w)) = None)
   \<and> (inspected env \<and> pending w = None \<longrightarrow> pending (snd (checkPMProxy env context w)) = None)
   \<and> (inspected env \<and> pending w = None \<longrightarrow> pending (snd (checkAppComponentFactory env w)) = None)
   \<and> (inspected env \<and> pending w = None \<longrightarrow> pending (snd (checkApkPaths env context w)) = None)
   \<and> collectApkPaths env context =
       bnd (packageResourcePath env context) (\<lambda>resourcePath.
       bnd (packageCodePath env context) (\<lambda>codePath.
       bnd (applicationInfoDirs env context) (\<lambda>(sourceDir, publicSourceDir).
       bnd (packageManagerSourceDir env context) (\<lambda>packageInfoSourceDir.
       bnd (nativeApkPath env context) (\<lambda>nativeApkPath.
       ret ([resourcePath, codePath, sourceDir, publicSourceDir, packageInfoSourceDir]
            @ (if nativeApkPath \<noteq> [] then [nativeApkPath] else [])))))))"
proof (intro conjI impI)
  show "fs (snd (checkCreator env w)) = fs w"
    using outsideD [OF outside_checkCreator] by blast
  show "fs (snd (checkField env w)) = fs w"
    using outsideD [OF outside_checkField] by blast
  show "fs (snd (checkCreators env w)) = fs w"
    using outsideD [OF outside_checkCreators] by blast
  show "fs (snd (checkPMProxy env context w)) = fs w"
    using outsideD [OF outside_checkPMProxy] by blast
  show "fs (snd (checkAppComponentFactory env w)) = fs w"
    using outsideD [OF outside_checkAppComponentFactory] by blast
  show "chmod_permitted (fs (snd (checkApkPaths env context w))) = chmod_permitted (fs w)"
  proof (cases "collectApkPaths env context w")
    case (Pair r w1)
    with collectApkPaths_fs [of env "context" w] have k: "fs w1 = fs w"
      by simp
    show ?thesis
    proof (cases r)
      case (Return paths)
      obtain s where "snd (checkPaths paths w1) = w1\<lparr>fs := snd (perm_loop paths s (fs w1))\<rparr>"
        using checkPaths_snd [of paths w1] by blast
      with Pair Return k show ?thesis
        by (simp add: checkApkPaths_snd perm_loop_permitted)
    qed (use Pair k in \<open>simp_all add: checkApkPaths_snd\<close>)
  qed
  show "statics (snd (checkCreator env w)) = statics w"
    using outsideD [OF outside_checkCreator] by blast
  show "statics (snd (checkField env w)) = statics w"
    using outsideD [OF outside_checkField] by blast
  show "statics (snd (checkCreators env w)) = statics w"
    using outsideD [OF outside_checkCreators] by blast
  show "statics (snd (checkPMProxy env context w)) = statics w"
    using outsideD [OF outside_checkPMProxy] by blast
  show "statics (snd (checkAppComponentFactory env w)) = statics w"
    using outsideD [OF outside_checkAppComponentFactory] by blast
  show "statics (snd (checkApkPaths env context w)) = statics w"
    using outsideD [OF outside_collectApkPaths, of env "context" w] checkApkPaths_frame [of env "context" w]
    by simp
  show "collectApkPaths env context =
       bnd (packageResourcePath env context) (\<lambda>resourcePath.
       bnd (packageCodePath env context) (\<lambda>codePath.
       bnd (applicationInfoDirs env context) (\<lambda>(sourceDir, publicSourceDir).
       bnd (packageManagerSourceDir env context) (\<lambda>packageInfoSourceDir.
       bnd (nativeApkPath env context) (\<lambda>nativeApkPath.
       ret ([resourcePath, codePath, sourceDir, publicSourceDir, packageInfoSourceDir]
            @ (if nativeApkPath \<noteq> [] then [nativeApkPath] else [])))))))"
    by (rule collectApkPaths_sources)
next
  assume c: "collectApkPaths env context w = (Return paths, w1)"
  with collectApkPaths_fs [of env "context" w] have k: "fs w1 = fs w"
    by simp
  obtain s where "snd (checkPaths paths w1) = w1\<lparr>fs := snd (perm_loop paths s (fs w1))\<rparr>"
    using checkPaths_snd [of paths w1] by blast
  with c k show "files (fs (snd (checkApkPaths env context w))) p =
          (if p \<in> set paths \<and> chmod_permitted (fs w) p
           then map_option with_mode_0644 (files (fs w) p) else files (fs w) p)"
    by (simp add: checkApkPaths_snd perm_loop_files)
next
  assume n: "\<forall>paths. fst (collectApkPaths env context w) \<noteq> Return paths"
  obtain r w1 where c: "collectApkPaths env context w = (r, w1)"
    by (cases "collectApkPaths env context w") auto
  with collectApkPaths_fs [of env "context" w] have k: "fs w1 = fs w"
    by simp
  from n c k show "fs (snd (checkApkPaths env context w)) = fs w"
    by (cases r) (simp_all add: checkApkPaths_snd)
next
  assume i: "inspected env"
  show "vm (snd (checkCreator env w)) = vm w"
    by (rule vmD [OF vm_checkCreator [OF i]])
  show "vm (snd (checkField env w)) = vm w"
    by (rule vmD [OF vm_checkField [OF i]])
  show "vm (snd (checkCreators env w)) = vm w"
    by (rule vmD [OF vm_checkCreators [OF i]])
  show "vm (snd (checkAppComponentFactory env w)) = vm w"
    by (rule vmD [OF vm_checkAppComponentFactory [OF i]])
  show "vm (snd (checkApkPaths env context w)) = vm w"
    using vmD [OF vm_collectApkPaths [OF i], of "context" w] checkApkPaths_frame [of env "context" w]
    by simp
  show "vm (snd (checkPMProxy env context w)) = vm w
        \<or> (\<exists>field mid. vm (snd (checkPMProxy env context w))
               = snd (snd (fnCallVoidMethodA env field mid [I 1] (vm w))))"
    using one_checkPMProxy [OF i, of "context"] unfolding one_setAccessible_def by blast
next
  assume "inspected env \<and> pending w = None"
  then have i: "inspected env" and p: "pending w = None"
    by simp_all
  show "pending (snd (checkCreator env w)) = None"
    by (rule pendD [OF pend_checkCreator [OF i] p])
next
  assume "inspected env \<and> pending w = None"
  then have i: "inspected env" and p: "pending w = None"
    by simp_all
  show "pending (snd (checkField env w)) = None"
    by (rule pendD [OF pend_checkField [OF i] p])
next
  assume "inspected env \<and> pending w = None"
  then have i: "inspected env" and p: "pending w = None"
    by simp_all
  show "pending (snd (checkCreators env w)) = None"
    by (rule pendD [OF pend_checkCreators [OF i] p])
next
  assume "inspected env \<and> pending w = None"
  then have i: "inspected env" and p: "pending w = None"
    by simp_all
  show "pending (snd (checkPMProxy env context w)) = None"
    by (rule pendD [OF pend_checkPMProxy [OF i] p])
next
  assume "inspected env \<and> pending w = None"
  then have i: "inspected env" and p: "pending w = None"
    by simp_all
  show "pending (snd (checkAppComponentFactory env w)) = None"
    by (rule pendD [OF pend_checkAppComponentFactory [OF i] p])
next
  assume "inspected env \<and> pending w = None"
  then have i: "inspected env" and p: "pending w = None"
    by simp_all
  show "pending (snd (checkApkPaths env context w)) = None"
    using pendD [OF pend_collectApkPaths [OF i] p, of "context"]
      checkApkPaths_frame [of env "context" w]
    by simp
qed

theorem probes_file_system_witness:
  "fst (collectApkPaths (android_env stock) 1 owned_world) = Return [apk, apk, apk, apk, apk, apk]
   \<and> chmod_permitted (fs owned_world) apk
   \<and> files (fs (snd (checkApkPaths (android_env stock) 1 owned_world))) apk
       = map_option with_mode_0644 (files (fs owned_world) apk)
   \<and> fs (snd (checkApkPaths (android_env broken) 1 owned_world)) = fs owned_world
   \<and> fs (snd (checkPMProxy (android_env stock) 1 owned_world)) = fs owned_world
   \<and> fst (collectApkPaths (remembering_env stock (Other (apk_of ''6''))) 1
         (remembering_world (two_files apk (apk_of ''6'') 0x8180 10123 True)))
       = Return [apk, apk, apk, apk, apk, apk_of ''6'']
   \<and> files (fs (snd (checkApkPaths (remembering_env stock (Other (apk_of ''6''))) 1
         (remembering_world (two_files apk (apk_of ''6'') 0x8180 10123 True))))) (apk_of ''6'')
       = Some \<lparr>st_mode = 0x81A4, st_uid = 10123\<rparr>
   \<and> files (fs (snd (checkApkPaths (android_env stock) 1
         (world_of (two_files apk (apk_of ''6'') 0x8180 10123 True))))) (apk_of ''6'')
       = Some \<lparr>st_mode = 0x8180, st_uid = 10123\<rparr>
   \<and> inspected (android_env stock)
   \<and> pending stock_world = None
   \<and> vm (snd (checkCreator (android_env stock) stock_world)) = vm stock_world
   \<and> vm (snd (checkField (android_env stock) stock_world)) = vm stock_world
   \<and> vm (snd (checkCreators (android_env stock) stock_world)) = vm stock_world
   \<and> vm (snd (checkAppComponentFactory (android_env stock) stock_world)) = vm stock_world
   \<and> vm (snd (checkApkPaths (android_env stock) 1 stock_world)) = vm stock_world
   \<and> pending (snd (checkCreator (android_env stock) stock_world)) = None
   \<and> pending (snd (checkField (android_env stock) stock_world)) = None
   \<and> pending (snd (checkCreators (android_env stock) stock_world)) = None
   \<and> pending (snd (checkPMProxy (android_env stock) 1 stock_world)) = None
   \<and> pending (snd (checkAppComponentFactory (android_env stock) stock_world)) = None
   \<and> pending (snd (checkApkPaths (android_env stock) 1 stock_world)) = None
   \<and> inspected (remembering_env stock Same)
   \<and> (vm (snd (checkPMProxy (remembering_env stock Same) 1
            (remembering_world (one_file apk 0x81A4 1000 False))))
        = vm (remembering_world (one_file apk 0x81A4 1000 False))
      \<or> (\<exists>field mid.
            vm (snd (checkPMProxy (remembering_env stock Same) 1
              (remembering_world (one_file apk 0x81A4 1000 False))))
            = snd (snd (fnCallVoidMethodA (remembering_env stock Same) field mid [I 1]
                (vm (remembering_world (one_file apk 0x81A4 1000 False)))))))
   \<and> vm (snd (checkPMProxy (remembering_env stock Same) 1
          (remembering_world (one_file apk 0x81A4 1000 False))))
       = snd (snd (fnCallVoidMethodA (remembering_env stock Same) 14 8 [I 1]
           (vm (remembering_world (one_file apk 0x81A4 1000 False)))))"
proof -
  let ?ps = "[apk, apk, apk, apk, apk, apk]"
  define w2 where "w2 = snd (collectApkPaths (android_env stock) 1 owned_world)"
  have a: "fst (collectApkPaths (android_env stock) 1 owned_world) = Return ?ps"
    by code_simp
  then have a': "collectApkPaths (android_env stock) 1 owned_world = (Return ?ps, w2)"
    unfolding w2_def by (simp add: prod_eq_iff)
  have b: "chmod_permitted (fs owned_world) apk"
    by code_simp
  note t = probes_file_system [of "android_env stock" owned_world 1 ?ps w2 apk]
  from t [THEN conjunct2, THEN conjunct2, THEN conjunct2, THEN conjunct2, THEN conjunct2, THEN conjunct2, THEN conjunct1] a'
  have "files (fs (snd (checkApkPaths (android_env stock) 1 owned_world))) apk =
          (if apk \<in> set ?ps \<and> chmod_permitted (fs owned_world) apk
           then map_option with_mode_0644 (files (fs owned_world) apk)
           else files (fs owned_world) apk)"
    by (rule mp)
  with b have c: "files (fs (snd (checkApkPaths (android_env stock) 1 owned_world))) apk
       = map_option with_mode_0644 (files (fs owned_world) apk)"
    by simp
  have d: "fst (collectApkPaths (android_env broken) 1 owned_world)
      = Throw (JNIException ''JNI exception occurred'' NoSuchMethodError)"
    by code_simp
  then have "\<forall>paths. fst (collectApkPaths (android_env broken) 1 owned_world) \<noteq> Return paths"
    by simp
  with probes_file_system [of "android_env broken" owned_world 1, THEN conjunct2, THEN conjunct2, THEN conjunct2, THEN conjunct2, THEN conjunct2, THEN conjunct2, THEN conjunct2, THEN conjunct1]
  have e: "fs (snd (checkApkPaths (android_env broken) 1 owned_world)) = fs owned_world"
    by (rule mp)
  from t [THEN conjunct2, THEN conjunct2, THEN conjunct2, THEN conjunct1]
  have f: "fs (snd (checkPMProxy (android_env stock) 1 owned_world)) = fs owned_world" .
  \<comment> \<open>two files, the second one the native path\<close>
  let ?F = "remembering_env stock (Other (apk_of ''6''))"
  let ?fs = "two_files apk (apk_of ''6'') 0x8180 10123 True"
  let ?V = "remembering_world ?fs"
  let ?rs = "[apk, apk, apk, apk, apk, apk_of ''6'']"
  define w3 where "w3 = snd (collectApkPaths ?F 1 ?V)"
  have g: "fst (collectApkPaths ?F 1 ?V) = Return ?rs"
    by code_simp
  then have g': "collectApkPaths ?F 1 ?V = (Return ?rs, w3)"
    unfolding w3_def by (simp add: prod_eq_iff)
  have g1: "chmod_permitted (fs ?V) (apk_of ''6'')"
    by code_simp
  have g2: "map_option with_mode_0644 (files (fs ?V) (apk_of ''6''))
      = Some \<lparr>st_mode = 0x81A4, st_uid = 10123\<rparr>"
    by code_simp
  from probes_file_system [of ?F ?V 1 ?rs w3 "apk_of ''6''", THEN conjunct2, THEN conjunct2, THEN conjunct2, THEN conjunct2, THEN conjunct2, THEN conjunct2, THEN conjunct1] g'
  have "files (fs (snd (checkApkPaths ?F 1 ?V))) (apk_of ''6'') =
          (if apk_of ''6'' \<in> set ?rs \<and> chmod_permitted (fs ?V) (apk_of ''6'')
           then map_option with_mode_0644 (files (fs ?V) (apk_of ''6''))
           else files (fs ?V) (apk_of ''6''))"
    by (rule mp)
  with g1 g2 have h: "files (fs (snd (checkApkPaths ?F 1 ?V))) (apk_of ''6'')
       = Some \<lparr>st_mode = 0x81A4, st_uid = 10123\<rparr>"
    by simp
  \<comment> \<open>two files, the second one not collected\<close>
  let ?U = "world_of ?fs"
  define w4 where "w4 = snd (collectApkPaths (android_env stock) 1 ?U)"
  have i: "fst (collectApkPaths (android_env stock) 1 ?U) = Return ?ps"
    by code_simp
  then have i': "collectApkPaths (android_env stock) 1 ?U = (Return ?ps, w4)"
    unfolding w4_def by (simp add: prod_eq_iff)
  have i1: "apk_of ''6'' \<notin> set ?ps"
    by (simp add: apk_of_def apk_def)
  have i2: "files (fs ?U) (apk_of ''6'') = Some \<lparr>st_mode = 0x8180, st_uid = 10123\<rparr>"
    by code_simp
  from probes_file_system [of "android_env stock" ?U 1 ?ps w4 "apk_of ''6''", THEN conjunct2, THEN conjunct2, THEN conjunct2, THEN conjunct2, THEN conjunct2, THEN conjunct2, THEN conjunct1] i'
  have "files (fs (snd (checkApkPaths (android_env stock) 1 ?U))) (apk_of ''6'') =
          (if apk_of ''6'' \<in> set ?ps \<and> chmod_permitted (fs ?U) (apk_of ''6'')
           then map_option with_mode_0644 (files (fs ?U) (apk_of ''6''))
           else files (fs ?U) (apk_of ''6''))"
    by (rule mp)
  with i1 i2 have j: "files (fs (snd (checkApkPaths (android_env stock) 1 ?U))) (apk_of ''6'')
       = Some \<lparr>st_mode = 0x8180, st_uid = 10123\<rparr>"
    by (simp only: if_False simp_thms)
  \<comment> \<open>the runtime and the pending exception\<close>
  have k: "inspected (android_env stock)"
    unfolding inspected_def android_env_def
    by (simp add: a_FindClass_def a_GetMethodID_def a_GetFieldID_def a_GetStaticFieldID_def
        a_GetStringUTFChars_def split: option.splits)
  have l: "pending stock_world = None"
    by code_simp
  note u = probes_file_system [of "android_env stock" stock_world 1]
  from u [THEN conjunct2, THEN conjunct2, THEN conjunct2, THEN conjunct2, THEN conjunct2, THEN conjunct2, THEN conjunct2, THEN conjunct2, THEN conjunct2, THEN conjunct2, THEN conjunct2, THEN conjunct2, THEN conjunct2, THEN conjunct2, THEN conjunct1] k
  have v1: "vm (snd (checkCreator (android_env stock) stock_world)) = vm stock_world"
    by (rule mp)
  from u [THEN conjunct2, THEN conjunct2, THEN conjunct2, THEN conjunct2, THEN conjunct2, THEN conjunct2, THEN conjunct2, THEN conjunct2, THEN conjunct2, THEN conjunct2, THEN conjunct2, THEN conjunct2, THEN conjunct2, THEN conjunct2, THEN conjunct2, THEN conjunct1] k
  have v2: "vm (snd (checkField (android_env stock) stock_world)) = vm stock_world"
    by (rule mp)
  from u [THEN conjunct2, THEN conjunct2, THEN conjunct2, THEN conjunct2, THEN conjunct2, THEN conjunct2, THEN conjunct2, THEN conjunct2, THEN conjunct2, THEN conjunct2, THEN conjunct2, THEN conjunct2, THEN conjunct2, THEN conjunct2, THEN conjunct2, THEN conjunct2, THEN conjunct1] k
  have v3: "vm (snd (checkCreators (android_env stock) stock_world)) = vm stock_world"
    by (rule mp)
  from u [THEN conjunct2, THEN conjunct2, THEN conjunct2, THEN conjunct2, THEN conjunct2, THEN conjunct2, THEN conjunct2, THEN conjunct2, THEN conjunct2, THEN conjunct2, THEN conjunct2, THEN conjunct2, THEN conjunct2, THEN conjunct2, THEN conjunct2, THEN conjunct2, THEN conjunct2, THEN conjunct1] k
  have v4: "vm (snd (checkAppComponentFactory (android_env stock) stock_world)) = vm stock_world"
    by (rule mp)
  from u [THEN conjunct2, THEN conjunct2, THEN conjunct2, THEN conjunct2, THEN conjunct2, THEN conjunct2, THEN conjunct2, THEN conjunct2, THEN conjunct2, THEN conjunct2, THEN conjunct2, THEN conjunct2, THEN conjunct2, THEN conjunct2, THEN conjunct2, THEN conjunct2, THEN conjunct2, THEN conjunct2, THEN conjunct1] k
  have v5: "vm (snd (checkApkPaths (android_env stock) 1 stock_world)) = vm stock_world"
    by (rule mp)
  from k l have kl: "inspected (android_env stock) \<and> pending stock_world = None" ..
  from u [THEN conjunct2, THEN conjunct2, THEN conjunct2, THEN conjunct2, THEN conjunct2, THEN conjunct2, THEN conjunct2, THEN conjunct2, THEN conjunct2, THEN conjunct2, THEN conjunct2, THEN conjunct2, THEN conjunct2, THEN conjunct2, THEN conjunct2, THEN conjunct2, THEN conjunct2, THEN conjunct2, THEN conjunct2, THEN conjunct2, THEN conjunct1] kl
  have p1: "pending (snd (checkCreator (android_env stock) stock_world)) = None"
    by (rule mp)
  from u [THEN conjunct2, THEN conjunct2, THEN conjunct2, THEN conjunct2, THEN conjunct2, THEN conjunct2, THEN conjunct2, THEN conjunct2, THEN conjunct2, THEN conjunct2, THEN conjunct2, THEN conjunct2, THEN conjunct2, THEN conjunct2, THEN conjunct2, THEN conjunct2, THEN conjunct2, THEN conjunct2, THEN conjunct2, THEN conjunct2, THEN conjunct2, THEN conjunct1] kl
  have p2: "pending (snd (checkField (android_env stock) stock_world)) = None"
    by (rule mp)
  from u [THEN conjunct2, THEN conjunct2, THEN conjunct2, THEN conjunct2, THEN conjunct2, THEN conjunct2, THEN conjunct2, THEN conjunct2, THEN conjunct2, THEN conjunct2, THEN conjunct2, THEN conjunct2, THEN conjunct2, THEN conjunct2, THEN conjunct2, THEN conjunct2, THEN conjunct2, THEN conjunct2, THEN conjunct2, THEN conjunct2, THEN conjunct2, THEN conjunct2, THEN conjunct1] kl
  have p3: "pending (snd (checkCreators (android_env stock) stock_world)) = None"
    by (rule mp)
  from u [THEN conjunct2, THEN conjunct2, THEN conjunct2, THEN conjunct2, THEN conjunct2, THEN conjunct2, THEN conjunct2, THEN conjunct2, THEN conjunct2, THEN conjunct2, THEN conjunct2, THEN conjunct2, THEN conjunct2, THEN conjunct2, THEN conjunct2, THEN conjunct2, THEN conjunct2, THEN conjunct2, THEN conjunct2, THEN conjunct2, THEN conjunct2, THEN conjunct2, THEN conjunct2, THEN conjunct1] kl
  have p4: "pending (snd (checkPMProxy (android_env stock) 1 stock_world)) = None"
    by (rule mp)
  from u [THEN conjunct2, THEN conjunct2, THEN conjunct2, THEN conjunct2, THEN conjunct2, THEN conjunct2, THEN conjunct2, THEN conjunct2, THEN conjunct2, THEN conjunct2, THEN conjunct2, THEN conjunct2, THEN conjunct2, THEN conjunct2, THEN conjunct2, THEN conjunct2, THEN conjunct2, THEN conjunct2, THEN conjunct2, THEN conjunct2, THEN conjunct2, THEN conjunct2, THEN conjunct2, THEN conjunct2, THEN conjunct1] kl
  have p5: "pending (snd (checkAppComponentFactory (android_env stock) stock_world)) = None"
    by (rule mp)
  from u [THEN conjunct2, THEN conjunct2, THEN conjunct2, THEN conjunct2, THEN conjunct2, THEN conjunct2, THEN conjunct2, THEN conjunct2, THEN conjunct2, THEN conjunct2, THEN conjunct2, THEN conjunct2, THEN conjunct2, THEN conjunct2, THEN conjunct2, THEN conjunct2, THEN conjunct2, THEN conjunct2, THEN conjunct2, THEN conjunct2, THEN conjunct2, THEN conjunct2, THEN conjunct2, THEN conjunct2, THEN conjunct2, THEN conjunct1] kl
  have p6: "pending (snd (checkApkPaths (android_env stock) 1 stock_world)) = None"
    by (rule mp)
  \<comment> \<open>\<open>setAccessible\<close>\<close>
  let ?R = "remembering_env stock Same"
  let ?W = "remembering_world (one_file apk 0x81A4 1000 False)"
  have m: "inspected ?R"
    unfolding inspected_def remembering_env_def
    by (simp add: on_buffers_def android_env_def a_FindClass_def a_GetMethodID_def
        a_GetFieldID_def a_GetStaticFieldID_def a_GetStringUTFChars_def r_CallObjectMethodA_def
        r_GetStringUTFChars_def split: option.splits)
  from probes_file_system [of ?R ?W 1, THEN conjunct2, THEN conjunct2, THEN conjunct2, THEN conjunct2, THEN conjunct2, THEN conjunct2, THEN conjunct2, THEN conjunct2, THEN conjunct2, THEN conjunct2, THEN conjunct2, THEN conjunct2, THEN conjunct2, THEN conjunct2, THEN conjunct2, THEN conjunct2, THEN conjunct2, THEN conjunct2, THEN conjunct2, THEN conjunct1] m
  have n: "vm (snd (checkPMProxy ?R 1 ?W)) = vm ?W
      \<or> (\<exists>field mid. vm (snd (checkPMProxy ?R 1 ?W))
            = snd (snd (fnCallVoidMethodA ?R field mid [I 1] (vm ?W))))"
    by (rule mp)
  have o: "vm (snd (checkPMProxy ?R 1 ?W)) = snd (snd (fnCallVoidMethodA ?R 14 8 [I 1] (vm ?W)))"
    by code_simp
  from a b c e f g h j k l v1 v2 v3 v4 v5 p1 p2 p3 p4 p5 p6 m n o show ?thesis
    by (intro conjI)
qed

text \<open>
  C2 as stated fails twice.  An APK of mode 0600 that the process may \<open>chmod\<close> has
  mode 0644 after \<open>checkApkPaths\<close>; and on a runtime that records it, the field
  \<open>mPM\<close> that \<open>checkPMProxy\<close> inspects is accessible after the probe and was not
  before.
\<close>

theorem probes_file_system_counterexample:
  "map_option st_mode (files (fs owned_world) apk) = Some 0x8180
   \<and> map_option st_mode (files (fs (snd (checkApkPaths (android_env stock) 1 owned_world))) apk)
       = Some 0x81A4
   \<and> fs (snd (checkApkPaths (android_env stock) 1 owned_world)) \<noteq> fs owned_world
   \<and> accessible (vm (remembering_world (one_file apk 0x81A4 1000 False))) = []
   \<and> accessible (vm (snd (checkPMProxy (remembering_env stock Same) 1
         (remembering_world (one_file apk 0x81A4 1000 False))))) = [14]
   \<and> fst (checkPMProxy (remembering_env stock Same) 1
         (remembering_world (one_file apk 0x81A4 1000 False))) = Return False
   \<and> vm (snd (checkPMProxy (remembering_env stock Same) 1
         (remembering_world (one_file apk 0x81A4 1000 False))))
       \<noteq> vm (remembering_world (one_file apk 0x81A4 1000 False))"
proof -
  let ?R = "remembering_env stock Same"
  let ?W = "remembering_world (one_file apk 0x81A4 1000 False)"
  have a: "map_option st_mode (files (fs owned_world) apk) = Some 0x8180"
    by code_simp
  have b: "map_option st_mode
      (files (fs (snd (checkApkPaths (android_env stock) 1 owned_world))) apk) = Some 0x81A4"
    by code_simp
  have "(0x8180 :: 32 word) \<noteq> 0x81A4"
    by simp
  with a b have c: "fs (snd (checkApkPaths (android_env stock) 1 owned_world)) \<noteq> fs owned_world"
    by (metis option.inject)
  have d: "accessible (vm ?W) = []"
    by code_simp
  have e: "accessible (vm (snd (checkPMProxy ?R 1 ?W))) = [14]"
    by code_simp
  have f: "fst (checkPMProxy ?R 1 ?W) = Return False"
    by code_simp
  from d e have g: "vm (snd (checkPMProxy ?R 1 ?W)) \<noteq> vm ?W"
    by (metis list.distinct(1))
  from a b c d e f g show ?thesis
    by (intro conjI)
qed

subsection \<open>Exceptions that a probe does not see\<close>

lemma checkAppComponentFactory_try_factoryCheck:
  "checkAppComponentFactory_try env = bnd (getApplication env) (factoryCheck env)"
  unfolding checkAppComponentFactory_try_def factoryCheck_def Let_def by (rule refl)

lemma getApplication_swallows:
  assumes "thrown (snd (getApplication env w)) \<noteq> thrown w"
  shows "getApplication env w = (Return nullptr, snd (getApplication env w))"
proof -
  from assms have "\<exists>e. fst (getApplication_try env w) = Throw e"
    unfolding getApplication_def
    by (simp add: try_catch_thrown plainD [OF plain_getApplication_try])
  then obtain e where "fst (getApplication_try env w) = Throw e" ..
  then show ?thesis
    unfolding getApplication_def by (simp add: try_catch_Throw)
qed

lemma factory_swallowed:
  assumes "thrown (snd (getApplication env w)) \<noteq> thrown w"
  shows "checkAppComponentFactory env w = (Return False, snd (getApplication env w))"
proof -
  obtain w1 where g: "getApplication env w = (Return nullptr, w1)"
    and w1: "w1 = snd (getApplication env w)"
    using getApplication_swallows [OF assms] by simp
  have "checkAppComponentFactory_try env w = (Return False, w1)"
    unfolding checkAppComponentFactory_try_factoryCheck
    by (simp add: bnd_def g factoryCheck_def ret_def)
  then show ?thesis
    unfolding checkAppComponentFactory_def w1 by (rule try_catch_Return)
qed

lemma factory_after:
  assumes "thrown (snd (checkAppComponentFactory env w)) \<noteq> thrown (snd (getApplication env w))"
  shows "fst (checkAppComponentFactory env w) = Return True"
proof -
  obtain r w1 where g: "getApplication env w = (r, w1)"
    by (cases "getApplication env w") auto
  show ?thesis
  proof (cases r)
    case (Return application)
    with g have eq: "checkAppComponentFactory env w
        = try_catch (factoryCheck env application) (\<lambda>e. ret True) w1"
      by (simp add: checkAppComponentFactory_def checkAppComponentFactory_try_factoryCheck
          try_catch_def bnd_def)
    with assms g
    have "thrown (snd (try_catch (factoryCheck env application) (\<lambda>e. ret True) w1)) \<noteq> thrown w1"
      by simp
    from plain_probe [OF plain_factoryCheck this] eq show ?thesis
      by simp
  next
    case (Throw e)
    with g try_catch_no_Throw [of "getApplication_try env" nullptr w e] show ?thesis
      by (simp add: getApplication_def)
  next
    case Abort
    with g have "checkAppComponentFactory env w = (Abort, w1)"
      by (simp add: checkAppComponentFactory_def checkAppComponentFactory_try_factoryCheck
          try_catch_def bnd_def)
    with assms g show ?thesis
      by simp
  qed
qed

lemma reported_throw:
  assumes "thrown (snd (reportedApkPaths env context w)) \<noteq> thrown w"
  shows "fst (checkApkPaths env context w) = Return True"
proof -
  from plainD [OF plain_reportedApkPaths assms]
  obtain e where "fst (reportedApkPaths env context w) = Throw e" ..
  then obtain w5 where "reportedApkPaths env context w = (Throw e, w5)"
    by (cases "reportedApkPaths env context w") auto
  then have "fst (collectApkPaths env context w) = Throw e"
    unfolding collectApkPaths_reported by (simp add: bnd_def)
  then show ?thesis
    unfolding checkApkPaths_cases by (cases "collectApkPaths env context w") simp
qed

lemma native_swallowed:
  assumes "reportedApkPaths env context w = (Return five, w5)"
    and "thrown (snd (getApkPath env context w5)) \<noteq> thrown w5"
  shows "collectApkPaths env context w = (Return five, snd (getApkPath env context w5))"
proof -
  from getApkPath_swallows [OF assms(2)]
  have "nativeApkPath env context w5 = (Return [], snd (getApkPath env context w5))"
    unfolding nativeApkPath_def by (rule try_catch_Return)
  with assms(1) show ?thesis
    unfolding collectApkPaths_reported by (simp add: bnd_def ret_def)
qed

lemma native_swallowed_result:
  assumes "reportedApkPaths env context w = (Return five, w5)"
    and "thrown (snd (getApkPath env context w5)) \<noteq> thrown w5"
  shows "fst (checkApkPaths env context w)
         = fst (checkPaths five (snd (getApkPath env context w5)))"
  unfolding checkApkPaths_cases native_swallowed [OF assms] by simp

lemma checkApkPaths_thrown:
  assumes "thrown (snd (checkApkPaths env context w)) \<noteq> thrown w"
  shows "fst (checkApkPaths env context w) = Return True
     \<or> (\<exists>five w5. reportedApkPaths env context w = (Return five, w5)
           \<and> thrown (snd (getApkPath env context w5)) \<noteq> thrown w5)"
proof (cases "thrown (snd (reportedApkPaths env context w)) = thrown w")
  case False
  then show ?thesis
    by (simp add: reported_throw)
next
  case True
  obtain r w5 where rep: "reportedApkPaths env context w = (r, w5)"
    by (cases "reportedApkPaths env context w") auto
  with True have t5: "thrown w5 = thrown w"
    by simp
  from assms have c: "thrown (snd (collectApkPaths env context w)) \<noteq> thrown w"
    by (simp add: checkApkPaths_frame)
  show ?thesis
  proof (cases r)
    case (Return five)
    obtain x w6 where nat: "nativeApkPath env context w5 = (x, w6)"
      by (cases "nativeApkPath env context w5") auto
    from rep Return nat have "thrown (snd (collectApkPaths env context w)) = thrown w6"
      unfolding collectApkPaths_reported
      by (cases x) (simp_all add: bnd_def ret_def)
    with c t5 nat nativeApkPath_thrown [of env "context" w5]
    have "thrown (snd (getApkPath env context w5)) \<noteq> thrown w5"
      by simp
    with rep Return show ?thesis
      by blast
  next
    case (Throw e)
    with rep plain_ThrowD [OF plain_reportedApkPaths, of env "context" w e w5] t5
    show ?thesis by simp
  next
    case Abort
    with rep have "collectApkPaths env context w = (Abort, w5)"
      unfolding collectApkPaths_reported by (simp add: bnd_def)
    with c t5 show ?thesis
      by simp
  qed
qed

text \<open>
  C8, as amended.  No probe lets an exception out, and every exception that leaves the
  body of a probe's \<open>try\<close> block is caught there and makes the probe return
  \<open>suspicious = true\<close>, in the state the body left.  For \<open>checkCreator\<close>,
  \<open>checkField\<close>, \<open>checkCreators\<close> and \<open>checkPMProxy\<close> this is every exception thrown
  while the \<open>try\<close> block runs.  The \<open>try\<close> blocks of \<open>checkAppComponentFactory\<close> and
  \<open>checkApkPaths\<close> call \<open>getApplication\<close> and \<open>getApkPath\<close>, which catch their own
  exceptions.  An exception thrown inside \<open>getApplication\<close> makes
  \<open>checkAppComponentFactory\<close> return \<open>false\<close>; an exception thrown inside
  \<open>getApkPath\<close> makes \<open>checkApkPaths\<close> go on with the five reported paths, whose
  checks decide the result.  Every other exception thrown in these two \<open>try\<close> blocks
  gives \<open>true\<close>.
\<close>

theorem probes_fail_closed:
  "(fst (checkCreator_try env w) = Throw e \<longrightarrow>
      checkCreator env w = (Return True, snd (checkCreator_try env w)))
   \<and> (fst (checkField_try env w) = Throw e \<longrightarrow>
      checkField env w = (Return True, snd (checkField_try env w)))
   \<and> (fst (checkCreators_try env w) = Throw e \<longrightarrow>
      checkCreators env w = (Return True, snd (checkCreators_try env w)))
   \<and> (fst (checkPMProxy_try env context w) = Throw e \<longrightarrow>
      checkPMProxy env context w = (Return True, snd (checkPMProxy_try env context w)))
   \<and> (fst (checkAppComponentFactory_try env w) = Throw e \<longrightarrow>
      checkAppComponentFactory env w = (Return True, snd (checkAppComponentFactory_try env w)))
   \<and> (fst (checkApkPaths_try env context w) = Throw e \<longrightarrow>
      checkApkPaths env context w = (Return True, snd (checkApkPaths_try env context w)))
   \<and> fst (checkCreator env w) \<noteq> Throw e'
   \<and> fst (checkField env w) \<noteq> Throw e'
   \<and> fst (checkCreators env w) \<noteq> Throw e'
   \<and> fst (checkPMProxy env context w) \<noteq> Throw e'
   \<and> fst (checkAppComponentFactory env w) \<noteq> Throw e'
   \<and> fst (checkApkPaths env context w) \<noteq> Throw e'
   \<and> (thrown (snd (checkCreator env w)) \<noteq> thrown w \<longrightarrow>
      fst (checkCreator env w) = Return True)
   \<and> (thrown (snd (checkField env w)) \<noteq> thrown w \<longrightarrow>
      fst (checkField env w) = Return True)
   \<and> (thrown (snd (checkCreators env w)) \<noteq> thrown w \<longrightarrow>
      fst (checkCreators env w) = Return True)
   \<and> (thrown (snd (checkPMProxy env context w)) \<noteq> thrown w \<longrightarrow>
      fst (checkPMProxy env context w) = Return True)
   \<and> (thrown (snd (checkAppComponentFactory env w)) \<noteq> thrown (snd (getApplication env w)) \<longrightarrow>
      fst (checkAppComponentFactory env w) = Return True)
   \<and> (thrown (snd (getApplication env w)) \<noteq> thrown w \<longrightarrow>
      checkAppComponentFactory env w = (Return False, snd (getApplication env w)))
   \<and> (thrown (snd (reportedApkPaths env context w)) \<noteq> thrown w \<longrightarrow>
      fst (checkApkPaths env context w) = Return True)
   \<and> (reportedApkPaths env context w = (Return five, w5)
      \<and> thrown (snd (getApkPath env context w5)) \<noteq> thrown w5 \<longrightarrow>
      fst (checkApkPaths env context w)
        = fst (checkPaths five (snd (getApkPath env context w5))))
   \<and> (thrown (snd (checkApkPaths env context w)) \<noteq> thrown w \<longrightarrow>
      fst (checkApkPaths env context w) = Return True
      \<or> (\<exists>five w5. reportedApkPaths env context w = (Return five, w5)
            \<and> thrown (snd (getApkPath env context w5)) \<noteq> thrown w5))
   \<and> checkAppComponentFactory_try env = bnd (getApplication env) (factoryCheck env)
   \<and> collectApkPaths env context =
       bnd (reportedApkPaths env context) (\<lambda>five.
       bnd (nativeApkPath env context) (\<lambda>nativeApkPath.
       ret (five @ (if nativeApkPath \<noteq> [] then [nativeApkPath] else []))))
   \<and> nativeApkPath env context = try_catch (getApkPath env context) (\<lambda>e. ret [])
   \<and> getApkPath env context = try_catch (getApkPath_try env context) (\<lambda>e. ret [])
   \<and> plain (checkCreator_try env)
   \<and> plain (checkField_try env)
   \<and> plain (checkCreators_try env)
   \<and> plain (checkPMProxy_try env context)
   \<and> plain (getApplication_try env)
   \<and> plain (factoryCheck env application)
   \<and> plain (reportedApkPaths env context)
   \<and> plain (getApkPath_try env context)
   \<and> plain (checkPaths paths)"
proof -
  have a: "fst (m w) = Throw e \<longrightarrow> try_catch m (\<lambda>e. ret True) w = (Return True, snd (m w))"
    for m :: "(bool, ('a, 'b) world) prog"
    by (simp add: try_catch_Throw)
  have b: "plain m \<Longrightarrow> thrown (snd (try_catch m (\<lambda>e. ret True) w)) \<noteq> thrown w \<longrightarrow>
      fst (try_catch m (\<lambda>e. ret True) w) = Return True"
    for m :: "(bool, ('a, 'b) world) prog"
    by (simp add: plain_probe)
  show ?thesis
    unfolding checkCreator_def checkField_def checkCreators_def checkPMProxy_def
  proof (intro conjI)
    show "thrown (snd (checkAppComponentFactory env w)) \<noteq> thrown (snd (getApplication env w)) \<longrightarrow>
      fst (checkAppComponentFactory env w) = Return True"
      by (simp add: factory_after)
    show "thrown (snd (getApplication env w)) \<noteq> thrown w \<longrightarrow>
      checkAppComponentFactory env w = (Return False, snd (getApplication env w))"
      by (simp add: factory_swallowed)
    show "thrown (snd (reportedApkPaths env context w)) \<noteq> thrown w \<longrightarrow>
      fst (checkApkPaths env context w) = Return True"
      by (simp add: reported_throw)
    show "reportedApkPaths env context w = (Return five, w5)
      \<and> thrown (snd (getApkPath env context w5)) \<noteq> thrown w5 \<longrightarrow>
      fst (checkApkPaths env context w)
        = fst (checkPaths five (snd (getApkPath env context w5)))"
      using native_swallowed_result [of env "context" w five w5] by blast
    show "thrown (snd (checkApkPaths env context w)) \<noteq> thrown w \<longrightarrow>
      fst (checkApkPaths env context w) = Return True
      \<or> (\<exists>five w5. reportedApkPaths env context w = (Return five, w5)
            \<and> thrown (snd (getApkPath env context w5)) \<noteq> thrown w5)"
      using checkApkPaths_thrown [of env "context" w] by blast
    show "fst (checkAppComponentFactory_try env w) = Throw e \<longrightarrow>
      checkAppComponentFactory env w = (Return True, snd (checkAppComponentFactory_try env w))"
      unfolding checkAppComponentFactory_def by (rule a)
    show "fst (checkApkPaths_try env context w) = Throw e \<longrightarrow>
      checkApkPaths env context w = (Return True, snd (checkApkPaths_try env context w))"
      unfolding checkApkPaths_def by (rule a)
    show "fst (checkAppComponentFactory env w) \<noteq> Throw e'"
      unfolding checkAppComponentFactory_def by (rule try_catch_no_Throw)
    show "fst (checkApkPaths env context w) \<noteq> Throw e'"
      unfolding checkApkPaths_def by (rule try_catch_no_Throw)
    show "collectApkPaths env context =
       bnd (reportedApkPaths env context) (\<lambda>five.
       bnd (nativeApkPath env context) (\<lambda>nativeApkPath.
       ret (five @ (if nativeApkPath \<noteq> [] then [nativeApkPath] else []))))"
      by (rule collectApkPaths_reported)
  qed (rule a b [OF plain_checkCreator_try] b [OF plain_checkField_try]
      b [OF plain_checkCreators_try] b [OF plain_checkPMProxy_try] try_catch_no_Throw
      checkAppComponentFactory_try_factoryCheck nativeApkPath_def getApkPath_eq
      plain_checkCreator_try plain_checkField_try plain_checkCreators_try
      plain_checkPMProxy_try plain_getApplication_try plain_factoryCheck
      plain_reportedApkPaths plain_getApkPath_try plain_checkPaths)+
qed

theorem probes_fail_closed_witness:
  "fst (checkCreator (android_env broken) stock_world) = Return True
   \<and> fst (checkField (android_env broken) stock_world) = Return True
   \<and> fst (checkCreators (android_env broken) stock_world) = Return True
   \<and> fst (checkPMProxy (android_env broken) 1 stock_world) = Return True
   \<and> fst (checkAppComponentFactory (android_env broken) stock_world) = Return True
   \<and> fst (checkApkPaths (android_env broken) 1 stock_world) = Return True
   \<and> thrown stock_world = []
   \<and> thrown (snd (checkCreator (android_env broken) stock_world))
       = [JNIException ''JNI exception occurred'' NoClassDefFoundError]
   \<and> thrown (snd (checkField (android_env broken) stock_world))
       = [JNIException ''JNI exception occurred'' NoClassDefFoundError]
   \<and> thrown (snd (checkCreators (android_env broken) stock_world))
       = [JNIException ''JNI exception occurred'' NoClassDefFoundError]
   \<and> thrown (snd (checkPMProxy (android_env broken) 1 stock_world))
       = [JNIException ''JNI exception occurred'' NoSuchMethodError]
   \<and> thrown (snd (getApplication (android_env broken) stock_world)) = []
   \<and> thrown (snd (checkAppComponentFactory (android_env broken) stock_world))
       = [JNIException ''JNI exception occurred'' NoSuchMethodError]
   \<and> thrown (snd (getApplication (android_env no_activity_thread) stock_world))
       = [JNIException ''JNI exception occurred'' NoClassDefFoundError]
   \<and> fst (checkAppComponentFactory (android_env no_activity_thread) stock_world) = Return False
   \<and> thrown (snd (reportedApkPaths (android_env broken) 1 stock_world))
       = [JNIException ''JNI exception occurred'' NoSuchMethodError]
   \<and> fst (reportedApkPaths (remembering_env stock Raises) 1
         (remembering_world (one_file apk 0x81A4 1000 False))) = Return [apk, apk, apk, apk, apk]
   \<and> thrown (snd (reportedApkPaths (remembering_env stock Raises) 1
         (remembering_world (one_file apk 0x81A4 1000 False)))) = []
   \<and> thrown (snd (getApkPath (remembering_env stock Raises) 1
         (snd (reportedApkPaths (remembering_env stock Raises) 1
           (remembering_world (one_file apk 0x81A4 1000 False))))))
       = [JNIException ''JNI exception occurred'' RuntimeException]
   \<and> fst (checkPaths [apk, apk, apk, apk, apk]
         (snd (getApkPath (remembering_env stock Raises) 1
           (snd (reportedApkPaths (remembering_env stock Raises) 1
             (remembering_world (one_file apk 0x81A4 1000 False))))))) = Return False
   \<and> fst (checkApkPaths (remembering_env stock Raises) 1
         (remembering_world (one_file apk 0x81A4 1000 False))) = Return False
   \<and> (fst (checkApkPaths (remembering_env stock Raises) 1
          (remembering_world (one_file apk 0x81A4 1000 False))) = Return True
      \<or> (\<exists>five w5.
            reportedApkPaths (remembering_env stock Raises) 1
              (remembering_world (one_file apk 0x81A4 1000 False)) = (Return five, w5)
            \<and> thrown (snd (getApkPath (remembering_env stock Raises) 1 w5)) \<noteq> thrown w5))"
proof -
  let ?B = "android_env broken"
  let ?N = "android_env no_activity_thread"
  let ?e = "JNIException ''JNI exception occurred'' NoClassDefFoundError"
  let ?m = "JNIException ''JNI exception occurred'' NoSuchMethodError"
  let ?r = "JNIException ''JNI exception occurred'' RuntimeException"
  have a: "fst (checkCreator_try ?B stock_world) = Throw ?e"
    by code_simp
  have b: "fst (checkField_try ?B stock_world) = Throw ?e"
    by code_simp
  have c: "fst (checkCreators_try ?B stock_world) = Throw ?e"
    by code_simp
  have d: "fst (checkPMProxy_try ?B 1 stock_world) = Throw ?m"
    by code_simp
  have e: "fst (checkAppComponentFactory_try ?B stock_world) = Throw ?m"
    by code_simp
  have f: "fst (checkApkPaths_try ?B 1 stock_world) = Throw ?m"
    by code_simp
  note t = probes_fail_closed [of ?B stock_world ?e 1]
  note u = probes_fail_closed [of ?B stock_world ?m 1]
  from t [THEN conjunct1] a have "checkCreator ?B stock_world
      = (Return True, snd (checkCreator_try ?B stock_world))"
    by (rule mp)
  then have a': "fst (checkCreator ?B stock_world) = Return True"
    by simp
  from t [THEN conjunct2, THEN conjunct1] b have "checkField ?B stock_world
      = (Return True, snd (checkField_try ?B stock_world))"
    by (rule mp)
  then have b': "fst (checkField ?B stock_world) = Return True"
    by simp
  from t [THEN conjunct2, THEN conjunct2, THEN conjunct1] c have "checkCreators ?B stock_world
      = (Return True, snd (checkCreators_try ?B stock_world))"
    by (rule mp)
  then have c': "fst (checkCreators ?B stock_world) = Return True"
    by simp
  from u [THEN conjunct2, THEN conjunct2, THEN conjunct2, THEN conjunct1] d have "checkPMProxy ?B 1 stock_world
      = (Return True, snd (checkPMProxy_try ?B 1 stock_world))"
    by (rule mp)
  then have d': "fst (checkPMProxy ?B 1 stock_world) = Return True"
    by simp
  from u [THEN conjunct2, THEN conjunct2, THEN conjunct2, THEN conjunct2, THEN conjunct1] e have "checkAppComponentFactory ?B stock_world
      = (Return True, snd (checkAppComponentFactory_try ?B stock_world))"
    by (rule mp)
  then have e': "fst (checkAppComponentFactory ?B stock_world) = Return True"
    by simp
  from u [THEN conjunct2, THEN conjunct2, THEN conjunct2, THEN conjunct2, THEN conjunct2, THEN conjunct1] f have "checkApkPaths ?B 1 stock_world
      = (Return True, snd (checkApkPaths_try ?B 1 stock_world))"
    by (rule mp)
  then have f': "fst (checkApkPaths ?B 1 stock_world) = Return True"
    by simp
  \<comment> \<open>the history of the exceptions\<close>
  have g: "thrown stock_world = []"
    by code_simp
  have h1: "thrown (snd (checkCreator ?B stock_world)) = [?e]"
    by code_simp
  have h2: "thrown (snd (checkField ?B stock_world)) = [?e]"
    by code_simp
  have h3: "thrown (snd (checkCreators ?B stock_world)) = [?e]"
    by code_simp
  have h4: "thrown (snd (checkPMProxy ?B 1 stock_world)) = [?m]"
    by code_simp
  from h1 g have "thrown (snd (checkCreator ?B stock_world)) \<noteq> thrown stock_world"
    by simp
  with t [THEN conjunct2, THEN conjunct2, THEN conjunct2, THEN conjunct2, THEN conjunct2, THEN conjunct2, THEN conjunct2, THEN conjunct2, THEN conjunct2, THEN conjunct2, THEN conjunct2, THEN conjunct2, THEN conjunct1] have "fst (checkCreator ?B stock_world) = Return True"
    by (rule mp)
  from h2 g have "thrown (snd (checkField ?B stock_world)) \<noteq> thrown stock_world"
    by simp
  with t [THEN conjunct2, THEN conjunct2, THEN conjunct2, THEN conjunct2, THEN conjunct2, THEN conjunct2, THEN conjunct2, THEN conjunct2, THEN conjunct2, THEN conjunct2, THEN conjunct2, THEN conjunct2, THEN conjunct2, THEN conjunct1] have "fst (checkField ?B stock_world) = Return True"
    by (rule mp)
  from h3 g have "thrown (snd (checkCreators ?B stock_world)) \<noteq> thrown stock_world"
    by simp
  with t [THEN conjunct2, THEN conjunct2, THEN conjunct2, THEN conjunct2, THEN conjunct2, THEN conjunct2, THEN conjunct2, THEN conjunct2, THEN conjunct2, THEN conjunct2, THEN conjunct2, THEN conjunct2, THEN conjunct2, THEN conjunct2, THEN conjunct1] have "fst (checkCreators ?B stock_world) = Return True"
    by (rule mp)
  from h4 g have "thrown (snd (checkPMProxy ?B 1 stock_world)) \<noteq> thrown stock_world"
    by simp
  with t [THEN conjunct2, THEN conjunct2, THEN conjunct2, THEN conjunct2, THEN conjunct2, THEN conjunct2, THEN conjunct2, THEN conjunct2, THEN conjunct2, THEN conjunct2, THEN conjunct2, THEN conjunct2, THEN conjunct2, THEN conjunct2, THEN conjunct2, THEN conjunct1] have "fst (checkPMProxy ?B 1 stock_world) = Return True"
    by (rule mp)
  \<comment> \<open>\<open>getApplication\<close>\<close>
  have i1: "thrown (snd (getApplication ?B stock_world)) = []"
    by code_simp
  have i2: "thrown (snd (checkAppComponentFactory ?B stock_world)) = [?m]"
    by code_simp
  from i1 i2 have "thrown (snd (checkAppComponentFactory ?B stock_world))
      \<noteq> thrown (snd (getApplication ?B stock_world))"
    by simp
  with t [THEN conjunct2, THEN conjunct2, THEN conjunct2, THEN conjunct2, THEN conjunct2, THEN conjunct2, THEN conjunct2, THEN conjunct2, THEN conjunct2, THEN conjunct2, THEN conjunct2, THEN conjunct2, THEN conjunct2, THEN conjunct2, THEN conjunct2, THEN conjunct2, THEN conjunct1] have "fst (checkAppComponentFactory ?B stock_world) = Return True"
    by (rule mp)
  have j1: "thrown (snd (getApplication ?N stock_world)) = [?e]"
    by code_simp
  with g have "thrown (snd (getApplication ?N stock_world)) \<noteq> thrown stock_world"
    by simp
  with probes_fail_closed [of ?N stock_world _ 1, THEN conjunct2, THEN conjunct2, THEN conjunct2, THEN conjunct2, THEN conjunct2, THEN conjunct2, THEN conjunct2, THEN conjunct2, THEN conjunct2, THEN conjunct2, THEN conjunct2, THEN conjunct2, THEN conjunct2, THEN conjunct2, THEN conjunct2, THEN conjunct2, THEN conjunct2, THEN conjunct1]
  have "checkAppComponentFactory ?N stock_world
      = (Return False, snd (getApplication ?N stock_world))"
    by (rule mp)
  then have j2: "fst (checkAppComponentFactory ?N stock_world) = Return False"
    by simp
  \<comment> \<open>\<open>getApkPath\<close>\<close>
  have k1: "thrown (snd (reportedApkPaths ?B 1 stock_world)) = [?m]"
    by code_simp
  with g have "thrown (snd (reportedApkPaths ?B 1 stock_world)) \<noteq> thrown stock_world"
    by simp
  with t [THEN conjunct2, THEN conjunct2, THEN conjunct2, THEN conjunct2, THEN conjunct2, THEN conjunct2, THEN conjunct2, THEN conjunct2, THEN conjunct2, THEN conjunct2, THEN conjunct2, THEN conjunct2, THEN conjunct2, THEN conjunct2, THEN conjunct2, THEN conjunct2, THEN conjunct2, THEN conjunct2, THEN conjunct1] have "fst (checkApkPaths ?B 1 stock_world) = Return True"
    by (rule mp)
  let ?R = "remembering_env stock Raises"
  let ?W = "remembering_world (one_file apk 0x81A4 1000 False)"
  let ?five = "[apk, apk, apk, apk, apk]"
  define w5 where "w5 = snd (reportedApkPaths ?R 1 ?W)"
  have l1: "fst (reportedApkPaths ?R 1 ?W) = Return ?five"
    by code_simp
  then have l1': "reportedApkPaths ?R 1 ?W = (Return ?five, w5)"
    unfolding w5_def by (simp add: prod_eq_iff)
  have l2: "thrown w5 = []"
    unfolding w5_def by code_simp
  have l3: "thrown (snd (getApkPath ?R 1 w5)) = [?r]"
    unfolding w5_def by code_simp
  have l4: "fst (checkPaths ?five (snd (getApkPath ?R 1 w5))) = Return False"
    unfolding w5_def by code_simp
  from l2 l3 have "thrown (snd (getApkPath ?R 1 w5)) \<noteq> thrown w5"
    by simp
  with l1' have "reportedApkPaths ?R 1 ?W = (Return ?five, w5)
      \<and> thrown (snd (getApkPath ?R 1 w5)) \<noteq> thrown w5" ..
  with probes_fail_closed [of ?R ?W _ 1 _ ?five w5, THEN conjunct2, THEN conjunct2, THEN conjunct2, THEN conjunct2, THEN conjunct2, THEN conjunct2, THEN conjunct2, THEN conjunct2, THEN conjunct2, THEN conjunct2, THEN conjunct2, THEN conjunct2, THEN conjunct2, THEN conjunct2, THEN conjunct2, THEN conjunct2, THEN conjunct2, THEN conjunct2, THEN conjunct2, THEN conjunct1]
  have "fst (checkApkPaths ?R 1 ?W) = fst (checkPaths ?five (snd (getApkPath ?R 1 w5)))"
    by (rule mp)
  with l4 have l5: "fst (checkApkPaths ?R 1 ?W) = Return False"
    by simp
  have l6: "thrown (snd (checkApkPaths ?R 1 ?W)) = [?r]"
    by code_simp
  have l7: "thrown ?W = []"
    by code_simp
  from l6 l7 have "thrown (snd (checkApkPaths ?R 1 ?W)) \<noteq> thrown ?W"
    by simp
  with probes_fail_closed [of ?R ?W _ 1, THEN conjunct2, THEN conjunct2, THEN conjunct2, THEN conjunct2, THEN conjunct2, THEN conjunct2, THEN conjunct2, THEN conjunct2, THEN conjunct2, THEN conjunct2, THEN conjunct2, THEN conjunct2, THEN conjunct2, THEN conjunct2, THEN conjunct2, THEN conjunct2, THEN conjunct2, THEN conjunct2, THEN conjunct2, THEN conjunct2, THEN conjunct1]
  have l8: "fst (checkApkPaths ?R 1 ?W) = Return True
      \<or> (\<exists>five w5. reportedApkPaths ?R 1 ?W = (Return five, w5)
            \<and> thrown (snd (getApkPath ?R 1 w5)) \<noteq> thrown w5)"
    by (rule mp)
  from a' b' c' d' e' f' g h1 h2 h3 h4 i1 i2 j1 j2 k1 l1 l2 [unfolded w5_def]
    l3 [unfolded w5_def] l4 [unfolded w5_def] l5 l8
  show ?thesis
    by (intro conjI)
qed

text \<open>
  C8 as stated fails for two probes.  Where the class \<open>ActivityThread\<close> cannot be
  found, a \<open>JNIException\<close> is thrown while the \<open>try\<close> block of
  \<open>checkAppComponentFactory\<close> runs, and the probe returns \<open>false\<close>.  Where the context
  raises an exception on its second \<open>getApplicationInfo\<close>, a \<open>JNIException\<close> is thrown
  while the \<open>try\<close> block of \<open>checkApkPaths\<close> runs, and the probe returns \<open>false\<close>.
\<close>

theorem probes_fail_closed_counterexample:
  "thrown stock_world = []
   \<and> fst (getApplication_try (android_env no_activity_thread) stock_world)
       = Throw (JNIException ''JNI exception occurred'' NoClassDefFoundError)
   \<and> thrown (snd (checkAppComponentFactory_try (android_env no_activity_thread) stock_world))
       = [JNIException ''JNI exception occurred'' NoClassDefFoundError]
   \<and> fst (checkAppComponentFactory (android_env no_activity_thread) stock_world) = Return False
   \<and> thrown (remembering_world (one_file apk 0x81A4 1000 False)) = []
   \<and> thrown (snd (checkApkPaths_try (remembering_env stock Raises) 1
         (remembering_world (one_file apk 0x81A4 1000 False))))
       = [JNIException ''JNI exception occurred'' RuntimeException]
   \<and> fst (checkApkPaths (remembering_env stock Raises) 1
         (remembering_world (one_file apk 0x81A4 1000 False))) = Return False"
proof -
  let ?N = "android_env no_activity_thread"
  let ?R = "remembering_env stock Raises"
  let ?W = "remembering_world (one_file apk 0x81A4 1000 False)"
  have a: "thrown stock_world = []"
    by code_simp
  have b: "fst (getApplication_try ?N stock_world)
       = Throw (JNIException ''JNI exception occurred'' NoClassDefFoundError)"
    by code_simp
  have c: "thrown (snd (checkAppComponentFactory_try ?N stock_world))
       = [JNIException ''JNI exception occurred'' NoClassDefFoundError]"
    by code_simp
  have e: "fst (checkAppComponentFactory ?N stock_world) = Return False"
    by code_simp
  have f: "thrown ?W = []"
    by code_simp
  have g: "thrown (snd (checkApkPaths_try ?R 1 ?W))
       = [JNIException ''JNI exception occurred'' RuntimeException]"
    by code_simp
  have h: "fst (checkApkPaths ?R 1 ?W) = Return False"
    by code_simp
  from a b c e f g h show ?thesis
    by (intro conjI)
qed

end
